theory Spec2Isabelle
  imports Complex_Main "HOL-Library.Word" "HOL-Library.Char_ord" "HOL-Library.List_Lexorder"
begin

section \<open>Python values and errors\<close>

text \<open>
  The exceptions that the modelled functions of \<^verbatim>\<open>main_DiffeoMappingNet.py\<close> can raise.
  A raising computation returns \<open>Inl e\<close>; a computation that returns \<open>v\<close> returns \<open>Inr v\<close>.
\<close>

datatype py_error =
    AssertionError
  | ValueError
  | TypeError
  | ZeroDivisionError
  | RuntimeError
  | IndexError
  | AttributeError string
  | NameError string
  | BdbQuit

text \<open>
  File paths are Python \<^verbatim>\<open>str\<close> values. They are modelled as lists of 8-bit characters,
  a character being its code point; among the code points below 256 the decimal digits
  that \<^verbatim>\<open>\d\<close> matches and \<^verbatim>\<open>int\<close> reads are exactly \<^verbatim>\<open>0\<close> to \<^verbatim>\<open>9\<close>.
\<close>

definition is_digit :: "char \<Rightarrow> bool" where
  "is_digit c = (c \<in> set ''0123456789'')"

definition digit_val :: "char \<Rightarrow> nat" where
  "digit_val c = of_char c - 48"

definition digits_to_nat :: "string \<Rightarrow> nat" where
  "digits_to_nat ds = foldl (\<lambda>a c. 10 * a + digit_val c) 0 ds"

text \<open>Texts of the form \<^verbatim>\<open>-?[0-9]+\<close>, the only ones \<^verbatim>\<open>int\<close> is called on here.\<close>

definition signed_int_text :: "string \<Rightarrow> bool" where
  "signed_int_text g =
     (case g of
        [] \<Rightarrow> False
      | c # ds \<Rightarrow> if c = CHR ''-'' then ds \<noteq> [] \<and> list_all is_digit ds
                  else list_all is_digit (c # ds))"

text \<open>
  \<^verbatim>\<open>int(text)\<close> on a decimal literal with an optional minus sign. Python's integers are
  unbounded. Any other text is answered with \<^verbatim>\<open>ValueError\<close>; no such text reaches
  \<^verbatim>\<open>int\<close> from the groups of the pattern below.
\<close>

definition py_int :: "string \<Rightarrow> py_error + int" where
  "py_int g =
     (if \<not> signed_int_text g then Inl ValueError
      else if hd g = CHR ''-'' then Inr (- int (digits_to_nat (tl g)))
      else Inr (int (digits_to_nat g)))"

section \<open>The offset pattern of a patch file name\<close>

text \<open>
  \<^verbatim>\<open>re.findall('H(-?\d+)_W(-?\d+)', file_path)\<close>.
  \<open>match_int\<close> is the group \<^verbatim>\<open>(-?\d+)\<close> tried at the head of a text: an optional minus sign
  and then the longest run of digits, which must not be empty. In the first group the run
  is followed by \<^verbatim>\<open>_\<close>, which is no digit, and the second group ends the pattern, so the
  greedy run is the only one the backtracking matcher can settle on.
\<close>

definition match_digits :: "string \<Rightarrow> (string \<times> string) option" where
  "match_digits s =
     (if takeWhile is_digit s = [] then None
      else Some (takeWhile is_digit s, dropWhile is_digit s))"

definition match_int :: "string \<Rightarrow> (string \<times> string) option" where
  "match_int s =
     (case s of
        [] \<Rightarrow> None
      | c # cs \<Rightarrow>
          if c = CHR ''-'' then
            (case match_digits cs of
               None \<Rightarrow> None
             | Some (ds, rest) \<Rightarrow> Some (c # ds, rest))
          else match_digits s)"

text \<open>The whole pattern tried at the head of a text: the two groups and the text left over.\<close>

definition match_hw :: "string \<Rightarrow> ((string \<times> string) \<times> string) option" where
  "match_hw s =
     (case s of
        [] \<Rightarrow> None
      | c # cs \<Rightarrow>
          if c \<noteq> CHR ''H'' then None
          else (case match_int cs of
                  None \<Rightarrow> None
                | Some (g1, r1) \<Rightarrow>
                    (case r1 of
                       u # v # r2 \<Rightarrow>
                         if u = CHR ''_'' \<and> v = CHR ''W'' then
                           (case match_int r2 of
                              None \<Rightarrow> None
                            | Some (g2, rest) \<Rightarrow> Some ((g1, g2), rest))
                         else None
                     | _ \<Rightarrow> None)))"

lemma match_digits_length:
  "match_digits s = Some (ds, rest) \<Longrightarrow> length rest < length s"
proof -
  assume a: "match_digits s = Some (ds, rest)"
  then have ne: "takeWhile is_digit s \<noteq> []" and r: "rest = dropWhile is_digit s"
    by (auto simp: match_digits_def split: if_splits)
  have "length (takeWhile is_digit s) + length (dropWhile is_digit s) = length s"
    by (metis length_append takeWhile_dropWhile_id)
  with ne r show ?thesis by (cases "takeWhile is_digit s") auto
qed

lemma match_int_length:
  "match_int s = Some (g, rest) \<Longrightarrow> length rest < length s"
  by (auto simp: match_int_def split: list.splits if_splits option.splits
           dest!: match_digits_length)

lemma match_hw_length:
  "match_hw s = Some (g, rest) \<Longrightarrow> length rest < length s"
  by (auto simp: match_hw_def split: list.splits if_splits option.splits
           dest!: match_int_length)

text \<open>
  \<^verbatim>\<open>findall\<close> scans from the left: where the pattern matches, the groups are recorded and
  the scan goes on behind the match; elsewhere it moves one character on.
\<close>

function findall_hw :: "string \<Rightarrow> (string \<times> string) list" where
  "findall_hw s =
     (if s = [] then []
      else (case match_hw s of
              Some (g, rest) \<Rightarrow> g # findall_hw rest
            | None \<Rightarrow> findall_hw (tl s)))"
  by pat_completeness auto
termination
  by (relation "measure length") (auto dest: match_hw_length)

declare findall_hw.simps [simp del]

text \<open>
  \<^verbatim>\<open>
  def extract_h_w(file_path):
      h_w = re.findall('H(-?\d+)_W(-?\d+)', file_path)
      assert len(h_w) == 1
      h = int(h_w[0][0])
      w = int(h_w[0][1])
      return h, w
  \<close>
\<close>

definition extract_h_w :: "string \<Rightarrow> py_error + (int \<times> int)" where
  "extract_h_w file_path =
     (let h_w = findall_hw file_path in
      if length h_w \<noteq> 1 then Inl AssertionError
      else (case py_int (fst (h_w ! 0)) of
              Inl e \<Rightarrow> Inl e
            | Inr h \<Rightarrow>
                (case py_int (snd (h_w ! 0)) of
                   Inl e \<Rightarrow> Inl e
                 | Inr w \<Rightarrow> Inr (h, w))))"

section \<open>Arrays and slices\<close>

text \<open>
  A two-dimensional numpy array: its shape and its elements by row and column index.
  Only the elements inside the shape are ever read. \<open>uint8\<close> is the element type of the
  label images (\<^verbatim>\<open>cv2.IMREAD_GRAYSCALE\<close>, \<^verbatim>\<open>dtype=np.uint8\<close>).
\<close>

type_synonym uint8 = "8 word"

datatype 'a ndarray = NDArray (shape0: nat) (shape1: nat) (cell: "nat \<Rightarrow> nat \<Rightarrow> 'a")

definition np_zeros :: "nat \<times> nat \<Rightarrow> uint8 ndarray" where
  "np_zeros sz = NDArray (fst sz) (snd sz) (\<lambda>i j. 0)"

text \<open>
  A bound of a Python slice \<^verbatim>\<open>x[a:b]\<close> on an axis of length \<open>n\<close>: a negative bound counts
  from the end, and every bound is clamped to \<open>0..n\<close>. \<open>slice_range\<close> gives the first index
  of the slice and its length; a slice whose stop is not behind its start is empty.
\<close>

definition slice_index :: "nat \<Rightarrow> int \<Rightarrow> nat" where
  "slice_index n i = (if i < 0 then nat (max 0 (int n + i)) else min n (nat i))"

definition slice_range :: "nat \<Rightarrow> int \<times> int \<Rightarrow> nat \<times> nat" where
  "slice_range n r =
     (let lo = slice_index n (fst r); hi = slice_index n (snd r) in (lo, hi - lo))"

text \<open>\<^verbatim>\<open>x[a0:b0, a1:b1]\<close> read.\<close>

definition nd_slice :: "'a ndarray \<Rightarrow> int \<times> int \<Rightarrow> int \<times> int \<Rightarrow> 'a ndarray" where
  "nd_slice x r0 r1 =
     (let (lo0, n0) = slice_range (shape0 x) r0;
          (lo1, n1) = slice_range (shape1 x) r1
      in NDArray n0 n1 (\<lambda>i j. cell x (lo0 + i) (lo1 + j)))"

text \<open>
  Broadcasting of two axis lengths: equal lengths, or one of them 1. \<^verbatim>\<open>np.maximum\<close>
  raises \<^verbatim>\<open>ValueError\<close> on operands that do not broadcast.
\<close>

definition broadcast_dim :: "nat \<Rightarrow> nat \<Rightarrow> nat option" where
  "broadcast_dim m n =
     (if m = n then Some m else if m = 1 then Some n else if n = 1 then Some m else None)"

definition bidx :: "nat \<Rightarrow> nat \<Rightarrow> nat" where
  "bidx n i = (if n = 1 then 0 else i)"

definition np_maximum :: "uint8 ndarray \<Rightarrow> uint8 ndarray \<Rightarrow> py_error + uint8 ndarray" where
  "np_maximum x y =
     (case broadcast_dim (shape0 x) (shape0 y) of
        None \<Rightarrow> Inl ValueError
      | Some n0 \<Rightarrow>
          (case broadcast_dim (shape1 x) (shape1 y) of
             None \<Rightarrow> Inl ValueError
           | Some n1 \<Rightarrow>
               Inr (NDArray n0 n1
                     (\<lambda>i j. max (cell x (bidx (shape0 x) i) (bidx (shape1 x) j))
                                 (cell y (bidx (shape0 y) i) (bidx (shape1 y) j))))))"

text \<open>
  \<^verbatim>\<open>dst[a0:b0, a1:b1] = src\<close>: the source is broadcast to the shape of the target region
  (each axis of the source has the region's length or length 1), else \<^verbatim>\<open>ValueError\<close>.
\<close>

definition nd_assign_slice ::
  "'a ndarray \<Rightarrow> int \<times> int \<Rightarrow> int \<times> int \<Rightarrow> 'a ndarray \<Rightarrow> py_error + 'a ndarray" where
  "nd_assign_slice dst r0 r1 src =
     (let (lo0, n0) = slice_range (shape0 dst) r0;
          (lo1, n1) = slice_range (shape1 dst) r1
      in if (shape0 src = n0 \<or> shape0 src = 1) \<and> (shape1 src = n1 \<or> shape1 src = 1) then
           Inr (NDArray (shape0 dst) (shape1 dst)
                 (\<lambda>i j. if lo0 \<le> i \<and> i < lo0 + n0 \<and> lo1 \<le> j \<and> j < lo1 + n1
                        then cell src (bidx (shape0 src) (i - lo0)) (bidx (shape1 src) (j - lo1))
                        else cell dst i j))
         else Inl ValueError)"

section \<open>Placing one patch on the canvas\<close>

text \<open>
  \<^verbatim>\<open>
  imsize = 32 # TODO: add as param
  ...
  offset_h = min(0, h) # negative in case of negative h or w
  offset_w = min(0, w)
  start_h = max(0, h)
  start_w = max(0, w)
  end_h = min(start_h + imsize + offset_h, stitched_size[0])
  end_w = min(start_w + imsize + offset_w, stitched_size[1])
  actual_height = end_h - start_h
  actual_width = end_w - start_w
  \<close>
\<close>

definition imsize :: int where
  "imsize = 32"

record placement =
  offset_h :: int
  offset_w :: int
  start_h :: int
  start_w :: int
  end_h :: int
  end_w :: int
  actual_height :: int
  actual_width :: int

definition patch_placement :: "nat \<times> nat \<Rightarrow> int \<Rightarrow> int \<Rightarrow> placement" where
  "patch_placement stitched_size h w =
     (let offset_h = min 0 h;
          offset_w = min 0 w;
          start_h = max 0 h;
          start_w = max 0 w;
          end_h = min (start_h + imsize + offset_h) (int (fst stitched_size));
          end_w = min (start_w + imsize + offset_w) (int (snd stitched_size));
          actual_height = end_h - start_h;
          actual_width = end_w - start_w
      in \<lparr> offset_h = offset_h, offset_w = offset_w, start_h = start_h, start_w = start_w,
           end_h = end_h, end_w = end_w,
           actual_height = actual_height, actual_width = actual_width \<rparr>)"

text \<open>
  The body of the loop over the patches of one base image. \<open>imread\<close> is
  \<^verbatim>\<open>cv2.imread(path, cv2.IMREAD_GRAYSCALE)\<close>, which gives \<^verbatim>\<open>None\<close> for a file it cannot
  decode; subscripting \<^verbatim>\<open>None\<close> raises \<^verbatim>\<open>TypeError\<close>.
  \<^verbatim>\<open>
  label_patch = cv2.imread(label_patch_path, cv2.IMREAD_GRAYSCALE)
  new_patch = label_patch[-offset_h:-offset_h + actual_height, -offset_w:-offset_w + actual_width]
  old_patch = label_stitched[start_h:end_h, start_w:end_w]
  updated_patch = np.maximum(old_patch, new_patch)
  #label_stitched[start_h:end_h, start_w:end_w] = updated_patch[:, :]
  label_stitched[start_h:end_h, start_w:end_w] = new_patch[:, :]
  \<close>
\<close>

definition stitch_patch ::
  "(string \<Rightarrow> uint8 ndarray option) \<Rightarrow> nat \<times> nat \<Rightarrow> uint8 ndarray \<Rightarrow> string
     \<Rightarrow> py_error + uint8 ndarray" where
  "stitch_patch imread stitched_size label_stitched label_patch_path =
     (case extract_h_w label_patch_path of
        Inl e \<Rightarrow> Inl e
      | Inr (h, w) \<Rightarrow>
          (let p = patch_placement stitched_size h w in
           case imread label_patch_path of
             None \<Rightarrow> Inl TypeError
           | Some label_patch \<Rightarrow>
               (let new_patch = nd_slice label_patch
                      (- offset_h p, - offset_h p + actual_height p)
                      (- offset_w p, - offset_w p + actual_width p);
                    old_patch = nd_slice label_stitched (start_h p, end_h p) (start_w p, end_w p)
                in case np_maximum old_patch new_patch of
                     Inl e \<Rightarrow> Inl e
                   | Inr updated_patch \<Rightarrow>
                       nd_assign_slice label_stitched (start_h p, end_h p) (start_w p, end_w p)
                         new_patch)))"

text \<open>The loop over \<^verbatim>\<open>label_patch_list\<close>; an exception ends it.\<close>

fun stitch_patch_list ::
  "(string \<Rightarrow> uint8 ndarray option) \<Rightarrow> nat \<times> nat \<Rightarrow> uint8 ndarray \<Rightarrow> string list
     \<Rightarrow> py_error + uint8 ndarray" where
  "stitch_patch_list imread stitched_size label_stitched [] = Inr label_stitched"
| "stitch_patch_list imread stitched_size label_stitched (label_patch_path # rest) =
     (case stitch_patch imread stitched_size label_stitched label_patch_path of
        Inl e \<Rightarrow> Inl e
      | Inr label_stitched' \<Rightarrow> stitch_patch_list imread stitched_size label_stitched' rest)"

section \<open>Strings of the stitcher\<close>

text \<open>\<^verbatim>\<open>str(n)\<close> of an integer, as the f-string \<^verbatim>\<open>f'_H{h}_W{w}'\<close> formats it.\<close>

definition digit_char :: "nat \<Rightarrow> char" where
  "digit_char d = char_of (48 + d)"

function nat_digits :: "nat \<Rightarrow> string" where
  "nat_digits n = (if n < 10 then [digit_char n] else nat_digits (n div 10) @ [digit_char (n mod 10)])"
  by pat_completeness auto
termination
  by (relation "measure id") auto

declare nat_digits.simps [simp del]

definition py_str_int :: "int \<Rightarrow> string" where
  "py_str_int i = (if i < 0 then CHR ''-'' # nat_digits (nat (- i)) else nat_digits (nat i))"

text \<open>\<^verbatim>\<open>s.find(sub)\<close>: the lowest index at which \<open>sub\<close> occurs in \<open>s\<close>, or \<open>-1\<close>.\<close>

fun py_find_from :: "nat \<Rightarrow> string \<Rightarrow> string \<Rightarrow> int" where
  "py_find_from i [] sub = (if sub = [] then int i else - 1)"
| "py_find_from i (c # cs) sub =
     (if take (length sub) (c # cs) = sub then int i else py_find_from (Suc i) cs sub)"

definition py_find :: "string \<Rightarrow> string \<Rightarrow> int" where
  "py_find s sub = py_find_from 0 s sub"

text \<open>\<^verbatim>\<open>sub in s\<close> on strings: \<open>sub\<close> occurs in \<open>s\<close>.\<close>

definition py_in :: "string \<Rightarrow> string \<Rightarrow> bool" where
  "py_in sub s = (py_find s sub \<noteq> - 1)"

text \<open>\<^verbatim>\<open>s[:i]\<close>.\<close>

definition py_slice_to :: "string \<Rightarrow> int \<Rightarrow> string" where
  "py_slice_to s i = take (slice_index (length s) i) s"

text \<open>
  \<^verbatim>\<open>s.replace(old, new)\<close>: every occurrence of \<open>old\<close>, found from the left and not
  overlapping, becomes \<open>new\<close>; with an empty \<open>old\<close>, \<open>new\<close> is put before every character
  and at the end.
\<close>

function py_replace :: "string \<Rightarrow> string \<Rightarrow> string \<Rightarrow> string" where
  "py_replace s old new =
     (if old = [] then concat (map (\<lambda>c. new @ [c]) s) @ new
      else if s = [] then []
      else if take (length old) s = old then new @ py_replace (drop (length old) s) old new
      else hd s # py_replace (tl s) old new)"
  by pat_completeness auto
termination
  by (relation "measure (\<lambda>(s, old, new). length s)") auto

declare py_replace.simps [simp del]

section \<open>Stitching the patches of a folder\<close>

text \<open>
  \<^verbatim>\<open>
  for label_path in label_list:
      h, w = extract_h_w(label_path)
      h_w_string = f'_H{h}_W{w}'
      h_w_string_idx = label_path.find(h_w_string)
      base_label_path = label_path[:h_w_string_idx] + '.png'
      if base_label_path not in base_label_list:
          base_label_list.append(base_label_path)
  \<close>
\<close>

definition base_label_path_of :: "string \<Rightarrow> py_error + string" where
  "base_label_path_of label_path =
     (case extract_h_w label_path of
        Inl e \<Rightarrow> Inl e
      | Inr (h, w) \<Rightarrow>
          (let h_w_string = ''_H'' @ py_str_int h @ ''_W'' @ py_str_int w;
               h_w_string_idx = py_find label_path h_w_string
           in Inr (py_slice_to label_path h_w_string_idx @ ''.png'')))"

fun collect_base_labels :: "string list \<Rightarrow> string list \<Rightarrow> py_error + string list" where
  "collect_base_labels base_label_list [] = Inr base_label_list"
| "collect_base_labels base_label_list (label_path # rest) =
     (case base_label_path_of label_path of
        Inl e \<Rightarrow> Inl e
      | Inr base_label_path \<Rightarrow>
          if base_label_path \<notin> set base_label_list
          then collect_base_labels (base_label_list @ [base_label_path]) rest
          else collect_base_labels base_label_list rest)"

text \<open>
  \<^verbatim>\<open>label_patch_list = [item for item in label_list if base_label_path.replace('.png', '') in item]\<close>
\<close>

definition label_patch_list_of :: "string list \<Rightarrow> string \<Rightarrow> string list" where
  "label_patch_list_of label_list base_label_path =
     filter (\<lambda>item. py_in (py_replace base_label_path ''.png'' '''') item) label_list"

text \<open>
  What \<^verbatim>\<open>cv2.imwrite\<close> puts on the disk: the label canvas, or its coloured version
  \<^verbatim>\<open>colored_label_stitched[label_stitched == 1] = (0, 255, 0)\<close> on a canvas of zeros.
\<close>

datatype image = Gray "uint8 ndarray" | Colored "(uint8 \<times> uint8 \<times> uint8) ndarray"

definition colored_label :: "uint8 ndarray \<Rightarrow> (uint8 \<times> uint8 \<times> uint8) ndarray" where
  "colored_label label_stitched =
     NDArray (shape0 label_stitched) (shape1 label_stitched)
       (\<lambda>i j. if cell label_stitched i j = 1 then (0, 255, 0) else (0, 0, 0))"

text \<open>
  The loop over \<^verbatim>\<open>base_label_list\<close>. The state is the list of stitched canvases and the
  files written so far; an exception leaves the files already written on the disk.
  \<open>imread\<close> gives the content of each patch file when it is read: the patch files are
  taken not to be among the files this call writes, as is the case when the name of the
  folder contains \<^verbatim>\<open>pred_patches\<close>.
\<close>

type_synonym disk_writes = "(string \<times> image) list"

fun stitch_bases ::
  "(string \<Rightarrow> uint8 ndarray option) \<Rightarrow> string \<Rightarrow> string \<Rightarrow> string \<Rightarrow> nat \<times> nat
     \<Rightarrow> string list \<Rightarrow> uint8 ndarray list \<Rightarrow> disk_writes \<Rightarrow> string list
     \<Rightarrow> disk_writes \<times> (py_error + uint8 ndarray list)" where
  "stitch_bases imread pred_label_folder stitched_folder colored_stitched_folder stitched_size
     label_list stitched_label_list written [] = (written, Inr stitched_label_list)"
| "stitch_bases imread pred_label_folder stitched_folder colored_stitched_folder stitched_size
     label_list stitched_label_list written (base_label_path # rest) =
     (let label_stitched = np_zeros stitched_size;
          label_patch_list = label_patch_list_of label_list base_label_path
      in case stitch_patch_list imread stitched_size label_stitched label_patch_list of
           Inl e \<Rightarrow> (written, Inl e)
         | Inr label_stitched \<Rightarrow>
             (let save_path = py_replace base_label_path pred_label_folder stitched_folder;
                  color_save_path =
                    py_replace base_label_path pred_label_folder colored_stitched_folder
              in stitch_bases imread pred_label_folder stitched_folder colored_stitched_folder
                   stitched_size label_list (stitched_label_list @ [label_stitched])
                   (written @ [(save_path, Gray label_stitched),
                               (color_save_path, Colored (colored_label label_stitched))])
                   rest))"

text \<open>
  \<^verbatim>\<open>def stitch_patches(pred_label_folder, stitched_size=(1000,1000))\<close>.
  \<open>glob_png\<close> is what \<^verbatim>\<open>glob(pred_label_folder + '/*.png')\<close> returns, in the order it returns
  it; \<^verbatim>\<open>sorted\<close> orders the paths as strings. The result is the files written together
  with the exception raised or the returned pair \<^verbatim>\<open>(stitched_label_list, stitched_folder)\<close>.
\<close>

definition stitch_patches ::
  "string list \<Rightarrow> (string \<Rightarrow> uint8 ndarray option) \<Rightarrow> string \<Rightarrow> nat \<times> nat
     \<Rightarrow> disk_writes \<times> (py_error + uint8 ndarray list \<times> string)" where
  "stitch_patches glob_png imread pred_label_folder stitched_size =
     (let stitched_folder = py_replace pred_label_folder ''pred_patches'' ''stitched_labels'';
          colored_stitched_folder =
            py_replace pred_label_folder ''pred_patches'' ''colored_stitched_labels'';
          label_list = sort glob_png
      in case collect_base_labels [] label_list of
           Inl e \<Rightarrow> ([], Inl e)
         | Inr base_label_list \<Rightarrow>
             (case stitch_bases imread pred_label_folder stitched_folder colored_stitched_folder
                     stitched_size label_list [] [] base_label_list of
                (written, Inl e) \<Rightarrow> (written, Inl e)
              | (written, Inr stitched_label_list) \<Rightarrow>
                  (written, Inr (stitched_label_list, stitched_folder))))"

section \<open>Covering patches\<close>

text \<open>
  The words of the overlap policy. A patch with offsets \<open>(h, w)\<close> covers the canvas pixel
  \<open>(r, c)\<close> when the pixel lies in the square of \<open>imsize\<close> rows and columns whose first pixel
  is at row \<open>h\<close> and column \<open>w\<close>; the value the patch holds for that pixel is its own pixel
  \<open>(r - h, c - w)\<close>.
\<close>

definition patch_covers :: "string \<Rightarrow> nat \<Rightarrow> nat \<Rightarrow> bool" where
  "patch_covers path r c =
     (case extract_h_w path of
        Inl e \<Rightarrow> False
      | Inr (h, w) \<Rightarrow> h \<le> int r \<and> int r < h + imsize \<and> w \<le> int c \<and> int c < w + imsize)"

definition patch_pixel :: "(string \<Rightarrow> uint8 ndarray option) \<Rightarrow> string \<Rightarrow> nat \<Rightarrow> nat \<Rightarrow> uint8" where
  "patch_pixel imread path r c =
     (case extract_h_w path of
        Inl e \<Rightarrow> 0
      | Inr (h, w) \<Rightarrow>
          (case imread path of
             None \<Rightarrow> 0
           | Some img \<Rightarrow> cell img (nat (int r - h)) (nat (int c - w))))"

text \<open>The value of the last patch of a list that covers the pixel; 0 when none does.\<close>

definition last_write :: "(string \<Rightarrow> uint8 ndarray option) \<Rightarrow> string list \<Rightarrow> nat \<Rightarrow> nat \<Rightarrow> uint8" where
  "last_write imread paths r c =
     (let covering = filter (\<lambda>p. patch_covers p r c) paths
      in if covering = [] then 0 else patch_pixel imread (last covering) r c)"

text \<open>
  The words of the grouping: the patch files of a base image are the files whose path,
  with the offset tag and what follows it cut off, is the path of the base image.
\<close>

definition patches_of_base :: "string list \<Rightarrow> string \<Rightarrow> string list" where
  "patches_of_base label_list base_label_path =
     filter (\<lambda>item. base_label_path_of item = Inr base_label_path) label_list"

section \<open>Offset tags in a path\<close>

text \<open>
  The words of the file name convention. A text is an offset tag when it reads
  \<^verbatim>\<open>H{signed int}_W{signed int}\<close>: the letter, a signed decimal, \<^verbatim>\<open>_W\<close>, a signed decimal.
  A tag begins at position \<open>i\<close> of a path when some piece of the path that starts there is
  an offset tag; the matches of the pattern in the path are counted by the positions at
  which a tag begins.
\<close>

definition is_offset_tag :: "string \<Rightarrow> bool" where
  "is_offset_tag t =
     (\<exists>k \<in> set [0..<length t].
        take 1 t = ''H'' \<and> signed_int_text (take k (drop 1 t)) \<and>
        take 2 (drop (Suc k) t) = ''_W'' \<and> signed_int_text (drop (k + 3) t))"

definition tag_at :: "string \<Rightarrow> nat \<Rightarrow> bool" where
  "tag_at s i = (\<exists>n \<in> set [0..<Suc (length s)]. is_offset_tag (take n (drop i s)))"

definition tag_positions :: "string \<Rightarrow> nat list" where
  "tag_positions s = filter (tag_at s) [0..<length s]"

section \<open>Flips and quarter turns\<close>

text \<open>
  An image tensor of shape \<^verbatim>\<open>[batch, C, H, W]\<close> is a list of samples, each a list of
  channels, each a list of rows. \<^verbatim>\<open>torch.flip(image, dims=(2,))\<close> reverses the axis of the
  rows. \<^verbatim>\<open>torch.rot90(image, k, dims=(2, 3))\<close> turns every channel from the row axis towards
  the column axis: for \<open>k = 1\<close> it flips the column axis and transposes, for \<open>k = 2\<close> it flips
  both axes, for \<open>k = 3\<close> it flips the row axis and transposes.
\<close>

type_synonym 'a tensor4 = "'a list list list list"

definition torch_flip_rows :: "'a tensor4 \<Rightarrow> 'a tensor4" where
  "torch_flip_rows img = map (map rev) img"

definition rot90_matrix :: "nat \<Rightarrow> 'a list list \<Rightarrow> 'a list list" where
  "rot90_matrix k m =
     (if k mod 4 = 1 then transpose (map rev m)
      else if k mod 4 = 2 then rev (map rev m)
      else if k mod 4 = 3 then transpose (rev m)
      else m)"

definition torch_rot90 :: "nat \<Rightarrow> 'a tensor4 \<Rightarrow> 'a tensor4" where
  "torch_rot90 k img = map (map (rot90_matrix k)) img"

text \<open>
  \<^verbatim>\<open>
  def flip_rot(image, fliplr: bool, rot_angle: Literal[0, 90, 180, 270]):
      if fliplr:
          image = torch.flip(image, dims=(2,))
      if rot_angle == 90:
          image = torch.rot90(image, k=1, dims=(2, 3))
      elif rot_angle == 180:
          image = torch.rot90(image, k=2, dims=(2, 3))
      elif rot_angle == 270:
          image = torch.rot90(image, k=3, dims=(2, 3))
      else:
          assert rot_angle == 0
      return image
  \<close>
\<close>

definition flip_rot :: "'a tensor4 \<Rightarrow> bool \<Rightarrow> int \<Rightarrow> py_error + 'a tensor4" where
  "flip_rot img fliplr rot_angle =
     (let img = (if fliplr then torch_flip_rows img else img) in
      if rot_angle = 90 then Inr (torch_rot90 1 img)
      else if rot_angle = 180 then Inr (torch_rot90 2 img)
      else if rot_angle = 270 then Inr (torch_rot90 3 img)
      else if rot_angle = 0 then Inr img
      else Inl AssertionError)"

text \<open>
  A transform is \<^verbatim>\<open>partial(flip_rot, fliplr=..., rot_angle=...)\<close>: the two keyword arguments,
  applied to an image by \<open>apply_transform\<close>.
\<close>

type_synonym transform = "bool \<times> int"

definition apply_transform :: "transform \<Rightarrow> 'a tensor4 \<Rightarrow> py_error + 'a tensor4" where
  "apply_transform t img = flip_rot img (fst t) (snd t)"

text \<open>
  The candidates in the order of the two nested loops, each forward transform with the
  reverse transform built beside it:
  \<^verbatim>\<open>
  for fliplr_forward, fliplr_reverse in zip([False, True], [False, True]):
      for rot_angle_forward, rot_angle_reverse in \
          zip([0, 90, 180, 270], [0, 270, 180, 90]):
          transform_func_forward = partial(flip_rot, fliplr=fliplr_forward, rot_angle=rot_angle_forward)
          transform_func_reverse = partial(flip_rot, fliplr=fliplr_reverse, rot_angle=rot_angle_reverse)
  \<close>
\<close>

definition transform_candidates :: "(transform \<times> transform) list" where
  "transform_candidates =
     concat (map (\<lambda>(fliplr_forward, fliplr_reverse).
                    map (\<lambda>(rot_angle_forward, rot_angle_reverse).
                           ((fliplr_forward, rot_angle_forward),
                            (fliplr_reverse, rot_angle_reverse)))
                        (zip [0, 90, 180, 270] [0, 270, 180, 90]))
                 (zip [False, True] [False, True]))"

text \<open>The shape of a tensor; an axis behind an empty axis counts 0.\<close>

definition shape4 :: "'a tensor4 \<Rightarrow> nat \<times> nat \<times> nat \<times> nat" where
  "shape4 t =
     (length t,
      (case t of [] \<Rightarrow> 0 | s # _ \<Rightarrow> length s),
      (case concat t of [] \<Rightarrow> 0 | c # _ \<Rightarrow> length c),
      (case concat (concat t) of [] \<Rightarrow> 0 | r # _ \<Rightarrow> length r))"

text \<open>\<^verbatim>\<open>argmax\<close>: the index of the first greatest value.\<close>

definition argmax_first :: "('s :: linorder) list \<Rightarrow> nat" where
  "argmax_first xs = length (takeWhile (\<lambda>x. x \<noteq> fold max xs (hd xs)) xs)"

fun collect_errors :: "(py_error + 'b) list \<Rightarrow> py_error + 'b list" where
  "collect_errors [] = Inr []"
| "collect_errors (Inl e # rest) = Inl e"
| "collect_errors (Inr v # rest) =
     (case collect_errors rest of Inl e \<Rightarrow> Inl e | Inr vs \<Rightarrow> Inr (v # vs))"

text \<open>
  \<^verbatim>\<open>predict_flipping_rotation(image_fixed, image_moving)\<close>. \<open>ncc\<close> stands for the score of
  one candidate, \<^verbatim>\<open>torch.max(torch.max(NCC(image_fixed)(transformed_image), dim=1)[0], dim=1)[0]\<close>:
  one value for each sample of the batch (\<^verbatim>\<open>utils.ncc\<close> is outside the modelled file).
  \<^verbatim>\<open>torch.stack\<close> needs the eight score lists to have one length; \<^verbatim>\<open>argmax(0)\<close> then picks,
  for each sample, the first candidate with the greatest score, and the two arrays of
  transforms are indexed with these picks.
\<close>

definition predict_flipping_rotation ::
  "('a tensor4 \<Rightarrow> 'a tensor4 \<Rightarrow> ('s :: linorder) list) \<Rightarrow> 'a tensor4 \<Rightarrow> 'a tensor4
     \<Rightarrow> py_error + (transform list \<times> transform list)" where
  "predict_flipping_rotation ncc image_fixed image_moving =
     (if shape4 image_fixed \<noteq> shape4 image_moving then Inl AssertionError
      else
        (let transform_forward_list = map fst transform_candidates;
             transform_reverse_list = map snd transform_candidates
         in case collect_errors
                   (map (\<lambda>t. apply_transform t image_moving) transform_forward_list) of
              Inl e \<Rightarrow> Inl e
            | Inr transformed_images \<Rightarrow>
                (let cross_corr_list = map (ncc image_fixed) transformed_images in
                 if \<exists>row \<in> set cross_corr_list. length row \<noteq> length (hd cross_corr_list)
                 then Inl RuntimeError
                 else
                   (let best_transform_indices =
                          map (\<lambda>b. argmax_first (map (\<lambda>row. row ! b) cross_corr_list))
                              [0..<length (hd cross_corr_list)]
                    in Inr (map (\<lambda>i. transform_forward_list ! i) best_transform_indices,
                            map (\<lambda>i. transform_reverse_list ! i) best_transform_indices)))))"

section \<open>The batch of the training and validation loops\<close>

text \<open>
  Sequencing of computations that may raise: the first exception ends the sequence.
\<close>

definition bind_result :: "py_error + 'a \<Rightarrow> ('a \<Rightarrow> py_error + 'b) \<Rightarrow> py_error + 'b" where
  "bind_result r f = (case r of Inl e \<Rightarrow> Inl e | Inr v \<Rightarrow> f v)"

text \<open>
  Tensors are nested lists, outermost axis first; the tensors of the data loader are taken
  to be rectangular. The pixels of images and labels are modelled as real numbers. A label
  tensor of the loader holds either integers or floats, with the axes
  \<^verbatim>\<open>[batch, views, H, W]\<close> or \<^verbatim>\<open>[batch, views, C, H, W]\<close>.
\<close>

type_synonym 'a tensor3 = "'a list list list"
type_synonym 'a tensor5 = "'a list list list list list"

datatype 'e label_views = Views3 "'e tensor4" | Views4 "'e tensor5"

datatype label_tensor = IntLabels "int label_views" | FloatLabels "real label_views"

text \<open>
  A loss is a Python float: a finite number, an infinity or NaN. Sums, products and
  quotients of finite values are those of the real numbers (no rounding and no overflow);
  the infinities and NaN follow IEEE 754. \<open>float_less a b\<close> is \<^verbatim>\<open>a < b\<close>, which is false
  whenever one side is NaN.
\<close>

datatype pyfloat = Finite real | PosInf | NegInf | NaN

fun float_less :: "pyfloat \<Rightarrow> pyfloat \<Rightarrow> bool" where
  "float_less (Finite x) (Finite y) = (x < y)"
| "float_less (Finite x) PosInf = True"
| "float_less NegInf (Finite y) = True"
| "float_less NegInf PosInf = True"
| "float_less a b = False"

fun float_add :: "pyfloat \<Rightarrow> pyfloat \<Rightarrow> pyfloat" where
  "float_add (Finite x) (Finite y) = Finite (x + y)"
| "float_add NaN b = NaN"
| "float_add a NaN = NaN"
| "float_add PosInf NegInf = NaN"
| "float_add NegInf PosInf = NaN"
| "float_add PosInf b = PosInf"
| "float_add a PosInf = PosInf"
| "float_add NegInf b = NegInf"
| "float_add a NegInf = NegInf"

text \<open>\<^verbatim>\<open>a * n\<close> for a float and the size of a batch.\<close>

fun float_mul_nat :: "pyfloat \<Rightarrow> nat \<Rightarrow> pyfloat" where
  "float_mul_nat (Finite x) n = Finite (x * real n)"
| "float_mul_nat NaN n = NaN"
| "float_mul_nat a n = (if n = 0 then NaN else a)"

text \<open>
  What the loader yields for one iteration, as far as the loop reads it, together with the
  permutation that \<^verbatim>\<open>np.random.permutation(len(image_n_view))\<close> draws for it in strong mode.
\<close>

record batch =
  image_n_view :: "real tensor5"
  label_n_view :: label_tensor
  permuted_idx :: "nat list"

text \<open>\<^verbatim>\<open>t.shape[1]\<close>, \<^verbatim>\<open>t[:, k, ...]\<close> and \<^verbatim>\<open>t[permuted_idx]\<close>.\<close>

definition tensor_shape1 :: "'v list list \<Rightarrow> nat" where
  "tensor_shape1 t = (case t of [] \<Rightarrow> 0 | s # _ \<Rightarrow> length s)"

definition view :: "nat \<Rightarrow> 'v list list \<Rightarrow> py_error + 'v list" where
  "view k t = (if \<forall>s \<in> set t. k < length s then Inr (map (\<lambda>s. s ! k) t) else Inl IndexError)"

definition index_batch :: "'s list \<Rightarrow> nat list \<Rightarrow> py_error + 's list" where
  "index_batch t idx =
     (if \<forall>i \<in> set idx. i < length t then Inr (map (\<lambda>i. t ! i) idx) else Inl IndexError)"

text \<open>
  \<^verbatim>\<open>
  if not config.strong:
      unannotated_images = image_n_view[:, 0, ...]
      annotated_images = image_n_view[:, 1, ...]
  else:
      permuted_idx = np.random.permutation(len(image_n_view))
      unannotated_images = image_n_view[:, 0, ...]
      annotated_images = image_n_view[permuted_idx][:, 1, ...]
  \<close>
  and the same for the labels. The result is the unannotated and the annotated view.
\<close>

definition split_views :: "bool \<Rightarrow> nat list \<Rightarrow> 'v list list \<Rightarrow> py_error + ('v list \<times> 'v list)" where
  "split_views strong perm t =
     bind_result (view 0 t) (\<lambda>unannotated.
     bind_result (if \<not> strong then view 1 t
                  else bind_result (index_batch t perm) (view 1)) (\<lambda>annotated.
     Inr (unannotated, annotated)))"

text \<open>
  \<^verbatim>\<open>
  if len(unannotated_labels.shape) == 3:
      unannotated_labels = unannotated_labels[:, None, ...]
  if len(annotated_labels.shape) == 3:
      annotated_labels = annotated_labels[:, None, ...]
  \<close>
\<close>

definition label_view_pair ::
  "bool \<Rightarrow> nat list \<Rightarrow> 'e label_views \<Rightarrow> py_error + ('e tensor4 \<times> 'e tensor4)" where
  "label_view_pair strong perm v =
     (case v of
        Views3 t \<Rightarrow>
          bind_result (split_views strong perm t) (\<lambda>(unannotated, annotated).
            Inr (map (\<lambda>m. [m]) unannotated, map (\<lambda>m. [m]) annotated))
      | Views4 t \<Rightarrow> split_views strong perm t)"

definition flat4 :: "'a tensor4 \<Rightarrow> 'a list" where
  "flat4 t = concat (concat (concat t))"

definition map4 :: "('a \<Rightarrow> 'b) \<Rightarrow> 'a tensor4 \<Rightarrow> 'b tensor4" where
  "map4 f t = map (map (map (map f))) t"

text \<open>\<^verbatim>\<open>t.max()\<close>; it raises on a tensor without elements.\<close>

definition tensor_max :: "real tensor4 \<Rightarrow> py_error + real" where
  "tensor_max t =
     (case flat4 t of [] \<Rightarrow> Inl RuntimeError | x # xs \<Rightarrow> Inr (fold max xs x))"

text \<open>\<^verbatim>\<open>(t > 0.5).float()\<close>\<close>

definition threshold :: "real tensor4 \<Rightarrow> real tensor4" where
  "threshold t = map4 (\<lambda>x. if x > 0.5 then 1 else 0) t"

text \<open>
  \<^verbatim>\<open>
  label_is_binary = not torch.is_floating_point(annotated_labels)
  ...
  unannotated_labels = unannotated_labels.float().to(device)
  annotated_labels = annotated_labels.float().to(device)
  if label_is_binary:
      # Only care about the binary label.
      assert annotated_labels.max() in [0, 1]
      annotated_labels = (annotated_labels > 0.5).float()
      unannotated_labels = (unannotated_labels > 0.5).float()
  else:
      annotated_labels = annotated_labels.float()
      unannotated_labels = unannotated_labels.float()
  \<close>
  The result is \<open>label_is_binary\<close> with the unannotated and the annotated labels.
\<close>

definition prepare_labels ::
  "bool \<Rightarrow> nat list \<Rightarrow> label_tensor \<Rightarrow> py_error + (bool \<times> real tensor4 \<times> real tensor4)" where
  "prepare_labels strong perm labels =
     (case labels of
        IntLabels v \<Rightarrow>
          bind_result (label_view_pair strong perm v) (\<lambda>(unannotated_labels, annotated_labels).
            (let unannotated_labels = map4 real_of_int unannotated_labels;
                 annotated_labels = map4 real_of_int annotated_labels
             in bind_result (tensor_max annotated_labels) (\<lambda>m.
                  if m \<noteq> 0 \<and> m \<noteq> 1 then Inl AssertionError
                  else Inr (True, threshold unannotated_labels, threshold annotated_labels))))
      | FloatLabels v \<Rightarrow>
          bind_result (label_view_pair strong perm v) (\<lambda>(unannotated_labels, annotated_labels).
            Inr (False, unannotated_labels, annotated_labels)))"

text \<open>
  The collaborators that the loop calls and the file does not define: the network with
  its weights \<open>'w\<close>, the warper, the loss, the metrics, the plot, the optimizer with the
  learning-rate schedule (state \<open>'o\<close>), the early stopper (state \<open>'es\<close>), and the debugger.
  A collaborator that works on tensors may raise. \<^verbatim>\<open>pdb.set_trace()\<close> hands control to
  whoever sits at the terminal: the run goes on when the debugger is told to continue and
  ends with \<^verbatim>\<open>BdbQuit\<close> when it is quit or has no input to read.
\<close>

datatype debugger_outcome = Continue | Quit

datatype phase = Train | Validation

record ('w, 'o, 'es) env =
  warp_predictor :: "'w \<Rightarrow> real tensor4 \<Rightarrow> py_error + real tensor4"
  warper :: "real tensor4 \<Rightarrow> real tensor4 \<Rightarrow> py_error + real tensor4"
  mse_loss :: "real tensor4 \<Rightarrow> real tensor4 \<Rightarrow> py_error + pyfloat"
  dice_coeff :: "real tensor3 \<Rightarrow> real tensor3 \<Rightarrow> real"
  IoU :: "real tensor3 \<Rightarrow> real tensor3 \<Rightarrow> real"
  plot_side_by_side :: "string \<Rightarrow> real tensor3 list \<Rightarrow> string \<Rightarrow> py_error option"
  pdb_set_trace :: "nat \<Rightarrow> nat \<Rightarrow> debugger_outcome"
  optimizer_step :: "'w \<times> 'o \<Rightarrow> real tensor4 \<times> real tensor4 \<Rightarrow> 'w \<times> 'o"
  lr_scheduler_step :: "'o \<Rightarrow> 'o"
  early_stopping :: "string \<Rightarrow> int \<Rightarrow> bool \<Rightarrow> 'es"
  early_stopper_step :: "'es \<Rightarrow> pyfloat \<Rightarrow> bool \<times> 'es"

text \<open>
  \<^verbatim>\<open>torch.cat([annotated_images, unannotated_images], dim=1)\<close>: the channels of the second
  tensor behind those of the first, sample by sample.
\<close>

definition cat_channels :: "'a tensor4 \<Rightarrow> 'a tensor4 \<Rightarrow> py_error + 'a tensor4" where
  "cat_channels a u =
     (if length a \<noteq> length u then Inl RuntimeError else Inr (map (\<lambda>(x, y). x @ y) (zip a u)))"

text \<open>\<^verbatim>\<open>shall_plot = iter_idx % plot_freq == plot_freq - 1\<close>\<close>

definition shall_plot_of :: "int \<Rightarrow> nat \<Rightarrow> py_error + bool" where
  "shall_plot_of plot_freq iter_idx =
     (if plot_freq = 0 then Inl ZeroDivisionError
      else Inr (int iter_idx mod plot_freq = plot_freq - 1))"

text \<open>
  The first part of an iteration, the same text in the training and in the validation
  loop: from the assertion on the views to the three warps.
  \<^verbatim>\<open>
  assert image_n_view.shape[1] == 2
  curr_batch_size = image_n_view.shape[0]
  shall_plot = iter_idx % plot_freq == plot_freq - 1
  ...
  warp_predicted = warp_predictor(torch.cat([annotated_images, unannotated_images], dim=1))
  warp_field_forward = warp_predicted[:, :2, ...]
  warp_field_reverse = warp_predicted[:, 2:, ...]
  images_U2A = warper(unannotated_images, flow=warp_field_forward)
  images_U2A_A2U = warper(images_U2A, flow=warp_field_reverse)
  labels_A2U = warper(annotated_labels, flow=warp_field_reverse)
  \<close>
\<close>

record warped =
  shall_plot :: bool
  label_is_binary :: bool
  unannotated_images :: "real tensor4"
  annotated_images :: "real tensor4"
  unannotated_labels :: "real tensor4"
  annotated_labels :: "real tensor4"
  images_U2A :: "real tensor4"
  images_U2A_A2U :: "real tensor4"
  labels_A2U :: "real tensor4"

definition batch_forward ::
  "('w, 'o, 'es) env \<Rightarrow> bool \<Rightarrow> 'w \<Rightarrow> int \<Rightarrow> nat \<Rightarrow> batch \<Rightarrow> py_error + warped" where
  "batch_forward env strong w plot_freq iter_idx b =
     (if tensor_shape1 (image_n_view b) \<noteq> 2 then Inl AssertionError
      else
        bind_result (shall_plot_of plot_freq iter_idx) (\<lambda>shall_plot.
        bind_result (split_views strong (permuted_idx b) (image_n_view b))
          (\<lambda>(unannotated_images, annotated_images).
        bind_result (prepare_labels strong (permuted_idx b) (label_n_view b))
          (\<lambda>(label_is_binary, unannotated_labels, annotated_labels).
        bind_result (cat_channels annotated_images unannotated_images) (\<lambda>pair.
        bind_result (warp_predictor env w pair) (\<lambda>warp_predicted.
          (let warp_field_forward = map (take 2) warp_predicted;
               warp_field_reverse = map (drop 2) warp_predicted
           in bind_result (warper env unannotated_images warp_field_forward) (\<lambda>images_U2A.
              bind_result (warper env images_U2A warp_field_reverse) (\<lambda>images_U2A_A2U.
              bind_result (warper env annotated_labels warp_field_reverse) (\<lambda>labels_A2U.
                Inr \<lparr> shall_plot = shall_plot, label_is_binary = label_is_binary,
                      unannotated_images = unannotated_images,
                      annotated_images = annotated_images,
                      unannotated_labels = unannotated_labels,
                      annotated_labels = annotated_labels,
                      images_U2A = images_U2A, images_U2A_A2U = images_U2A_A2U,
                      labels_A2U = labels_A2U \<rparr>))))))))))"

section \<open>Metrics, plot and loss of an iteration\<close>

text \<open>
  \<^verbatim>\<open>x.cpu().detach().numpy().transpose(1, 2, 0)\<close>: from \<^verbatim>\<open>[C, H, W]\<close> to \<^verbatim>\<open>[H, W, C]\<close>.
\<close>

definition to_hwc :: "'a tensor3 \<Rightarrow> 'a tensor3" where
  "to_hwc x = map transpose (transpose x)"

text \<open>
  \<^verbatim>\<open>
  def l1(im1, im2) -> float:
      return np.linalg.norm((im1.flatten() - im2.flatten()), ord=1)
  \<close>
  on two arrays of one shape.
\<close>

definition l1 :: "real tensor3 \<Rightarrow> real tensor3 \<Rightarrow> real" where
  "l1 im1 im2 =
     sum_list (map (\<lambda>(a, b). \<bar>a - b\<bar>) (zip (concat (concat im1)) (concat (concat im2))))"

text \<open>\<^verbatim>\<open>t[i]\<close> on the first axis.\<close>

definition nth_result :: "'a list \<Rightarrow> nat \<Rightarrow> py_error + 'a" where
  "nth_result t i = (if i < length t then Inr (t ! i) else Inl IndexError)"

text \<open>
  \<^verbatim>\<open>
  for i in range(len(labels_A2U)):
      train_metric_ref_list.append(
          metric((annotated_labels[i, ...]).cpu().detach().numpy().transpose(1, 2, 0),
                 (unannotated_labels[i, ...]).cpu().detach().numpy().transpose(1, 2, 0)))
      train_metric_seg_list.append(
          metric((labels_A2U[i, ...]).cpu().detach().numpy().transpose(1, 2, 0),
                 (unannotated_labels[i, ...]).cpu().detach().numpy().transpose(1, 2, 0)))
  \<close>
  The result is the values appended to the two lists.
\<close>

fun sample_metrics ::
  "(real tensor3 \<Rightarrow> real tensor3 \<Rightarrow> real) \<Rightarrow> real tensor4 \<Rightarrow> real tensor4 \<Rightarrow> real tensor4
     \<Rightarrow> nat list \<Rightarrow> py_error + (real list \<times> real list)" where
  "sample_metrics metric annotated unannotated warped_labels [] = Inr ([], [])"
| "sample_metrics metric annotated unannotated warped_labels (i # rest) =
     bind_result (nth_result annotated i) (\<lambda>a.
     bind_result (nth_result unannotated i) (\<lambda>u.
     bind_result (nth_result warped_labels i) (\<lambda>p.
     bind_result (sample_metrics metric annotated unannotated warped_labels rest) (\<lambda>(refs, segs).
       Inr (metric (to_hwc a) (to_hwc u) # refs, metric (to_hwc p) (to_hwc u) # segs)))))"

text \<open>\<^verbatim>\<open>str(n).zfill(5)\<close> for an index \<open>n\<close>.\<close>

definition zfill5 :: "nat \<Rightarrow> string" where
  "zfill5 n = replicate (5 - length (nat_digits n)) CHR ''0'' @ nat_digits n"

text \<open>
  The plot of the first sample of a batch, \<^verbatim>\<open>plot_side_by_side(save_path,
  *numpy_variables(...), name, metric)\<close>; the training loop plots with \<^verbatim>\<open>'DSC'\<close> and the
  validation loop with \<^verbatim>\<open>'IoU'\<close> when the labels are binary, both with \<^verbatim>\<open>'L1'\<close>
  otherwise.
\<close>

definition phase_folder :: "phase \<Rightarrow> string" where
  "phase_folder ph = (case ph of Train \<Rightarrow> ''train'' | Validation \<Rightarrow> ''val'')"

definition plot_batch ::
  "('w, 'o, 'es) env \<Rightarrow> phase \<Rightarrow> string \<Rightarrow> nat \<Rightarrow> nat \<Rightarrow> warped \<Rightarrow> real tensor4
     \<Rightarrow> py_error + unit" where
  "plot_batch env ph output_save_path epoch_idx iter_idx wd warped_labels =
     (let save_path_fig_sbs =
            output_save_path @ ''/'' @ phase_folder ph @ ''/figure_log_epoch'' @ zfill5 epoch_idx
              @ ''_sample'' @ zfill5 iter_idx @ ''.png''
      in bind_result (nth_result (unannotated_images wd) 0) (\<lambda>im_U.
         bind_result (nth_result (annotated_images wd) 0) (\<lambda>im_A.
         bind_result (nth_result (images_U2A_A2U wd) 0) (\<lambda>im_U2A_A2U.
         bind_result (nth_result (images_U2A wd) 0) (\<lambda>im_U2A.
         bind_result (nth_result (unannotated_labels wd) 0) (\<lambda>ma_U.
         bind_result (nth_result (annotated_labels wd) 0) (\<lambda>ma_A.
         bind_result (nth_result warped_labels 0) (\<lambda>ma_A2U.
           (let bin = (\<lambda>m. map (map (map (\<lambda>x. if x > 0.5 then 1 else 0))) m);
                tensors =
                  (if label_is_binary wd
                   then [im_U, im_A, im_U2A_A2U, im_U2A, bin ma_U, bin ma_A, bin ma_A2U]
                   else [im_U, im_A, im_U2A_A2U, im_U2A, ma_U, ma_A, ma_A2U]);
                name =
                  (if label_is_binary wd
                   then (case ph of Train \<Rightarrow> ''DSC'' | Validation \<Rightarrow> ''IoU'')
                   else ''L1'')
            in case plot_side_by_side env save_path_fig_sbs (map to_hwc tensors) name of
                 Some e \<Rightarrow> Inl e
               | None \<Rightarrow> Inr ())))))))))"

text \<open>
  The second part of an iteration, again the same text in both loops:
  \<^verbatim>\<open>
  if label_is_binary:
      labels_A2U = (labels_A2U > 0.5).float()
  if label_is_binary:
      metric_name = 'DSC'
      metric = dice_coeff
  else:
      metric_name = 'L1'
      metric = l1
  for i in range(len(labels_A2U)): ...
  if shall_plot: ...
  loss_forward = mse_loss(annotated_images, images_U2A)
  loss_cyclic = mse_loss(unannotated_images, images_U2A_A2U)
  loss = loss_forward + loss_cyclic
  \<close>
\<close>

record batch_result =
  metric_name :: string
  metric_ref :: "real list"
  metric_seg :: "real list"
  loss :: pyfloat
  loss_forward :: pyfloat
  loss_cyclic :: pyfloat

definition batch_finish ::
  "('w, 'o, 'es) env \<Rightarrow> phase \<Rightarrow> string \<Rightarrow> nat \<Rightarrow> nat \<Rightarrow> warped \<Rightarrow> py_error + batch_result" where
  "batch_finish env ph output_save_path epoch_idx iter_idx wd =
     (let warped_labels =
            (if label_is_binary wd then threshold (labels_A2U wd) else labels_A2U wd);
          metric_name = (if label_is_binary wd then ''DSC'' else ''L1'');
          metric = (if label_is_binary wd then dice_coeff env else l1)
      in bind_result (sample_metrics metric (annotated_labels wd) (unannotated_labels wd)
                        warped_labels [0..<length warped_labels]) (\<lambda>(refs, segs).
         bind_result (if shall_plot wd
                      then plot_batch env ph output_save_path epoch_idx iter_idx wd warped_labels
                      else Inr ()) (\<lambda>_.
         bind_result (mse_loss env (annotated_images wd) (images_U2A wd)) (\<lambda>loss_forward.
         bind_result (mse_loss env (unannotated_images wd) (images_U2A_A2U wd)) (\<lambda>loss_cyclic.
           Inr \<lparr> metric_name = metric_name, metric_ref = refs, metric_seg = segs,
                 loss = float_add loss_forward loss_cyclic,
                 loss_forward = loss_forward, loss_cyclic = loss_cyclic \<rparr>)))))"

section \<open>The two loops over the batches\<close>

record config =
  strong :: bool
  max_epochs :: int
  n_plot_per_epoch :: int
  patience :: int
  output_save_path :: string

text \<open>
  An iteration of the training loop: the first part, the breakpoint
  \<^verbatim>\<open>import pdb; pdb.set_trace()\<close>, the second part, and the update of the weights
  \<^verbatim>\<open>optimizer.zero_grad(); loss.backward(); optimizer.step()\<close>, which the optimizer derives
  from the loss of this pair of images.
\<close>

definition train_batch ::
  "('w, 'o, 'es) env \<Rightarrow> config \<Rightarrow> nat \<Rightarrow> int \<Rightarrow> nat \<Rightarrow> 'w \<times> 'o \<Rightarrow> batch
     \<Rightarrow> py_error + (batch_result \<times> ('w \<times> 'o))" where
  "train_batch env cfg epoch_idx plot_freq iter_idx wo b =
     bind_result (batch_forward env (strong cfg) (fst wo) plot_freq iter_idx b) (\<lambda>wd.
       case pdb_set_trace env epoch_idx iter_idx of
         Quit \<Rightarrow> Inl BdbQuit
       | Continue \<Rightarrow>
           bind_result (batch_finish env Train (output_save_path cfg) epoch_idx iter_idx wd) (\<lambda>r.
             Inr (r, optimizer_step env wo (annotated_images wd, unannotated_images wd))))"

text \<open>An iteration of the validation loop, under \<^verbatim>\<open>torch.no_grad()\<close>.\<close>

definition val_batch ::
  "('w, 'o, 'es) env \<Rightarrow> config \<Rightarrow> nat \<Rightarrow> int \<Rightarrow> nat \<Rightarrow> 'w \<Rightarrow> batch \<Rightarrow> py_error + batch_result" where
  "val_batch env cfg epoch_idx plot_freq iter_idx w b =
     bind_result (batch_forward env (strong cfg) w plot_freq iter_idx b) (\<lambda>wd.
       batch_finish env Validation (output_save_path cfg) epoch_idx iter_idx wd)"

text \<open>
  The sums and lists that a loop keeps:
  \<^verbatim>\<open>
  train_loss += loss.item() * curr_batch_size
  train_loss_forward += loss_forward.item() * curr_batch_size
  train_loss_cyclic += loss_cyclic.item() * curr_batch_size
  \<close>
  and \<^verbatim>\<open>metric_name\<close>, a variable of \<^verbatim>\<open>train\<close> that is unbound until an iteration binds it.
\<close>

record totals =
  sum_loss :: pyfloat
  sum_forward :: pyfloat
  sum_cyclic :: pyfloat
  ref_list :: "real list"
  seg_list :: "real list"

definition add_batch :: "totals \<Rightarrow> batch \<Rightarrow> batch_result \<Rightarrow> totals" where
  "add_batch t b r =
     (let curr_batch_size = length (image_n_view b)
      in \<lparr> sum_loss = float_add (sum_loss t) (float_mul_nat (loss r) curr_batch_size),
           sum_forward =
             float_add (sum_forward t) (float_mul_nat (loss_forward r) curr_batch_size),
           sum_cyclic =
             float_add (sum_cyclic t) (float_mul_nat (loss_cyclic r) curr_batch_size),
           ref_list = ref_list t @ metric_ref r,
           seg_list = seg_list t @ metric_seg r \<rparr>)"

definition no_totals :: totals where
  "no_totals = \<lparr> sum_loss = Finite 0, sum_forward = Finite 0, sum_cyclic = Finite 0,
       ref_list = [], seg_list = [] \<rparr>"

fun train_batches ::
  "('w, 'o, 'es) env \<Rightarrow> config \<Rightarrow> nat \<Rightarrow> int \<Rightarrow> nat \<Rightarrow> batch list
     \<Rightarrow> ('w \<times> 'o) \<times> totals \<times> string option
     \<Rightarrow> py_error + (('w \<times> 'o) \<times> totals \<times> string option)" where
  "train_batches env cfg epoch_idx plot_freq iter_idx [] acc = Inr acc"
| "train_batches env cfg epoch_idx plot_freq iter_idx (b # rest) (wo, t, name) =
     bind_result (train_batch env cfg epoch_idx plot_freq iter_idx wo b) (\<lambda>(r, wo').
       train_batches env cfg epoch_idx plot_freq (Suc iter_idx) rest
         (wo', add_batch t b r, Some (metric_name r)))"

fun val_batches ::
  "('w, 'o, 'es) env \<Rightarrow> config \<Rightarrow> nat \<Rightarrow> int \<Rightarrow> nat \<Rightarrow> 'w \<Rightarrow> batch list
     \<Rightarrow> totals \<times> string option \<Rightarrow> py_error + (totals \<times> string option)" where
  "val_batches env cfg epoch_idx plot_freq iter_idx w [] acc = Inr acc"
| "val_batches env cfg epoch_idx plot_freq iter_idx w (b # rest) (t, name) =
     bind_result (val_batch env cfg epoch_idx plot_freq iter_idx w b) (\<lambda>r.
       val_batches env cfg epoch_idx plot_freq (Suc iter_idx) w rest
         (add_batch t b r, Some (metric_name r)))"

section \<open>The epoch loop\<close>

text \<open>
  The lines that \<^verbatim>\<open>train\<close> sends to \<^verbatim>\<open>log\<close>: the epoch number with the loss and its two parts
  for the lines \<^verbatim>\<open>'Train [%s/%s] loss: ...'\<close> and \<^verbatim>\<open>'Validation [%s/%s] loss: ...'\<close> (the
  statistics of the metrics in the same line are left out), the line
  \<^verbatim>\<open>'%s: Model weights successfully saved.'\<close> and the line
  \<^verbatim>\<open>'Early stopping criterion met. Ending training.'\<close>.
\<close>

datatype log_entry =
    TrainLog nat pyfloat pyfloat pyfloat
  | ValidationLog nat pyfloat pyfloat pyfloat
  | WeightsSaved
  | EarlyStopLog

text \<open>
  What \<^verbatim>\<open>prepare_dataset\<close> gives: the batches each loader yields in an epoch, and the sizes
  \<^verbatim>\<open>len(train_loader.dataset)\<close> and \<^verbatim>\<open>len(val_loader.dataset)\<close>.
\<close>

record loaders =
  train_loader :: "nat \<Rightarrow> batch list"
  val_loader :: "nat \<Rightarrow> batch list"
  train_dataset_len :: nat
  val_dataset_len :: nat

text \<open>
  The state of \<^verbatim>\<open>train\<close> between two epochs: the weights of the network, the optimizer
  with its schedule, the early stopper, \<^verbatim>\<open>best_val_loss\<close>, the content of the checkpoint
  file at \<^verbatim>\<open>config.DiffeoMappingNet_model_save_path\<close> (\<open>None\<close> while there is no file), the
  log, and the variable \<^verbatim>\<open>metric_name\<close>.
\<close>

record ('w, 'o, 'es) train_state =
  weights :: 'w
  optimizer :: 'o
  early_stopper :: 'es
  best_val_loss :: pyfloat
  checkpoint :: "'w option"
  log :: "log_entry list"
  metric_name_var :: "string option"

definition py_floordiv :: "int \<Rightarrow> int \<Rightarrow> py_error + int" where
  "py_floordiv a b = (if b = 0 then Inl ZeroDivisionError else Inr (a div b))"

text \<open>\<^verbatim>\<open>a / n\<close> for a float and the length of a dataset.\<close>

definition py_truediv :: "pyfloat \<Rightarrow> nat \<Rightarrow> py_error + pyfloat" where
  "py_truediv a n =
     (if n = 0 then Inl ZeroDivisionError
      else Inr (case a of Finite x \<Rightarrow> Finite (x / real n) | _ \<Rightarrow> a))"

text \<open>
  The training half of an epoch, up to its log line:
  \<^verbatim>\<open>
  plot_freq = int(len(train_loader) // config.n_plot_per_epoch)
  for iter_idx, (...) in enumerate(tqdm(train_loader)): ...
  train_loss /= len(train_loader.dataset)
  train_loss_forward /= len(train_loader.dataset)
  train_loss_cyclic /= len(train_loader.dataset)
  lr_scheduler.step()
  log('Train [%s/%s] loss: %.3f, ...' % (epoch_idx + 1, ..., metric_name, ...))
  \<close>
\<close>

definition train_phase ::
  "('w, 'o, 'es) env \<Rightarrow> loaders \<Rightarrow> config \<Rightarrow> nat \<Rightarrow> ('w, 'o, 'es) train_state
     \<Rightarrow> py_error + ('w, 'o, 'es) train_state" where
  "train_phase env data cfg epoch_idx st =
     bind_result (py_floordiv (int (length (train_loader data epoch_idx))) (n_plot_per_epoch cfg))
       (\<lambda>plot_freq.
     bind_result (train_batches env cfg epoch_idx plot_freq 0 (train_loader data epoch_idx)
                    ((weights st, optimizer st), no_totals, metric_name_var st))
       (\<lambda>(wo, t, name).
     bind_result (py_truediv (sum_loss t) (train_dataset_len data)) (\<lambda>train_loss.
     bind_result (py_truediv (sum_forward t) (train_dataset_len data)) (\<lambda>train_loss_forward.
     bind_result (py_truediv (sum_cyclic t) (train_dataset_len data)) (\<lambda>train_loss_cyclic.
       (case name of
          None \<Rightarrow> Inl (NameError ''metric_name'')
        | Some _ \<Rightarrow>
            Inr (st \<lparr> weights := fst wo,
                      optimizer := lr_scheduler_step env (snd wo),
                      metric_name_var := name,
                      log := log st @ [TrainLog (epoch_idx + 1) train_loss train_loss_forward
                                         train_loss_cyclic] \<rparr>)))))))"

text \<open>
  The validation half, up to its log line; the result is the state and \<^verbatim>\<open>val_loss\<close>.
  \<^verbatim>\<open>
  plot_freq = int(len(val_loader) // config.n_plot_per_epoch)
  for iter_idx, (...) in enumerate(tqdm(val_loader)): ...
  val_loss /= len(val_loader.dataset)
  ...
  log('Validation [%s/%s] loss: %.3f, ...' % (epoch_idx + 1, ...))
  \<close>
\<close>

definition validation_phase ::
  "('w, 'o, 'es) env \<Rightarrow> loaders \<Rightarrow> config \<Rightarrow> nat \<Rightarrow> ('w, 'o, 'es) train_state
     \<Rightarrow> py_error + (('w, 'o, 'es) train_state \<times> pyfloat)" where
  "validation_phase env data cfg epoch_idx st =
     bind_result (py_floordiv (int (length (val_loader data epoch_idx))) (n_plot_per_epoch cfg))
       (\<lambda>plot_freq.
     bind_result (val_batches env cfg epoch_idx plot_freq 0 (weights st) (val_loader data epoch_idx)
                    (no_totals, metric_name_var st))
       (\<lambda>(t, name).
     bind_result (py_truediv (sum_loss t) (val_dataset_len data)) (\<lambda>val_loss.
     bind_result (py_truediv (sum_forward t) (val_dataset_len data)) (\<lambda>val_loss_forward.
     bind_result (py_truediv (sum_cyclic t) (val_dataset_len data)) (\<lambda>val_loss_cyclic.
       (case name of
          None \<Rightarrow> Inl (NameError ''metric_name'')
        | Some _ \<Rightarrow>
            Inr (st \<lparr> metric_name_var := name,
                      log := log st @ [ValidationLog (epoch_idx + 1) val_loss val_loss_forward
                                         val_loss_cyclic] \<rparr>,
                 val_loss)))))))"

text \<open>
  The end of an epoch; the result is the state and whether the loop breaks.
  \<^verbatim>\<open>
  if val_loss < best_val_loss:
      best_val_loss = val_loss
      warp_predictor.save_weights(config.DiffeoMappingNet_model_save_path)
      log('%s: Model weights successfully saved.' % config.DiffeoMappingNet_model, ...)
  if early_stopper.step(val_loss):
      log('Early stopping criterion met. Ending training.', ...)
      break
  \<close>
\<close>

definition epoch_end ::
  "('w, 'o, 'es) env \<Rightarrow> ('w, 'o, 'es) train_state \<Rightarrow> pyfloat
     \<Rightarrow> ('w, 'o, 'es) train_state \<times> bool" where
  "epoch_end env st val_loss =
     (let st1 = (if float_less val_loss (best_val_loss st)
                 then st \<lparr> best_val_loss := val_loss,
                           checkpoint := Some (weights st),
                           log := log st @ [WeightsSaved] \<rparr>
                 else st);
          (stop, es) = early_stopper_step env (early_stopper st1) val_loss;
          st2 = st1 \<lparr> early_stopper := es \<rparr>
      in if stop then (st2 \<lparr> log := log st2 @ [EarlyStopLog] \<rparr>, True) else (st2, False))"

text \<open>
  One round of \<^verbatim>\<open>for epoch_idx in tqdm(range(config.max_epochs))\<close>. An exception ends
  \<^verbatim>\<open>train\<close>; the state kept with it is the one of the last finished half of an epoch.
\<close>

definition epoch_step ::
  "('w, 'o, 'es) env \<Rightarrow> loaders \<Rightarrow> config \<Rightarrow> nat \<Rightarrow> ('w, 'o, 'es) train_state
     \<Rightarrow> ('w, 'o, 'es) train_state \<times> (py_error + bool)" where
  "epoch_step env data cfg epoch_idx st =
     (case train_phase env data cfg epoch_idx st of
        Inl e \<Rightarrow> (st, Inl e)
      | Inr st1 \<Rightarrow>
          (case validation_phase env data cfg epoch_idx st1 of
             Inl e \<Rightarrow> (st1, Inl e)
           | Inr (st2, val_loss) \<Rightarrow>
               (let (st3, stop) = epoch_end env st2 val_loss in (st3, Inr stop))))"

fun train_loop ::
  "('w, 'o, 'es) env \<Rightarrow> loaders \<Rightarrow> config \<Rightarrow> nat list \<Rightarrow> ('w, 'o, 'es) train_state
     \<Rightarrow> ('w, 'o, 'es) train_state \<times> py_error option" where
  "train_loop env data cfg [] st = (st, None)"
| "train_loop env data cfg (epoch_idx # rest) st =
     (case epoch_step env data cfg epoch_idx st of
        (st', Inl e) \<Rightarrow> (st', Some e)
      | (st', Inr stop) \<Rightarrow> if stop then (st', None) else train_loop env data cfg rest st')"

text \<open>
  \<^verbatim>\<open>def train(config, wandb_run=None)\<close>, from the construction of the early stopper
  \<^verbatim>\<open>EarlyStopping(mode='min', patience=config.patience, percentage=False)\<close> on. The network
  with its first weights \<open>w0\<close>, the optimizer \<open>o0\<close> and the checkpoint file \<open>ckpt0\<close> found on
  the disk are given.
\<close>

definition train ::
  "('w, 'o, 'es) env \<Rightarrow> loaders \<Rightarrow> config \<Rightarrow> 'w \<Rightarrow> 'o \<Rightarrow> 'w option
     \<Rightarrow> ('w, 'o, 'es) train_state \<times> py_error option" where
  "train env data cfg w0 o0 ckpt0 =
     train_loop env data cfg [0..<nat (max_epochs cfg)]
       \<lparr> weights = w0, optimizer = o0,
         early_stopper = early_stopping env ''min'' (patience cfg) False,
         best_val_loss = PosInf, checkpoint = ckpt0, log = [], metric_name_var = None \<rparr>"

text \<open>
  Reading the log: the validation losses in the order of the epochs, each with whether the
  line of the saved weights follows it.
\<close>

fun val_history :: "log_entry list \<Rightarrow> (pyfloat \<times> bool) list" where
  "val_history [] = []"
| "val_history (entry # rest) =
     (case entry of
        ValidationLog n v f c \<Rightarrow>
          (v, (case rest of [] \<Rightarrow> False | next_entry # _ \<Rightarrow> next_entry = WeightsSaved))
            # val_history rest
      | _ \<Rightarrow> val_history rest)"

text \<open>
  The words of the checkpoint rule: in a list of validation losses, each marked with
  whether the weights were saved in its epoch, the marked epochs are exactly those whose
  loss is strictly lower than the loss of every epoch before.
\<close>

definition saved_on_improvement :: "(pyfloat \<times> bool) list \<Rightarrow> bool" where
  "saved_on_improvement h =
     (\<forall>i < length h. snd (h ! i) \<longleftrightarrow> (\<forall>j < i. float_less (fst (h ! i)) (fst (h ! j))))"

text \<open>
  The rule with the floats taken into account: the marked epochs are exactly those whose
  loss is strictly lower than infinity and than the loss of every epoch before that is
  not NaN.
\<close>

definition saved_on_float_improvement :: "(pyfloat \<times> bool) list \<Rightarrow> bool" where
  "saved_on_float_improvement h =
     (\<forall>i < length h. snd (h ! i) \<longleftrightarrow>
        float_less (fst (h ! i)) PosInf \<and>
        (\<forall>j < i. fst (h ! j) \<noteq> NaN \<longrightarrow> float_less (fst (h ! i)) (fst (h ! j))))"

section \<open>The iteration of the test loop\<close>

text \<open>
  \<^verbatim>\<open>def test(config, n_plot_per_epoch=None)\<close> iterates over the test set, which yields the
  two images and the two label tensors of a batch directly; the labels have the axes
  \<^verbatim>\<open>[batch, H, W]\<close> or \<^verbatim>\<open>[batch, C, H, W]\<close>. The body has the prediction, the three warps, the
  Dice values and the loss of the other two loops. Where it plots it reads
  \<^verbatim>\<open>config.save_folder\<close> and then the name \<^verbatim>\<open>label_is_binary\<close>, which \<^verbatim>\<open>test\<close> never binds.
\<close>

datatype test_labels = Labels3 "real tensor3" | Labels4 "real tensor4"


definition with_channel :: "test_labels \<Rightarrow> real tensor4" where
  "with_channel l = (case l of Labels3 t \<Rightarrow> map (\<lambda>m. [m]) t | Labels4 t \<Rightarrow> t)"



section \<open>Inference\<close>

text \<open>
  \<^verbatim>\<open>infer\<close> reads names that it does not bind itself; Python looks them up in the globals
  of the module when the line runs and raises \<^verbatim>\<open>NameError\<close> for a name that is not bound. A
  namespace gives the value of each bound name; of the values only those that name a
  path (a string, or a path object, with its text) and \<^verbatim>\<open>None\<close> are told apart. The
  attributes of \<^verbatim>\<open>config\<close> are read in the same way, and reading one that the object does
  not have raises \<^verbatim>\<open>AttributeError\<close>.
\<close>

datatype pyval = StrVal string | NoneVal | Other

type_synonym namespace = "string \<Rightarrow> pyval option"

definition lookup_global :: "namespace \<Rightarrow> string \<Rightarrow> py_error + pyval" where
  "lookup_global g name = (case g name of None \<Rightarrow> Inl (NameError name) | Some v \<Rightarrow> Inr v)"

definition get_attr :: "namespace \<Rightarrow> string \<Rightarrow> py_error + pyval" where
  "get_attr obj name = (case obj name of None \<Rightarrow> Inl (AttributeError name) | Some v \<Rightarrow> Inr v)"

text \<open>A value that \<^verbatim>\<open>os.path.join\<close> accepts as a part of a path.\<close>

definition as_str :: "pyval \<Rightarrow> py_error + string" where
  "as_str v = (case v of StrVal s \<Rightarrow> Inr s | _ \<Rightarrow> Inl TypeError)"

text \<open>
  The names that the file binds at its top level, by its imports, its function definitions
  and its assignments, the last five of them only when it runs as a script.
\<close>

definition module_names :: "string list" where
  "module_names =
     [''Tuple'', ''List'', ''Literal'', ''argparse'', ''np'', ''torch'', ''cv2'', ''ast'', ''os'',
      ''tqdm'', ''plt'', ''partial'', ''AutoEncoder'', ''UNet'', ''Warper'', ''AttributeHashmap'',
      ''prepare_dataset'', ''log'', ''parse_settings'', ''seed_everything'', ''EarlyStopping'',
      ''dice_coeff'', ''IoU'', ''NCC'', ''numpy_variables'', ''l1'', ''plot_side_by_side'',
      ''flip_rot'', ''predict_flipping_rotation'', ''apply_flipping_rotation'', ''train'', ''test'',
      ''re'', ''glob'', ''extract_h_w'', ''stitch_patches'', ''metrics'', ''eval_stitched'',
      ''shutil'', ''infer'', ''load_dotenv'', ''WANDB_ENTITY'', ''PROJECT_PATH'',
      ''parser'', ''config'', ''ROOT'', ''key'', ''log_str'']"

definition module_namespace :: "string \<Rightarrow> namespace" where
  "module_namespace model_name =
     (map_of (map (\<lambda>n. (n, Other)) module_names)) (''model_name'' \<mapsto> StrVal model_name)"

text \<open>\<^verbatim>\<open>os.path.join\<close> and \<^verbatim>\<open>os.path.basename\<close> on POSIX paths.\<close>

definition path_join2 :: "string \<Rightarrow> string \<Rightarrow> string" where
  "path_join2 a b =
     (if b \<noteq> [] \<and> hd b = CHR ''/'' then b
      else if a = [] \<or> last a = CHR ''/'' then a @ b
      else a @ ''/'' @ b)"

definition basename :: "string \<Rightarrow> string" where
  "basename p = rev (takeWhile (\<lambda>c. c \<noteq> CHR ''/'') (rev p))"

text \<open>
  The files this call has written, the later write over the earlier;
  \<^verbatim>\<open>glob(folder + '/*.png')\<close> on a folder that the call has emptied at its start and whose
  name has none of the wildcard characters of \<^verbatim>\<open>glob\<close>, and \<^verbatim>\<open>cv2.imread\<close> of a file in it.
  \<^verbatim>\<open>cv2.imwrite\<close> is taken to store the image it is given under the name it is given.
\<close>

definition written_file :: "disk_writes \<Rightarrow> string \<Rightarrow> image option" where
  "written_file written p = map_of (rev written) p"

definition is_png_in :: "string \<Rightarrow> string \<Rightarrow> bool" where
  "is_png_in folder p =
     (let name = basename p
      in p = folder @ ''/'' @ name \<and> 4 < length name \<and> hd name \<noteq> CHR ''.'' \<and>
         drop (length name - 4) name = ''.png'')"

definition glob_png_of :: "disk_writes \<Rightarrow> string \<Rightarrow> string list" where
  "glob_png_of written folder = remdups (filter (is_png_in folder) (map fst written))"

definition imread_of :: "disk_writes \<Rightarrow> string \<Rightarrow> uint8 ndarray option" where
  "imread_of written p =
     (case written_file written p of Some (Gray a) \<Rightarrow> Some a | _ \<Rightarrow> None)"

text \<open>
  What \<^verbatim>\<open>load_match_pairs\<close> hands to \<^verbatim>\<open>infer\<close>: the paths of the test images, whether there
  are test labels, and the batches of the data loader.
\<close>

record infer_batch =
  bclosest_images :: "real tensor4"
  btest_images :: "real tensor4"
  bclosest_labels :: test_labels

record match_pairs =
  test_image_paths :: "string list"
  has_test_labels :: bool
  infer_batches :: "infer_batch list"

text \<open>
  What the collaborators of \<^verbatim>\<open>infer\<close> do in a call: whether \<^verbatim>\<open>torch.cuda.is_available()\<close>, the
  exception of \<^verbatim>\<open>prepare_dataset\<close> if it raises, the exception of emptying the folder of the
  predicted patches, whether the network could be constructed, the exceptions of loading
  its weights and of constructing the warper, what \<^verbatim>\<open>load_match_pairs\<close> returns or raises
  (when the namespace binds the name) and the data loader makes of it, and the grey image
  that \<^verbatim>\<open>cv2\<close> stores, or the exception it raises, for a predicted label that is not one
  channel of at least two rows and two columns.
\<close>

record infer_world =
  cuda_available :: bool
  prepare_dataset_raises :: "py_error option"
  folder_reset_raises :: "py_error option"
  network_constructed :: bool
  load_weights_raises :: "py_error option"
  warper_raises :: "py_error option"
  match_pairs_loaded :: "py_error + match_pairs"
  imwrite_other :: "real tensor3 \<Rightarrow> py_error + uint8 ndarray"

definition raising :: "py_error option \<Rightarrow> py_error + unit" where
  "raising r = (case r of None \<Rightarrow> Inr () | Some e \<Rightarrow> Inl e)"

datatype infer_log = StitchedMetric string real | LabelMetrics

record infer_state =
  files_written :: disk_writes
  lines_logged :: "infer_log list"

text \<open>
  An iteration of the loop over the batches: the prediction of the label, and in the first
  iteration of every ten, when there are test labels, the plot, whose path reads the
  name \<^verbatim>\<open>save_folder\<close>, whose arguments take the first sample of the batch, and whose call
  leaves out the two last arguments of \<^verbatim>\<open>plot_side_by_side\<close>.
  \<^verbatim>\<open>
  warp_predicted = warp_predictor(torch.cat([bclosest_images, btest_images], dim=1))
  warp_field_forward = warp_predicted[:, :2, ...]
  warp_field_reverse = warp_predicted[:, 2:, ...]
  images_U2A = warper(btest_images, flow=warp_field_forward)
  images_U2A_A2U = warper(images_U2A, flow=warp_field_reverse)
  pred_labels = warper(bclosest_labels, flow=warp_field_reverse)
  bpred_label_list = [m.cpu().detach().numpy() for m in pred_labels]
  pred_label_list.extend(bpred_label_list)
  plot_freq = 10
  shall_plot = iter_idx % plot_freq == 0
  if shall_plot and test_labels is not None:
      save_path_fig_sbs = '%s/infer/figure_sample%s.png' % (save_folder, str(iter_idx).zfill(5))
      plot_side_by_side(save_path_fig_sbs, *numpy_variables(
          btest_images[0], bclosest_images[0], images_U2A_A2U[0], images_U2A[0],
          btest_labels[0] > 0.5, bclosest_labels[0] > 0.5, pred_labels[0] > 0.5))
  \<close>
\<close>

definition infer_batch_step ::
  "('w, 'o, 'es) env \<Rightarrow> 'w \<Rightarrow> namespace \<Rightarrow> bool \<Rightarrow> nat \<Rightarrow> infer_batch
     \<Rightarrow> py_error + real tensor3 list" where
  "infer_batch_step env w g test_labels_given iter_idx b =
     bind_result (cat_channels (bclosest_images b) (btest_images b)) (\<lambda>pair.
     bind_result (warp_predictor env w pair) (\<lambda>warp_predicted.
       (let warp_field_forward = map (take 2) warp_predicted;
            warp_field_reverse = map (drop 2) warp_predicted
        in bind_result (warper env (btest_images b) warp_field_forward) (\<lambda>images_U2A.
           bind_result (warper env images_U2A warp_field_reverse) (\<lambda>images_U2A_A2U.
           bind_result (warper env (with_channel (bclosest_labels b)) warp_field_reverse)
             (\<lambda>pred_labels.
           if iter_idx mod 10 = 0 \<and> test_labels_given then
             bind_result (lookup_global g ''save_folder'') (\<lambda>_.
             bind_result (nth_result (btest_images b) 0) (\<lambda>_. Inl TypeError))
           else Inr pred_labels))))))"

fun infer_batches_loop ::
  "('w, 'o, 'es) env \<Rightarrow> 'w \<Rightarrow> namespace \<Rightarrow> bool \<Rightarrow> nat \<Rightarrow> infer_batch list
     \<Rightarrow> real tensor3 list \<Rightarrow> py_error + real tensor3 list" where
  "infer_batches_loop env w g test_labels_given iter_idx [] pred_label_list = Inr pred_label_list"
| "infer_batches_loop env w g test_labels_given iter_idx (b # rest) pred_label_list =
     bind_result (infer_batch_step env w g test_labels_given iter_idx b) (\<lambda>bpred_label_list.
       infer_batches_loop env w g test_labels_given (Suc iter_idx) rest
         (pred_label_list @ bpred_label_list))"

text \<open>
  \<^verbatim>\<open>np.squeeze((pred_label_list[i] > 0.5).astype(np.uint8))\<close> as \<^verbatim>\<open>cv2.imwrite\<close> stores it: for
  a label of one channel with at least two rows and two columns, the channel as an image
  of zeros and ones.
\<close>

definition label_image :: "infer_world \<Rightarrow> real tensor3 \<Rightarrow> py_error + uint8 ndarray" where
  "label_image world t =
     (case t of
        [r # m] \<Rightarrow>
          if 2 \<le> length (r # m) \<and> 2 \<le> length r
          then Inr (NDArray (length (r # m)) (length r)
                      (\<lambda>i j. if (r # m) ! i ! j > 0.5 then 1 else 0))
          else imwrite_other world t
      | _ \<Rightarrow> imwrite_other world t)"

text \<open>
  \<^verbatim>\<open>
  for i in range(len(pred_label_list)):
      fname = os.path.join(pred_label_folder, os.path.basename(test_image_paths[i]))
      cv2.imwrite(fname, np.squeeze((pred_label_list[i] > 0.5).astype(np.uint8)))
  \<close>
\<close>

fun save_pred_labels ::
  "infer_world \<Rightarrow> string \<Rightarrow> string list \<Rightarrow> real tensor3 list \<Rightarrow> nat \<Rightarrow> disk_writes
     \<Rightarrow> disk_writes \<times> (py_error + unit)" where
  "save_pred_labels world pred_label_folder paths [] i written = (written, Inr ())"
| "save_pred_labels world pred_label_folder paths (pred # rest) i written =
     (case bind_result (nth_result paths i) (\<lambda>path.
           bind_result (label_image world pred) (\<lambda>img.
             Inr (path_join2 pred_label_folder (basename path), Gray img))) of
        Inl e \<Rightarrow> (written, Inl e)
      | Inr file \<Rightarrow>
          save_pred_labels world pred_label_folder paths rest (Suc i) (written @ [file]))"

text \<open>
  The first lines of \<^verbatim>\<open>infer\<close>, up to the loaded pairs; the result is the folder of the
  predicted patches and the pairs. The folder is emptied here, so that it holds the files
  of this call only.
  \<^verbatim>\<open>
  device = torch.device('cuda:%d' % config.gpu_id if torch.cuda.is_available() else 'cpu')
  _, _, _, test_set = prepare_dataset(config=config)
  pred_label_folder = os.path.join(config.output_save_root, model_name, 'pred_patches')
  if os.path.exists(pred_label_folder):
      shutil.rmtree(pred_label_folder)
      os.makedirs(pred_label_folder)
  else:
      os.makedirs(pred_label_folder)
  try:
      warp_predictor = globals()[config.DiffeoMappingNet_model](num_filters=config.num_filters,
                                                                in_channels=6, out_channels=4)
  except:
      raise ValueError('`config.DiffeoMappingNet_model`: %s not supported.'
                       % config.DiffeoMappingNet_model)
  warp_predictor.load_weights(config.DiffeoMappingNet_model_save_path, device=device)
  warper = Warper(size=config.target_dim)
  load_results = load_match_pairs(config.matched_pair_path_root, mode='infer', config=config)
  (test_images, test_labels, closest_images, closest_labels, test_image_paths) = load_results
  ...
  dataloader = torch.utils.data.DataLoader(dataset, batch_size=config.batch_size, shuffle=False)
  \<close>
\<close>

definition infer_setup ::
  "infer_world \<Rightarrow> namespace \<Rightarrow> namespace \<Rightarrow> py_error + string \<times> match_pairs" where
  "infer_setup world g cfg =
     bind_result (if cuda_available world
                  then bind_result (get_attr cfg ''gpu_id'')
                         (\<lambda>gpu_id. if gpu_id = Other then Inr () else Inl TypeError)
                  else Inr ()) (\<lambda>_.
     bind_result (raising (prepare_dataset_raises world)) (\<lambda>_.
     bind_result (get_attr cfg ''output_save_root'') (\<lambda>output_save_root.
     bind_result (lookup_global g ''model_name'') (\<lambda>model_name.
     bind_result (as_str output_save_root) (\<lambda>root.
     bind_result (as_str model_name) (\<lambda>name.
     bind_result (raising (folder_reset_raises world)) (\<lambda>_.
     bind_result (get_attr cfg ''DiffeoMappingNet_model'') (\<lambda>_.
     bind_result (if cfg ''num_filters'' \<noteq> None \<and> network_constructed world
                  then Inr () else Inl ValueError) (\<lambda>_.
     bind_result (get_attr cfg ''DiffeoMappingNet_model_save_path'') (\<lambda>_.
     bind_result (raising (load_weights_raises world)) (\<lambda>_.
     bind_result (get_attr cfg ''target_dim'') (\<lambda>_.
     bind_result (raising (warper_raises world)) (\<lambda>_.
     bind_result (lookup_global g ''load_match_pairs'') (\<lambda>_.
     bind_result (get_attr cfg ''matched_pair_path_root'') (\<lambda>_.
     bind_result (match_pairs_loaded world) (\<lambda>pairs.
     bind_result (get_attr cfg ''batch_size'') (\<lambda>_.
       Inr (path_join2 (path_join2 root name) ''pred_patches'', pairs))))))))))))))))))"

text \<open>
  \<^verbatim>\<open>infer\<close> up to the stitching. \<open>g\<close> is the namespace of the module when \<^verbatim>\<open>infer\<close> runs and
  \<open>cfg\<close> the attributes of \<^verbatim>\<open>config\<close>. The result is the files written, with the exception
  raised or the list of predicted labels, whether there are test labels, and the folder
  of the stitched labels.
  \<^verbatim>\<open>
  for iter_idx, batch in enumerate(tqdm(dataloader)): ...
  for i in range(len(pred_label_list)): ...
  stitched_label_list, stitched_folder = stitch_patches(pred_label_folder)
  \<close>
\<close>

definition infer_stitched ::
  "('w, 'o, 'es) env \<Rightarrow> 'w \<Rightarrow> infer_world \<Rightarrow> namespace \<Rightarrow> namespace
     \<Rightarrow> disk_writes \<times> (py_error + real tensor3 list \<times> bool \<times> string)" where
  "infer_stitched env w world g cfg =
     (case bind_result (infer_setup world g cfg) (\<lambda>(pred_label_folder, pairs).
           bind_result (infer_batches_loop env w g (has_test_labels pairs) 0
                          (infer_batches pairs) []) (\<lambda>pred_label_list.
             Inr (pred_label_folder, pairs, pred_label_list))) of
        Inl e \<Rightarrow> ([], Inl e)
      | Inr (pred_label_folder, pairs, pred_label_list) \<Rightarrow>
          (case save_pred_labels world pred_label_folder (test_image_paths pairs) pred_label_list
                  0 [] of
             (saved, Inl e) \<Rightarrow> (saved, Inl e)
           | (saved, Inr _) \<Rightarrow>
               (case stitch_patches (glob_png_of saved pred_label_folder) (imread_of saved)
                       pred_label_folder (1000, 1000) of
                  (stitched, Inl e) \<Rightarrow> (saved @ stitched, Inl e)
                | (stitched, Inr (stitched_label_list, stitched_folder)) \<Rightarrow>
                    (saved @ stitched,
                     Inr (pred_label_list, has_test_labels pairs, stitched_folder)))))"

text \<open>
  \<^verbatim>\<open>def infer(config, wandb_run=None)\<close>. \<open>evaluate\<close> stands for \<^verbatim>\<open>eval_stitched\<close> with the disk
  and the metrics it reads, and \<open>label_metrics\<close> for the evaluation against the test
  labels at the end. The arguments of the call of \<^verbatim>\<open>eval_stitched\<close> are evaluated from left
  to right, \<^verbatim>\<open>config.organ\<close> before the name \<^verbatim>\<open>dataset_name\<close>, and the call comes after them.
  The result is the files written and the lines logged, with the exception raised or the
  return.
  \<^verbatim>\<open>
  test_label_folder = config.groudtruth_folder
  stitched_results = eval_stitched(stitched_folder, test_label_folder, organ=config.organ,
                                   dataset_name=dataset_name)
  for k, v in stitched_results.items():
      log(F'[Eval] Stitched {k}: {v}', filepath=config.log_path, to_console=True)
  if test_labels is not None: ...
  \<close>
\<close>

definition infer ::
  "('w, 'o, 'es) env \<Rightarrow> 'w \<Rightarrow> infer_world \<Rightarrow> namespace \<Rightarrow> namespace
     \<Rightarrow> (string \<Rightarrow> pyval \<Rightarrow> pyval \<Rightarrow> pyval \<Rightarrow> py_error + (string \<times> real) list)
     \<Rightarrow> (real tensor3 list \<Rightarrow> py_error + unit)
     \<Rightarrow> infer_state \<times> (py_error + unit)" where
  "infer env w world g cfg evaluate label_metrics =
     (case infer_stitched env w world g cfg of
        (files, Inl e) \<Rightarrow> (\<lparr> files_written = files, lines_logged = [] \<rparr>, Inl e)
      | (files, Inr (pred_label_list, test_labels_given, stitched_folder)) \<Rightarrow>
          (let st = \<lparr> files_written = files, lines_logged = [] \<rparr>
           in case bind_result (get_attr cfg ''groudtruth_folder'') (\<lambda>test_label_folder.
                   bind_result (get_attr cfg ''organ'') (\<lambda>organ.
                   bind_result (lookup_global g ''dataset_name'') (\<lambda>dataset_name.
                     evaluate stitched_folder test_label_folder organ dataset_name))) of
                Inl e \<Rightarrow> (st, Inl e)
              | Inr stitched_results \<Rightarrow>
                  (case (if stitched_results = [] then Inr Other else get_attr cfg ''log_path'') of
                     Inl e \<Rightarrow> (st, Inl e)
                   | Inr _ \<Rightarrow>
                       (let logged = st \<lparr> lines_logged :=
                              map (\<lambda>(k, v). StitchedMetric k v) stitched_results \<rparr>
                        in if test_labels_given then
                             (case label_metrics pred_label_list of
                                Inl e \<Rightarrow> (logged, Inl e)
                              | Inr _ \<Rightarrow>
                                  (logged \<lparr> lines_logged := lines_logged logged @ [LabelMetrics] \<rparr>,
                                   Inr ()))
                           else (logged, Inr ())))))"

section \<open>A small run\<close>

text \<open>
  Collaborators and data small enough to run the loops by hand: the network returns its
  input as the field, the warper returns the tensor it is given, the loss of two tensors
  is the first value of the first one, and NaN when that value is negative, the optimizer
  counts its steps in the weights, and the early stopper signals stop in the third epoch.
  A batch has one sample with two views of one pixel; the validation batches of the first
  epochs hold 3, 5 and 1, and in the second run \<open>- 1\<close>, 2 and 3.
\<close>

definition sample_env :: "debugger_outcome \<Rightarrow> (nat, unit, nat) env" where
  "sample_env answer =
     \<lparr> warp_predictor = (\<lambda>w x. Inr x),
       warper = (\<lambda>x f. Inr x),
       mse_loss = (\<lambda>a b. Inr (case flat4 a of [] \<Rightarrow> Finite 0
                              | x # _ \<Rightarrow> if x < 0 then NaN else Finite x)),
       dice_coeff = (\<lambda>a b. 0),
       IoU = (\<lambda>a b. 0),
       plot_side_by_side = (\<lambda>path tensors name. None),
       pdb_set_trace = (\<lambda>epoch_idx iter_idx. answer),
       optimizer_step = (\<lambda>(w, opt) pair. (Suc w, opt)),
       lr_scheduler_step = (\<lambda>opt. opt),
       early_stopping = (\<lambda>mode patience percentage. 0),
       early_stopper_step = (\<lambda>es v. (2 \<le> es, Suc es)) \<rparr>"

definition sample_batch :: "real \<Rightarrow> label_tensor \<Rightarrow> batch" where
  "sample_batch a labels =
     \<lparr> image_n_view = [[[[[0]]], [[[a]]]]], label_n_view = labels, permuted_idx = [0] \<rparr>"

definition sample_loaders :: "nat \<Rightarrow> loaders" where
  "sample_loaders n =
     \<lparr> train_loader = (\<lambda>epoch_idx. [sample_batch 0 (FloatLabels (Views3 [[[[0]], [[0]]]]))]),
       val_loader = (\<lambda>epoch_idx. [sample_batch ([3, 5, 1, 0, 0] ! epoch_idx)
                                     (FloatLabels (Views3 [[[[0]], [[0]]]]))]),
       train_dataset_len = 1,
       val_dataset_len = n \<rparr>"

definition nan_loaders :: loaders where
  "nan_loaders =
     \<lparr> train_loader = (\<lambda>epoch_idx. [sample_batch 0 (FloatLabels (Views3 [[[[0]], [[0]]]]))]),
       val_loader = (\<lambda>epoch_idx. [sample_batch ([- 1, 2, 3, 0, 0] ! epoch_idx)
                                     (FloatLabels (Views3 [[[[0]], [[0]]]]))]),
       train_dataset_len = 1,
       val_dataset_len = 1 \<rparr>"

definition sample_config :: config where
  "sample_config =
     \<lparr> strong = False, max_epochs = 5, n_plot_per_epoch = 1, patience = 50,
       output_save_path = ''out'' \<rparr>"

text \<open>
  Two patches of one image without test labels, a namespace in which \<^verbatim>\<open>load_match_pairs\<close>
  has been bound beside the names of the module, and a \<^verbatim>\<open>config\<close> with the attributes that
  \<^verbatim>\<open>infer\<close> reads; a second \<^verbatim>\<open>config\<close> is without the attribute \<^verbatim>\<open>organ\<close>.
\<close>

definition sample_pairs :: match_pairs where
  "sample_pairs =
     \<lparr> test_image_paths = [''/data/x_H0_W0.png'', ''/data/x_H0_W16.png''],
       has_test_labels = False,
       infer_batches =
         [\<lparr> bclosest_images = [[[[0]]], [[[0]]]],
            btest_images = [[[[0]]], [[[0]]]],
            bclosest_labels =
              Labels3 [replicate 32 (replicate 32 1), replicate 32 (replicate 32 0)] \<rparr>] \<rparr>"

definition sample_world :: infer_world where
  "sample_world =
     \<lparr> cuda_available = False, prepare_dataset_raises = None, folder_reset_raises = None,
       network_constructed = True, load_weights_raises = None, warper_raises = None,
       match_pairs_loaded = Inr sample_pairs,
       imwrite_other = (\<lambda>t. Inl RuntimeError) \<rparr>"

definition sample_namespace :: namespace where
  "sample_namespace = (module_namespace ''run1'') (''load_match_pairs'' \<mapsto> Other)"

definition sample_infer_config :: namespace where
  "sample_infer_config =
     map_of [(''output_save_root'', StrVal ''/out''), (''DiffeoMappingNet_model'', StrVal ''UNet''),
             (''num_filters'', Other), (''DiffeoMappingNet_model_save_path'', StrVal ''/ckpt''),
             (''target_dim'', Other), (''matched_pair_path_root'', StrVal ''/pairs''),
             (''batch_size'', Other), (''groudtruth_folder'', StrVal ''/gt''),
             (''organ'', NoneVal), (''log_path'', StrVal ''/log.txt'')]"


definition sample_evaluate ::
  "string \<Rightarrow> pyval \<Rightarrow> pyval \<Rightarrow> pyval \<Rightarrow> py_error + (string \<times> real) list" where
  "sample_evaluate pred_folder true_folder organ_name dataset = Inr [(''dice'', 1)]"

definition sample_label_metrics :: "real tensor3 list \<Rightarrow> py_error + unit" where
  "sample_label_metrics pred_label_list = Inr ()"

text \<open>
  Two folders for the stitcher. The first holds one patch of the image \<^verbatim>\<open>x\<close>, all 1, and one
  patch of the image \<^verbatim>\<open>x_aug\<close>, all 2, at the same offsets. The second, whose name contains
  \<^verbatim>\<open>.png\<close>, holds one patch, all 1.
\<close>

definition two_images_glob :: "string list" where
  "two_images_glob = [''/r/pred_patches/x_aug_H0_W0.png'', ''/r/pred_patches/x_H0_W0.png'']"

definition two_images_imread :: "string \<Rightarrow> uint8 ndarray option" where
  "two_images_imread p =
     (if p = ''/r/pred_patches/x_H0_W0.png'' then Some (NDArray 32 32 (\<lambda>i j. 1))
      else if p = ''/r/pred_patches/x_aug_H0_W0.png'' then Some (NDArray 32 32 (\<lambda>i j. 2))
      else None)"

definition png_folder_glob :: "string list" where
  "png_folder_glob = [''/r.png/pred_patches/x_H0_W0.png'']"

definition png_folder_imread :: "string \<Rightarrow> uint8 ndarray option" where
  "png_folder_imread p =
     (if p = ''/r.png/pred_patches/x_H0_W0.png'' then Some (NDArray 32 32 (\<lambda>i j. 1))
      else None)"

section \<open>Properties of the patch placement\<close>

subsection \<open>Slices along one axis\<close>

lemma slice_index_cases:
  "0 \<le> i \<Longrightarrow> i \<le> int n \<Longrightarrow> slice_index n i = nat i"
  "int n \<le> i \<Longrightarrow> slice_index n i = n"
  "i < 0 \<Longrightarrow> - int n \<le> i \<Longrightarrow> slice_index n i = nat (int n + i)"
  "i < 0 \<Longrightarrow> i \<le> - int n \<Longrightarrow> slice_index n i = 0"
  by (auto simp: slice_index_def)

lemma axis_nonneg:
  fixes h :: int and S :: nat
  assumes h: "0 \<le> h"
      and ok: "snd (slice_range 32 (0, min (h + 32) (int S) - h))
                 = snd (slice_range S (h, min (h + 32) (int S)))
             \<or> snd (slice_range 32 (0, min (h + 32) (int S) - h)) = 1"
      and r: "r < S"
  shows "(fst (slice_range S (h, min (h + 32) (int S))) \<le> r
          \<and> r < fst (slice_range S (h, min (h + 32) (int S)))
                 + snd (slice_range S (h, min (h + 32) (int S))))
         \<longleftrightarrow> (h \<le> int r \<and> int r < min (h + 32) (int S))"
   and "h \<le> int r \<Longrightarrow> int r < min (h + 32) (int S) \<Longrightarrow>
        fst (slice_range 32 (0, min (h + 32) (int S) - h))
         + bidx (snd (slice_range 32 (0, min (h + 32) (int S) - h)))
             (r - fst (slice_range S (h, min (h + 32) (int S))))
         = nat (int r - h)"
proof -
  consider (inside) "h + 32 \<le> int S" | (clip) "h \<le> int S" "int S < h + 32" | (out) "int S < h"
    by linarith
  then have "((fst (slice_range S (h, min (h + 32) (int S))) \<le> r
          \<and> r < fst (slice_range S (h, min (h + 32) (int S)))
                 + snd (slice_range S (h, min (h + 32) (int S))))
         \<longleftrightarrow> (h \<le> int r \<and> int r < min (h + 32) (int S))) \<and>
     (h \<le> int r \<longrightarrow> int r < min (h + 32) (int S) \<longrightarrow>
        fst (slice_range 32 (0, min (h + 32) (int S) - h))
         + bidx (snd (slice_range 32 (0, min (h + 32) (int S) - h)))
             (r - fst (slice_range S (h, min (h + 32) (int S))))
         = nat (int r - h))"
  proof cases
    case inside
    then have m: "min (h + 32) (int S) = h + 32" by simp
    show ?thesis using h inside r unfolding m slice_range_def Let_def fst_conv snd_conv
      by (simp add: slice_index_cases bidx_def) linarith
  next
    case clip
    then have m: "min (h + 32) (int S) = int S" by simp
    show ?thesis using h clip r unfolding m slice_range_def Let_def fst_conv snd_conv
      by (simp add: slice_index_cases bidx_def) linarith
  next
    case out
    then have m: "min (h + 32) (int S) = int S" by simp
    show ?thesis using h out r unfolding m slice_range_def Let_def fst_conv snd_conv
      by (simp add: slice_index_cases bidx_def)
  qed
  then show "(fst (slice_range S (h, min (h + 32) (int S))) \<le> r
          \<and> r < fst (slice_range S (h, min (h + 32) (int S)))
                 + snd (slice_range S (h, min (h + 32) (int S))))
         \<longleftrightarrow> (h \<le> int r \<and> int r < min (h + 32) (int S))"
   and "h \<le> int r \<Longrightarrow> int r < min (h + 32) (int S) \<Longrightarrow>
        fst (slice_range 32 (0, min (h + 32) (int S) - h))
         + bidx (snd (slice_range 32 (0, min (h + 32) (int S) - h)))
             (r - fst (slice_range S (h, min (h + 32) (int S))))
         = nat (int r - h)" by blast+
qed

lemma axis_neg:
  fixes h :: int and S :: nat
  assumes h: "h < 0"
      and ok: "snd (slice_range 32 (- h, - h + min (32 + h) (int S)))
                 = snd (slice_range S (0, min (32 + h) (int S)))
             \<or> snd (slice_range 32 (- h, - h + min (32 + h) (int S))) = 1"
      and r: "r < S"
  shows "((fst (slice_range S (0, min (32 + h) (int S))) \<le> r
          \<and> r < fst (slice_range S (0, min (32 + h) (int S)))
                 + snd (slice_range S (0, min (32 + h) (int S))))
         \<longleftrightarrow> (int r < min (32 + h) (int S))) \<and>
        (int r < min (32 + h) (int S) \<longrightarrow>
        fst (slice_range 32 (- h, - h + min (32 + h) (int S)))
         + bidx (snd (slice_range 32 (- h, - h + min (32 + h) (int S))))
             (r - fst (slice_range S (0, min (32 + h) (int S))))
         = nat (int r - h))"
proof -
  consider (inside) "0 \<le> 32 + h" "32 + h \<le> int S" | (clip) "int S < 32 + h"
    | (out) "32 + h < 0"
    by linarith
  then show ?thesis
  proof cases
    case inside
    then have m: "min (32 + h) (int S) = 32 + h" by simp
    show ?thesis using h inside r unfolding m slice_range_def Let_def fst_conv snd_conv
      by (simp add: slice_index_cases bidx_def) linarith
  next
    case clip
    then have m: "min (32 + h) (int S) = int S" by simp
    show ?thesis using h clip r unfolding m slice_range_def Let_def fst_conv snd_conv
      by (simp add: slice_index_cases bidx_def) linarith
  next
    case out
    then have m: "min (32 + h) (int S) = 32 + h" by simp
    have p: "slice_index 32 (- h) = 32" using out by (simp add: slice_index_def)
    have q: "slice_index 32 (- h + (32 + h)) = 32" by (simp add: slice_index_def)
    have c0: "slice_index S 0 = 0" by (simp add: slice_index_def)
    from ok have "slice_index S (32 + h) = 0 \<or> False"
      unfolding m slice_range_def Let_def fst_conv snd_conv p q c0 by simp
    then show ?thesis using h out r unfolding m slice_range_def Let_def fst_conv snd_conv p q c0
      by simp
  qed
qed

lemma axis_region:
  fixes h :: int and S :: nat
  assumes ok: "snd (slice_range 32 (- min 0 h, - min 0 h + (min (max 0 h + 32 + min 0 h) (int S) - max 0 h)))
                 = snd (slice_range S (max 0 h, min (max 0 h + 32 + min 0 h) (int S)))
             \<or> snd (slice_range 32 (- min 0 h, - min 0 h + (min (max 0 h + 32 + min 0 h) (int S) - max 0 h))) = 1"
      and r: "r < S"
  shows "((fst (slice_range S (max 0 h, min (max 0 h + 32 + min 0 h) (int S))) \<le> r
          \<and> r < fst (slice_range S (max 0 h, min (max 0 h + 32 + min 0 h) (int S)))
                 + snd (slice_range S (max 0 h, min (max 0 h + 32 + min 0 h) (int S))))
         \<longleftrightarrow> (max 0 h \<le> int r \<and> int r < min (max 0 h + 32 + min 0 h) (int S))) \<and>
        (max 0 h \<le> int r \<longrightarrow> int r < min (max 0 h + 32 + min 0 h) (int S) \<longrightarrow>
         fst (slice_range 32 (- min 0 h, - min 0 h + (min (max 0 h + 32 + min 0 h) (int S) - max 0 h)))
         + bidx (snd (slice_range 32 (- min 0 h, - min 0 h + (min (max 0 h + 32 + min 0 h) (int S) - max 0 h))))
             (r - fst (slice_range S (max 0 h, min (max 0 h + 32 + min 0 h) (int S))))
         = nat (int r - max 0 h - min 0 h))"
proof (cases "h < 0")
  case True
  then have e: "max 0 h = 0" "min 0 h = h" by simp_all
  have a: "0 + 32 + h = 32 + h" by simp
  from axis_neg [OF True _ r] ok show ?thesis
    unfolding e a by simp
next
  case False
  then have h: "0 \<le> h" by simp
  then have e: "max 0 h = h" "min 0 h = 0" by simp_all
  from axis_nonneg [OF h _ r] ok show ?thesis
    unfolding e by simp
qed

subsection \<open>One patch written to the canvas\<close>

text \<open>
  A patch of 32 by 32 pixels whose file name carries the offsets \<open>(h, w)\<close>: if the loop body
  returns, the canvas keeps its shape, the pixels of the region are those of the patch
  laid with its first pixel at row \<open>h\<close> and column \<open>w\<close>, and all others are as before.
\<close>

lemma stitch_patch_pixel:
  assumes hw: "extract_h_w path = Inr (h, w)"
      and rd: "imread path = Some patch"
      and ps: "shape0 patch = 32" "shape1 patch = 32"
      and cs: "shape0 canvas = fst sz" "shape1 canvas = snd sz"
      and res: "stitch_patch imread sz canvas path = Inr canvas'"
  shows "shape0 canvas' = fst sz \<and> shape1 canvas' = snd sz \<and>
         (\<forall>r c. r < fst sz \<longrightarrow> c < snd sz \<longrightarrow>
            cell canvas' r c =
              (if max 0 h \<le> int r \<and> int r < min (max 0 h + 32 + min 0 h) (int (fst sz)) \<and>
                  max 0 w \<le> int c \<and> int c < min (max 0 w + 32 + min 0 w) (int (snd sz))
               then cell patch (nat (int r - max 0 h - min 0 h)) (nat (int c - max 0 w - min 0 w))
               else cell canvas r c))"
proof -
  let ?S0 = "fst sz" and ?S1 = "snd sz"
  let ?eh = "min (max 0 h + 32 + min 0 h) (int ?S0)"
  let ?ew = "min (max 0 w + 32 + min 0 w) (int ?S1)"
  let ?pr0 = "slice_range 32 (- min 0 h, - min 0 h + (?eh - max 0 h))"
  let ?pr1 = "slice_range 32 (- min 0 w, - min 0 w + (?ew - max 0 w))"
  let ?cr0 = "slice_range ?S0 (max 0 h, ?eh)"
  let ?cr1 = "slice_range ?S1 (max 0 w, ?ew)"
  let ?new = "nd_slice patch (- min 0 h, - min 0 h + (?eh - max 0 h))
                 (- min 0 w, - min 0 w + (?ew - max 0 w))"
  have sn: "shape0 ?new = snd ?pr0" "shape1 ?new = snd ?pr1"
    by (simp_all add: nd_slice_def ps split_beta)
  have atn: "cell ?new i j = cell patch (fst ?pr0 + i) (fst ?pr1 + j)" for i j
    by (simp add: nd_slice_def ps split_beta)
  from res have asg: "nd_assign_slice canvas (max 0 h, ?eh) (max 0 w, ?ew) ?new = Inr canvas'"
    by (simp add: stitch_patch_def hw rd patch_placement_def imsize_def Let_def
             split: sum.splits)
  then have ok0: "snd ?pr0 = snd ?cr0 \<or> snd ?pr0 = 1"
        and ok1: "snd ?pr1 = snd ?cr1 \<or> snd ?pr1 = 1"
        and c': "canvas' = NDArray ?S0 ?S1
                 (\<lambda>i j. if fst ?cr0 \<le> i \<and> i < fst ?cr0 + snd ?cr0 \<and>
                            fst ?cr1 \<le> j \<and> j < fst ?cr1 + snd ?cr1
                         then cell ?new (bidx (snd ?pr0) (i - fst ?cr0)) (bidx (snd ?pr1) (j - fst ?cr1))
                         else cell canvas i j)"
    unfolding nd_assign_slice_def sn cs by (auto simp: split_beta Let_def split: if_splits)
  have "cell canvas' r c =
              (if max 0 h \<le> int r \<and> int r < ?eh \<and> max 0 w \<le> int c \<and> int c < ?ew
               then cell patch (nat (int r - max 0 h - min 0 h)) (nat (int c - max 0 w - min 0 w))
               else cell canvas r c)" if r: "r < ?S0" and c: "c < ?S1" for r c
  proof -
    note a0 = axis_region [OF ok0 r] and a1 = axis_region [OF ok1 c]
    show ?thesis
      unfolding c' ndarray.sel atn using a0 a1 by auto
  qed
  then show ?thesis by (simp add: c')
qed

lemma stitch_patch_succeeds_H5:
  assumes hw: "extract_h_w path = Inr (- 5, 0)"
      and rd: "imread path = Some patch"
      and ps: "shape0 patch = 32" "shape1 patch = 32"
      and cs: "shape0 canvas = fst sz" "shape1 canvas = snd sz"
      and big: "27 \<le> fst sz" "32 \<le> snd sz"
  shows "\<exists>canvas'. stitch_patch imread sz canvas path = Inr canvas'"
proof -
  have m: "min 27 (int (fst sz)) = 27" "min 32 (int (snd sz)) = 32"
    using big by simp_all
  have s: "slice_range 32 (5, 32) = (5, 27)" "slice_range 32 (0, 32) = (0, 32)"
      "slice_range (fst sz) (0, 27) = (0, 27)" "slice_range (snd sz) (0, 32) = (0, 32)"
    using big by (simp_all add: slice_range_def slice_index_def)
  show ?thesis
    by (simp add: stitch_patch_def hw rd patch_placement_def imsize_def Let_def m
          nd_slice_def ps cs s np_maximum_def broadcast_dim_def nd_assign_slice_def)
qed


text \<open>
  \<^bold>\<open>C2\<close> (as amended). The claim reads the end of the region as
  \<open>min (start_row + patch_size - min 0 h) canvas_height\<close>; the source adds the negative offset:
  \<open>end_h = min (start_h + imsize + offset_h) stitched_size[0]\<close> with \<open>offset_h = min 0 h\<close>.
  For every patch of 32 by 32 pixels with offsets \<open>(h, w)\<close> on which the loop body returns,
  the region written on the canvas starts at \<open>max 0 h\<close>, \<open>max 0 w\<close>, ends before
  \<open>min (start + imsize + min 0 h) height\<close>, \<open>min (start + imsize + min 0 w) width\<close>, the pixel
  \<open>(r, c)\<close> of the region is the pixel \<open>(r - start_h - min 0 h, c - start_w - min 0 w)\<close> of the
  patch, and every pixel outside the region is unchanged; also for negative \<open>h\<close> or \<open>w\<close>.
\<close>

theorem patch_placed_at_offset:
  assumes hw: "extract_h_w path = Inr (h, w)"
      and rd: "imread path = Some patch"
      and ps: "shape0 patch = 32" "shape1 patch = 32"
      and cs: "shape0 canvas = fst sz" "shape1 canvas = snd sz"
      and res: "stitch_patch imread sz canvas path = Inr canvas'"
  shows "start_h (patch_placement sz h w) = max 0 h \<and>
         start_w (patch_placement sz h w) = max 0 w \<and>
         end_h (patch_placement sz h w)
           = min (start_h (patch_placement sz h w) + imsize + min 0 h) (int (fst sz)) \<and>
         end_w (patch_placement sz h w)
           = min (start_w (patch_placement sz h w) + imsize + min 0 w) (int (snd sz)) \<and>
         (\<forall>r c. r < fst sz \<longrightarrow> c < snd sz \<longrightarrow>
            cell canvas' r c =
              (if start_h (patch_placement sz h w) \<le> int r \<and>
                  int r < end_h (patch_placement sz h w) \<and>
                  start_w (patch_placement sz h w) \<le> int c \<and>
                  int c < end_w (patch_placement sz h w)
               then cell patch (nat (int r - start_h (patch_placement sz h w) - min 0 h))
                             (nat (int c - start_w (patch_placement sz h w) - min 0 w))
               else cell canvas r c))"
proof -
  have p: "start_h (patch_placement sz h w) = max 0 h"
          "start_w (patch_placement sz h w) = max 0 w"
          "end_h (patch_placement sz h w) = min (max 0 h + 32 + min 0 h) (int (fst sz))"
          "end_w (patch_placement sz h w) = min (max 0 w + 32 + min 0 w) (int (snd sz))"
    by (simp_all add: patch_placement_def imsize_def Let_def)
  from stitch_patch_pixel [where imread = imread, OF hw rd ps cs res]
  show ?thesis unfolding p by (simp add: imsize_def)
qed

theorem patch_placed_at_offset_witness:
  "\<exists>canvas'. stitch_patch (\<lambda>p. Some (NDArray 32 32 (\<lambda>i j. of_nat j))) (48, 48)
       (np_zeros (48, 48)) ''img_H20_W-3.png'' = Inr canvas' \<and>
     end_h (patch_placement (48, 48) 20 (- 3)) = 48 \<and>
     end_w (patch_placement (48, 48) 20 (- 3)) = 29 \<and>
     cell canvas' 20 0 = 3 \<and> cell canvas' 47 28 = 31 \<and> cell canvas' 19 0 = 0 \<and> cell canvas' 20 29 = 0"
proof -
  let ?rd = "\<lambda>p::string. Some (NDArray 32 32 (\<lambda>i j. of_nat j :: uint8))"
  have hw: "extract_h_w ''img_H20_W-3.png'' = Inr (20, - 3)" by code_simp
  have s: "slice_range 32 (0, 28) = (0, 28)" "slice_range 32 (3, 32) = (3, 29)"
      "slice_range 48 (20, 48) = (20, 28)" "slice_range 48 (0, 29) = (0, 29)"
    by (simp_all add: slice_range_def slice_index_def)
  have "\<exists>canvas'. stitch_patch ?rd (48, 48) (np_zeros (48, 48)) ''img_H20_W-3.png'' = Inr canvas'"
    by (simp add: stitch_patch_def hw patch_placement_def imsize_def Let_def
          nd_slice_def s np_zeros_def np_maximum_def broadcast_dim_def nd_assign_slice_def)
  then obtain canvas' where
    res: "stitch_patch ?rd (48, 48) (np_zeros (48, 48)) ''img_H20_W-3.png'' = Inr canvas'" ..
  have e: "end_h (patch_placement (48, 48) 20 (- 3)) = 48"
          "end_w (patch_placement (48, 48) 20 (- 3)) = 29"
          "start_h (patch_placement (48, 48) 20 (- 3)) = 20"
          "start_w (patch_placement (48, 48) 20 (- 3)) = 0"
    by (simp_all add: patch_placement_def imsize_def Let_def)
  from patch_placed_at_offset [where imread = ?rd and canvas = "np_zeros (48, 48)"
      and patch = "NDArray 32 32 (\<lambda>i j. of_nat j)" and sz = "(48, 48)", OF hw _ _ _ _ _ res]
  have px: "\<And>r c. r < 48 \<Longrightarrow> c < 48 \<Longrightarrow>
      cell canvas' r c = (if 20 \<le> int r \<and> int r < 48 \<and> 0 \<le> int c \<and> int c < 29
                        then of_nat (nat (int c - 0 - min 0 (- 3))) else 0)"
    unfolding e by (simp add: np_zeros_def)
  have "cell canvas' 20 0 = 3" "cell canvas' 47 28 = 31" "cell canvas' 19 0 = 0" "cell canvas' 20 29 = 0"
    by (simp_all add: px)
  with res e show ?thesis by blast
qed

text \<open>
  The claim as stated fails at \<open>h = - 5\<close> on the default canvas: the source ends the region
  before row 27, the claim's formula gives 37.
\<close>

theorem patch_end_row_counterexample:
  "end_h (patch_placement (1000, 1000) (- 5) 0) = 27 \<and>
   min (start_h (patch_placement (1000, 1000) (- 5) 0) + imsize - min 0 (- 5)) (int 1000) = 37"
  by (simp add: patch_placement_def imsize_def Let_def)

text \<open>
  \<^bold>\<open>C7\<close>. With patch size 32 and a canvas of at least 27 rows and 32 columns, the loop body
  returns on a patch of 32 by 32 pixels whose file name carries \<^verbatim>\<open>H-5_W0\<close>; the canvas rows
  0 to 26, columns 0 to 31, are then the rows 5 to 31 of the patch, the top five rows of the
  patch appear nowhere, and every other pixel of the canvas is unchanged.
\<close>

theorem stitch_negative_offset:
  assumes hw: "extract_h_w path = Inr (- 5, 0)"
      and rd: "imread path = Some patch"
      and ps: "shape0 patch = 32" "shape1 patch = 32"
      and cs: "shape0 canvas = fst sz" "shape1 canvas = snd sz"
      and big: "27 \<le> fst sz" "32 \<le> snd sz"
  shows "\<exists>canvas'. stitch_patch imread sz canvas path = Inr canvas' \<and>
           (\<forall>r c. r < fst sz \<longrightarrow> c < snd sz \<longrightarrow>
              cell canvas' r c = (if r < 27 \<and> c < 32 then cell patch (r + 5) c else cell canvas r c))"
proof -
  have "\<exists>canvas'. stitch_patch imread sz canvas path = Inr canvas'"
    using assms by (rule stitch_patch_succeeds_H5)
  then obtain canvas' where res: "stitch_patch imread sz canvas path = Inr canvas'" ..
  have px: "cell canvas' r c = (if r < 27 \<and> c < 32 then cell patch (r + 5) c else cell canvas r c)"
    if r: "r < fst sz" and c: "c < snd sz" for r c
  proof -
    from stitch_patch_pixel [where imread = imread, OF hw rd ps cs res] r c
    have "cell canvas' r c =
            (if max 0 (- 5) \<le> int r \<and> int r < min (max 0 (- 5) + 32 + min 0 (- 5)) (int (fst sz)) \<and>
                max 0 0 \<le> int c \<and> int c < min (max 0 0 + 32 + min 0 0) (int (snd sz))
             then cell patch (nat (int r - max 0 (- 5) - min 0 (- 5))) (nat (int c - max 0 0 - min 0 0))
             else cell canvas r c)" by blast
    moreover have "nat (int r + 5) = r + 5" by simp
    ultimately show ?thesis using big by (simp add: nat_add_distrib)
  qed
  with res show ?thesis by blast
qed


theorem stitch_negative_offset_witness:
  "\<exists>canvas'. stitch_patch (\<lambda>p. Some (NDArray 32 32 (\<lambda>i j. of_nat i))) (1000, 1000)
       (np_zeros (1000, 1000)) ''img_H-5_W0.png'' = Inr canvas' \<and>
     cell canvas' 0 0 = 5 \<and> cell canvas' 26 31 = 31 \<and> cell canvas' 27 0 = 0 \<and> cell canvas' 0 32 = 0"
proof -
  have hw: "extract_h_w ''img_H-5_W0.png'' = Inr (- 5, 0)" by code_simp
  from stitch_negative_offset [where imread = "\<lambda>p. Some (NDArray 32 32 (\<lambda>i j. of_nat i))"
      and patch = "NDArray 32 32 (\<lambda>i j. of_nat i)" and canvas = "np_zeros (1000, 1000)"
      and sz = "(1000, 1000)", OF hw]
  obtain canvas' where
    res: "stitch_patch (\<lambda>p. Some (NDArray 32 32 (\<lambda>i j. of_nat i))) (1000, 1000)
            (np_zeros (1000, 1000)) ''img_H-5_W0.png'' = Inr canvas'"
    and px: "\<And>r c. r < 1000 \<Longrightarrow> c < 1000 \<Longrightarrow>
            cell canvas' r c = (if r < 27 \<and> c < 32 then cell (NDArray 32 32 (\<lambda>i j. of_nat i)) (r + 5) c
                              else cell (np_zeros (1000, 1000)) r c)"
    by (auto simp: np_zeros_def)
  have "cell canvas' 0 0 = 5" "cell canvas' 26 31 = 31" "cell canvas' 27 0 = 0" "cell canvas' 0 32 = 0"
    by (simp_all add: px np_zeros_def)
  with res show ?thesis by blast
qed

section \<open>Properties of the stitched canvas\<close>

lemma stitch_patch_InrD:
  assumes "stitch_patch imread sz canvas path = Inr canvas'"
  shows "\<exists>h w img. extract_h_w path = Inr (h, w) \<and> imread path = Some img"
  using assms by (auto simp: stitch_patch_def Let_def split: sum.splits option.splits)

lemma covers_region:
  assumes "extract_h_w path = Inr (h, w)" "r < S0" "c < S1"
  shows "patch_covers path r c \<longleftrightarrow>
         (max 0 h \<le> int r \<and> int r < min (max 0 h + 32 + min 0 h) (int S0) \<and>
          max 0 w \<le> int c \<and> int c < min (max 0 w + 32 + min 0 w) (int S1))"
  using assms by (auto simp: patch_covers_def imsize_def)

lemma stitch_patch_list_pixels:
  "stitch_patch_list imread sz canvas ps = Inr final \<Longrightarrow>
         \<forall>p\<in>set ps. \<forall>img. imread p = Some img \<longrightarrow> shape0 img = 32 \<and> shape1 img = 32 \<Longrightarrow>
         shape0 canvas = fst sz \<Longrightarrow> shape1 canvas = snd sz \<Longrightarrow>
         shape0 final = fst sz \<and> shape1 final = snd sz \<and>
         (\<forall>r c. r < fst sz \<longrightarrow> c < snd sz \<longrightarrow>
            cell final r c =
              (if filter (\<lambda>p. patch_covers p r c) ps = [] then cell canvas r c
               else patch_pixel imread (last (filter (\<lambda>p. patch_covers p r c) ps)) r c))"
proof (induction ps arbitrary: canvas)
  case Nil
  then show ?case by simp
next
  case (Cons p ps)
  from Cons.prems(1) obtain canvas1 where
    one: "stitch_patch imread sz canvas p = Inr canvas1" and
    rest: "stitch_patch_list imread sz canvas1 ps = Inr final"
    by (auto split: sum.splits)
  from stitch_patch_InrD [OF one] obtain h w img where
    hw: "extract_h_w p = Inr (h, w)" and rd: "imread p = Some img" by blast
  from Cons.prems(2) rd have ps: "shape0 img = 32" "shape1 img = 32" by simp_all
  from Cons.prems(2) have size:
    "\<forall>p\<in>set ps. \<forall>img. imread p = Some img \<longrightarrow> shape0 img = 32 \<and> shape1 img = 32" by simp
  note px1 = stitch_patch_pixel [where imread = imread, OF hw rd ps Cons.prems(3,4) one]
  from px1 have sh1: "shape0 canvas1 = fst sz" "shape1 canvas1 = snd sz" by simp_all
  note ih = Cons.IH [OF rest size sh1]
  have "cell final r c =
          (if filter (\<lambda>p. patch_covers p r c) (p # ps) = [] then cell canvas r c
           else patch_pixel imread (last (filter (\<lambda>p. patch_covers p r c) (p # ps))) r c)"
    if r: "r < fst sz" and c: "c < snd sz" for r c
  proof -
    from ih r c have f: "cell final r c =
        (if filter (\<lambda>p. patch_covers p r c) ps = [] then cell canvas1 r c
         else patch_pixel imread (last (filter (\<lambda>p. patch_covers p r c) ps)) r c)" by blast
    from px1 r c have c1: "cell canvas1 r c =
        (if max 0 h \<le> int r \<and> int r < min (max 0 h + 32 + min 0 h) (int (fst sz)) \<and>
            max 0 w \<le> int c \<and> int c < min (max 0 w + 32 + min 0 w) (int (snd sz))
         then cell img (nat (int r - max 0 h - min 0 h)) (nat (int c - max 0 w - min 0 w))
         else cell canvas r c)" by blast
    have idx: "int r - max 0 h - min 0 h = int r - h" "int c - max 0 w - min 0 w = int c - w"
      by simp_all
    have pp: "patch_pixel imread p r c = cell img (nat (int r - h)) (nat (int c - w))"
      by (simp add: patch_pixel_def hw rd)
    show ?thesis
    proof (cases "filter (\<lambda>p. patch_covers p r c) ps = []")
      case True
      with f c1 show ?thesis
        unfolding idx covers_region [OF hw r c, symmetric] by (simp add: pp)
    next
      case False
      with f show ?thesis by simp
    qed
  qed
  with ih show ?case by blast
qed

lemma stitch_bases_result:
  "stitch_bases imread f sf csf sz ll acc wr bases = (wr', Inr cs) \<Longrightarrow>
     \<exists>new. cs = acc @ new \<and> length new = length bases \<and>
       (\<forall>k<length bases.
          stitch_patch_list imread sz (np_zeros sz) (label_patch_list_of ll (bases ! k))
            = Inr (new ! k))"
proof (induction bases arbitrary: acc wr)
  case Nil
  then show ?case by simp
next
  case (Cons b bases)
  from Cons.prems obtain canvas where
    one: "stitch_patch_list imread sz (np_zeros sz) (label_patch_list_of ll b) = Inr canvas" and
    rest: "stitch_bases imread f sf csf sz ll (acc @ [canvas])
             (wr @ [(py_replace b f sf, Gray canvas),
                    (py_replace b f csf, Colored (colored_label canvas))]) bases = (wr', Inr cs)"
    by (auto simp: Let_def split: sum.splits)
  from Cons.IH [OF rest] obtain new where
    n: "cs = (acc @ [canvas]) @ new" "length new = length bases"
       "\<forall>k<length bases. stitch_patch_list imread sz (np_zeros sz)
            (label_patch_list_of ll (bases ! k)) = Inr (new ! k)" by blast
  have "\<forall>k<length (b # bases). stitch_patch_list imread sz (np_zeros sz)
            (label_patch_list_of ll ((b # bases) ! k)) = Inr ((canvas # new) ! k)"
    using one n(3) by (auto simp: nth_Cons split: nat.splits)
  with n(1,2) show ?case by (intro exI [of _ "canvas # new"]) simp
qed



text \<open>
  Within the list of patches that the stitcher takes for a base image, the last patch
  wins. When \<^verbatim>\<open>stitch_patches\<close> returns on a folder whose patch files are images of 32 by 32
  pixels, there is one canvas for each base image; the patches taken for it are in the
  sorted order of their file names; every canvas pixel that one of them covers has the
  value of the last of them that covers it, and a pixel that none covers is 0. The value
  is that of one patch, whatever the earlier patches hold there: not their maximum, and
  the maximum computed in the loop goes nowhere.
\<close>

lemma last_write_in_group:
  assumes run: "stitch_patches glob_png imread pred_label_folder sz
                  = (written, Inr (stitched_label_list, stitched_folder))"
      and size: "\<forall>p\<in>set glob_png. \<forall>img. imread p = Some img \<longrightarrow> shape0 img = 32 \<and> shape1 img = 32"
  shows "\<exists>base_label_list.
           collect_base_labels [] (sort glob_png) = Inr base_label_list \<and>
           length stitched_label_list = length base_label_list \<and>
           (\<forall>k. k < length base_label_list \<longrightarrow>
              sorted (label_patch_list_of (sort glob_png) (base_label_list ! k)) \<and>
              set (label_patch_list_of (sort glob_png) (base_label_list ! k)) \<subseteq> set glob_png \<and>
              (\<forall>r c. r < fst sz \<longrightarrow> c < snd sz \<longrightarrow>
                 cell (stitched_label_list ! k) r c
                   = last_write imread
                       (label_patch_list_of (sort glob_png) (base_label_list ! k)) r c))"
proof -
  let ?ll = "sort glob_png"
  from run obtain bases where
    b: "collect_base_labels [] ?ll = Inr bases" and
    sb: "stitch_bases imread pred_label_folder stitched_folder
           (py_replace pred_label_folder ''pred_patches'' ''colored_stitched_labels'')
           sz ?ll [] [] bases = (written, Inr stitched_label_list)"
    by (auto simp: stitch_patches_def Let_def split: sum.splits prod.splits)
  from stitch_bases_result [OF sb] have
    len: "length stitched_label_list = length bases" and
    each: "\<forall>k<length bases. stitch_patch_list imread sz (np_zeros sz)
             (label_patch_list_of ?ll (bases ! k)) = Inr (stitched_label_list ! k)"
    by auto
  have "sorted (label_patch_list_of ?ll (bases ! k)) \<and>
        set (label_patch_list_of ?ll (bases ! k)) \<subseteq> set glob_png \<and>
        (\<forall>r c. r < fst sz \<longrightarrow> c < snd sz \<longrightarrow>
           cell (stitched_label_list ! k) r c
             = last_write imread (label_patch_list_of ?ll (bases ! k)) r c)"
    if k: "k < length bases" for k
  proof -
    let ?ps = "label_patch_list_of ?ll (bases ! k)"
    have sub: "set ?ps \<subseteq> set glob_png" by (auto simp: label_patch_list_of_def)
    have srt: "sorted ?ps" unfolding label_patch_list_of_def by (rule sorted_wrt_filter) simp
    from each k have r: "stitch_patch_list imread sz (np_zeros sz) ?ps = Inr (stitched_label_list ! k)"
      by blast
    from size sub have sz32:
      "\<forall>p\<in>set ?ps. \<forall>img. imread p = Some img \<longrightarrow> shape0 img = 32 \<and> shape1 img = 32" by blast
    from stitch_patch_list_pixels [OF r sz32] have
      "\<forall>r c. r < fst sz \<longrightarrow> c < snd sz \<longrightarrow>
         cell (stitched_label_list ! k) r c =
           (if filter (\<lambda>p. patch_covers p r c) ?ps = [] then cell (np_zeros sz) r c
            else patch_pixel imread (last (filter (\<lambda>p. patch_covers p r c) ?ps)) r c)"
      by (simp add: np_zeros_def)
    then have "\<forall>r c. r < fst sz \<longrightarrow> c < snd sz \<longrightarrow>
         cell (stitched_label_list ! k) r c = last_write imread ?ps r c"
      by (simp add: last_write_def Let_def np_zeros_def)
    with sub srt show ?thesis by blast
  qed
  with b len show ?thesis by blast
qed

text \<open>
  Two overlapping patches of one base image: the first all 2, the later one all 1. In the
  overlap the canvas holds 1, the later patch, and not the maximum 2.
\<close>

lemma last_write_in_group_example:
  "\<exists>written stitched_label_list stitched_folder.
     stitch_patches [''/r/pred_patches/a_H0_W16.png'', ''/r/pred_patches/a_H0_W0.png'']
       (\<lambda>p. if p = ''/r/pred_patches/a_H0_W0.png'' then Some (NDArray 32 32 (\<lambda>i j. 2))
            else if p = ''/r/pred_patches/a_H0_W16.png'' then Some (NDArray 32 32 (\<lambda>i j. 1))
            else None)
       ''/r/pred_patches'' (48, 48)
       = (written, Inr (stitched_label_list, stitched_folder)) \<and>
     length stitched_label_list = 1 \<and>
     cell (stitched_label_list ! 0) 0 0 = 2 \<and>
     cell (stitched_label_list ! 0) 0 16 = 1 \<and>
     cell (stitched_label_list ! 0) 0 31 = 1 \<and>
     cell (stitched_label_list ! 0) 40 40 = 0 \<and>
     max (2 :: uint8) 1 = 2"
proof -
  let ?A = "''/r/pred_patches/a_H0_W0.png''" and ?B = "''/r/pred_patches/a_H0_W16.png''"
  let ?rd = "\<lambda>p. if p = ?A then Some (NDArray 32 32 (\<lambda>i j. 2 :: uint8))
            else if p = ?B then Some (NDArray 32 32 (\<lambda>i j. 1))
            else None"
  let ?run = "stitch_patches [?B, ?A] ?rd ''/r/pred_patches'' (48, 48)"
  have ok: "\<not> isl (snd ?run)" by code_simp
  obtain written stitched_label_list stitched_folder where
    run: "?run = (written, Inr (stitched_label_list, stitched_folder))"
    using ok by (cases ?run; cases "snd ?run") auto
  have size: "\<forall>p\<in>set [?B, ?A]. \<forall>img. ?rd p = Some img \<longrightarrow> shape0 img = 32 \<and> shape1 img = 32"
    by auto
  have bases: "collect_base_labels [] (sort [?B, ?A]) = Inr [''/r/pred_patches/a.png'']"
    by code_simp
  have group: "label_patch_list_of (sort [?B, ?A]) ''/r/pred_patches/a.png'' = [?A, ?B]"
    by code_simp
  have lw: "last_write ?rd [?A, ?B] 0 0 = 2" "last_write ?rd [?A, ?B] 0 16 = 1"
      "last_write ?rd [?A, ?B] 0 31 = 1" "last_write ?rd [?A, ?B] 40 40 = 0"
    by code_simp+
  from last_write_in_group [OF run size] bases group have
    len: "length stitched_label_list = 1" and
    px: "\<And>r c. r < 48 \<Longrightarrow> c < 48 \<Longrightarrow>
           cell (stitched_label_list ! 0) r c = last_write ?rd [?A, ?B] r c"
    by auto
  have "cell (stitched_label_list ! 0) 0 0 = 2" "cell (stitched_label_list ! 0) 0 16 = 1"
       "cell (stitched_label_list ! 0) 0 31 = 1" "cell (stitched_label_list ! 0) 40 40 = 0"
    by (simp_all add: px lw)
  moreover have "max (2 :: uint8) 1 = 2" by simp
  ultimately show ?thesis using run len by blast
qed

text \<open>
  \<^bold>\<open>C3\<close>. The list of patches the stitcher takes for a base image is not the list of the
  patch files of that image: it holds every file whose path contains the path of the
  base image with \<^verbatim>\<open>.png\<close> removed everywhere. In a folder with the images \<^verbatim>\<open>x\<close> and \<^verbatim>\<open>x_aug\<close>
  the canvas of \<^verbatim>\<open>x\<close> takes the patch of \<^verbatim>\<open>x_aug\<close> as well, which sorts later: the pixel
  \<open>(0, 0)\<close>, covered by the one patch file of \<^verbatim>\<open>x\<close> with the value 1, holds the 2 of the
  other image. In a folder whose name contains \<^verbatim>\<open>.png\<close> the list is empty, and the pixel
  \<open>(0, 0)\<close>, covered by the patch file with the value 1, stays 0.
\<close>

theorem stitch_groups_by_substring:
  "\<not> isl (snd (stitch_patches two_images_glob two_images_imread ''/r/pred_patches'' (48, 48))) \<and>
   collect_base_labels [] (sort two_images_glob)
     = Inr [''/r/pred_patches/x.png'', ''/r/pred_patches/x_aug.png''] \<and>
   patches_of_base (sort two_images_glob) ''/r/pred_patches/x.png''
     = [''/r/pred_patches/x_H0_W0.png''] \<and>
   label_patch_list_of (sort two_images_glob) ''/r/pred_patches/x.png''
     = [''/r/pred_patches/x_H0_W0.png'', ''/r/pred_patches/x_aug_H0_W0.png''] \<and>
   patch_covers ''/r/pred_patches/x_H0_W0.png'' 0 0 \<and>
   last_write two_images_imread
     (patches_of_base (sort two_images_glob) ''/r/pred_patches/x.png'') 0 0 = 1 \<and>
   cell (fst (projr (snd (stitch_patches two_images_glob two_images_imread
                            ''/r/pred_patches'' (48, 48)))) ! 0) 0 0 = 2 \<and>
   \<not> isl (snd (stitch_patches png_folder_glob png_folder_imread ''/r.png/pred_patches''
                  (48, 48))) \<and>
   collect_base_labels [] (sort png_folder_glob) = Inr [''/r.png/pred_patches/x.png''] \<and>
   patches_of_base (sort png_folder_glob) ''/r.png/pred_patches/x.png''
     = [''/r.png/pred_patches/x_H0_W0.png''] \<and>
   label_patch_list_of (sort png_folder_glob) ''/r.png/pred_patches/x.png'' = [] \<and>
   last_write png_folder_imread
     (patches_of_base (sort png_folder_glob) ''/r.png/pred_patches/x.png'') 0 0 = 1 \<and>
   cell (fst (projr (snd (stitch_patches png_folder_glob png_folder_imread
                            ''/r.png/pred_patches'' (48, 48)))) ! 0) 0 0 = 0"
  by code_simp

section \<open>Properties of the offset pattern\<close>

subsection \<open>The matcher finds the offset tags\<close>

lemma not_digit_simps [simp]: "\<not> is_digit CHR ''-''" "\<not> is_digit CHR ''_''" "\<not> is_digit CHR ''H''"
  "\<not> is_digit CHR ''W''"
  by (simp_all add: is_digit_def)

lemma match_digits_SomeD:
  assumes "match_digits s = Some (ds, rest)"
  shows "s = ds @ rest" "ds \<noteq> []" "list_all is_digit ds" "rest = [] \<or> \<not> is_digit (hd rest)"
proof -
  from assms have d: "ds = takeWhile is_digit s" "rest = dropWhile is_digit s" and ne: "ds \<noteq> []"
    by (auto simp: match_digits_def split: if_splits)
  show "s = ds @ rest" by (simp add: d)
  show "ds \<noteq> []" by (rule ne)
  show "list_all is_digit ds" unfolding d list_all_iff by (auto dest: set_takeWhileD)
  show "rest = [] \<or> \<not> is_digit (hd rest)" unfolding d using hd_dropWhile [of is_digit s] by blast
qed

lemma match_digits_complete:
  assumes "ds \<noteq> []" "list_all is_digit ds"
  shows "match_digits (ds @ rest)
           = Some (ds @ takeWhile is_digit rest, dropWhile is_digit rest)"
proof -
  from assms(2) have a: "\<forall>x\<in>set ds. is_digit x" by (simp add: list_all_iff)
  then have "takeWhile is_digit (ds @ rest) = ds @ takeWhile is_digit rest"
       "dropWhile is_digit (ds @ rest) = dropWhile is_digit rest"
    by (simp_all add: takeWhile_append2 dropWhile_append2)
  with assms(1) show ?thesis by (simp add: match_digits_def)
qed

lemma signed_int_text_digits:
  "ds \<noteq> [] \<Longrightarrow> list_all is_digit ds \<Longrightarrow> signed_int_text ds"
  by (cases ds) (auto simp: signed_int_text_def)

lemma signed_int_text_minus:
  "ds \<noteq> [] \<Longrightarrow> list_all is_digit ds \<Longrightarrow> signed_int_text (CHR ''-'' # ds)"
  by (simp add: signed_int_text_def)

lemma signed_int_text_cases:
  assumes "signed_int_text g"
  obtains ds where "g = ds" "ds \<noteq> []" "list_all is_digit ds"
        | ds where "g = CHR ''-'' # ds" "ds \<noteq> []" "list_all is_digit ds"
  using assms by (cases g) (auto simp: signed_int_text_def split: if_splits)

lemma match_int_SomeD:
  assumes "match_int s = Some (g, rest)"
  shows "s = g @ rest" "signed_int_text g" "rest = [] \<or> \<not> is_digit (hd rest)"
proof -
  show "s = g @ rest" using assms
    by (auto simp: match_int_def split: list.splits if_splits option.splits
             dest: match_digits_SomeD(1))
  show "signed_int_text g" using assms
    by (auto simp: match_int_def split: list.splits if_splits option.splits
             dest: match_digits_SomeD intro: signed_int_text_digits signed_int_text_minus)
  show "rest = [] \<or> \<not> is_digit (hd rest)" using assms
    by (auto simp: match_int_def split: list.splits if_splits option.splits
             dest: match_digits_SomeD(4))
qed

lemma match_int_complete:
  assumes "signed_int_text g"
  shows "match_int (g @ rest) = Some (g @ takeWhile is_digit rest, dropWhile is_digit rest)"
  using assms
proof (cases rule: signed_int_text_cases)
  case (1 ds)
  then obtain d ds' where c: "ds = d # ds'" "is_digit d" by (cases ds) auto
  then have "d \<noteq> CHR ''-''" by auto
  with c have "match_int (g @ rest) = match_digits (ds @ rest)"
    by (simp add: match_int_def 1(1))
  with 1 show ?thesis by (simp add: match_digits_complete)
next
  case (2 ds)
  then show ?thesis by (simp add: match_int_def match_digits_complete)
qed

lemma match_hw_SomeD:
  assumes "match_hw t = Some ((g1, g2), rest)"
  shows "t = ''H'' @ g1 @ ''_W'' @ g2 @ rest" "signed_int_text g1" "signed_int_text g2"
        "rest = [] \<or> \<not> is_digit (hd rest)"
proof -
  from assms obtain cs r2 where
    t: "t = CHR ''H'' # cs" and m1: "match_int cs = Some (g1, CHR ''_'' # CHR ''W'' # r2)"
    and m2: "match_int r2 = Some (g2, rest)"
    by (auto simp: match_hw_def split: list.splits if_splits option.splits)
  from match_int_SomeD [OF m1] match_int_SomeD [OF m2] t
  show "t = ''H'' @ g1 @ ''_W'' @ g2 @ rest" "signed_int_text g1" "signed_int_text g2"
        "rest = [] \<or> \<not> is_digit (hd rest)" by simp_all
qed

lemma match_hw_complete:
  assumes "signed_int_text g1" "signed_int_text g2"
  shows "match_hw (''H'' @ g1 @ ''_W'' @ g2 @ rest)
           = Some ((g1, g2 @ takeWhile is_digit rest), dropWhile is_digit rest)"
proof -
  have "match_int (g1 @ ''_W'' @ g2 @ rest) = Some (g1, ''_W'' @ g2 @ rest)"
    using match_int_complete [OF assms(1), of "''_W'' @ g2 @ rest"] by simp
  moreover note match_int_complete [OF assms(2), of rest]
  ultimately show ?thesis by (simp add: match_hw_def)
qed

lemma is_offset_tag_iff:
  "is_offset_tag t \<longleftrightarrow>
     (\<exists>g1 g2. t = ''H'' @ g1 @ ''_W'' @ g2 \<and> signed_int_text g1 \<and> signed_int_text g2)"
proof
  assume "is_offset_tag t"
  then obtain k where k: "k < length t" "take 1 t = ''H''" "signed_int_text (take k (drop 1 t))"
      "take 2 (drop (Suc k) t) = ''_W''" "signed_int_text (drop (k + 3) t)"
    by (auto simp: is_offset_tag_def)
  have "t = take 1 t @ take k (drop 1 t) @ take 2 (drop (Suc k) t) @ drop (k + 3) t"
  proof -
    have n: "k + 1 = Suc k" "2 + Suc k = k + 3" by simp_all
    have a: "drop k (drop 1 t) = drop (Suc k) t" "drop 2 (drop (Suc k) t) = drop (k + 3) t"
      using drop_drop [of k 1 t] drop_drop [of 2 "Suc k" t] unfolding n by blast+
    have "t = take 1 t @ drop 1 t" by (rule append_take_drop_id [symmetric])
    also have "drop 1 t = take k (drop 1 t) @ drop k (drop 1 t)"
      by (rule append_take_drop_id [symmetric])
    also have "drop k (drop 1 t) = take 2 (drop (Suc k) t) @ drop (k + 3) t"
      unfolding a(1) a(2) [symmetric] by (rule append_take_drop_id [symmetric])
    finally show ?thesis .
  qed
  with k show "\<exists>g1 g2. t = ''H'' @ g1 @ ''_W'' @ g2 \<and> signed_int_text g1 \<and> signed_int_text g2"
    by metis
next
  assume "\<exists>g1 g2. t = ''H'' @ g1 @ ''_W'' @ g2 \<and> signed_int_text g1 \<and> signed_int_text g2"
  then obtain g1 g2 where t: "t = ''H'' @ g1 @ ''_W'' @ g2" and s: "signed_int_text g1" "signed_int_text g2"
    by blast
  have "length g1 < length t" by (simp add: t)
  moreover have "take 1 t = ''H''" "take (length g1) (drop 1 t) = g1"
    "take 2 (drop (Suc (length g1)) t) = ''_W''"
    by (simp_all add: t)
  moreover have "drop (length g1 + 3) t = g2"
  proof -
    have "t = (''H'' @ g1 @ ''_W'') @ g2" by (simp add: t)
    moreover have "length (''H'' @ g1 @ ''_W'') = length g1 + 3" by simp
    ultimately show ?thesis by (metis append_eq_conv_conj)
  qed
  ultimately show "is_offset_tag t" using s unfolding is_offset_tag_def
    by (intro bexI [of _ "length g1"]) simp_all
qed

lemma tag_at_iff_match_hw: "tag_at s i \<longleftrightarrow> match_hw (drop i s) \<noteq> None"
proof
  assume "tag_at s i"
  then obtain n where "is_offset_tag (take n (drop i s))" unfolding tag_at_def by blast
  then obtain g1 g2 where
    t: "take n (drop i s) = ''H'' @ g1 @ ''_W'' @ g2" and g: "signed_int_text g1" "signed_int_text g2"
    unfolding is_offset_tag_iff by blast
  have "drop i s = take n (drop i s) @ drop n (drop i s)"
    by (rule append_take_drop_id [symmetric])
  then have "drop i s = (''H'' @ g1 @ ''_W'' @ g2) @ drop n (drop i s)"
    by (simp only: t)
  then have "drop i s = ''H'' @ g1 @ ''_W'' @ g2 @ drop n (drop i s)"
    by (simp only: append_assoc)
  then have "match_hw (drop i s) = match_hw (''H'' @ g1 @ ''_W'' @ g2 @ drop n (drop i s))"
    by (rule arg_cong)
  with match_hw_complete [OF g, of "drop n (drop i s)"] show "match_hw (drop i s) \<noteq> None"
    by (simp only: option.distinct not_False_eq_True)
next
  assume "match_hw (drop i s) \<noteq> None"
  then obtain g1 g2 rest where m: "match_hw (drop i s) = Some ((g1, g2), rest)" by auto
  note d = match_hw_SomeD [OF m]
  let ?pre = "''H'' @ g1 @ ''_W'' @ g2"
  have l: "length ?pre \<le> length (drop i s)" by (subst d(1)) simp
  then have "length ?pre \<le> length s" by simp
  then have "length ?pre \<in> set [0..<Suc (length s)]"
    unfolding set_upt atLeastLessThan_iff by (simp only: le0 less_Suc_eq_le simp_thms)
  moreover have "take (length ?pre) (drop i s) = ?pre" by (subst d(1)) simp
  moreover have "is_offset_tag ?pre" unfolding is_offset_tag_iff using d(2,3) by blast
  ultimately have "\<exists>n\<in>set [0..<Suc (length s)]. is_offset_tag (take n (drop i s))"
    by (metis (no_types))
  then show "tag_at s i" unfolding tag_at_def .
qed

lemma tag_positions_eq:
  "tag_positions s = filter (\<lambda>i. match_hw (drop i s) \<noteq> None) [0..<length s]"
  unfolding tag_positions_def
  by (rule arg_cong [where f = "\<lambda>P. filter P [0..<length s]"]) (rule ext, rule tag_at_iff_match_hw)

subsection \<open>The scan finds every position of a tag\<close>

text \<open>
  Behind its first letter a match holds no \<^verbatim>\<open>H\<close>, so no tag begins inside another, and the
  scan, which goes on behind each match, passes over none.
\<close>

lemma signed_int_text_no_H: "signed_int_text g \<Longrightarrow> CHR ''H'' \<notin> set g"
  by (erule signed_int_text_cases) (auto simp: list_all_iff)

lemma match_hw_not_H: "s = [] \<or> hd s \<noteq> CHR ''H'' \<Longrightarrow> match_hw s = None"
  by (cases s) (auto simp: match_hw_def)

lemma match_hw_inside_None:
  assumes m: "match_hw s = Some ((g1, g2), rest)" and j: "0 < j" "j < length s - length rest"
  shows "match_hw (drop j s) = None"
proof -
  note d = match_hw_SomeD [OF m]
  define body where "body = g1 @ ''_W'' @ g2"
  have s: "s = CHR ''H'' # body @ rest" using d(1) by (simp add: body_def)
  have noH: "CHR ''H'' \<notin> set body"
    using signed_int_text_no_H [OF d(2)] signed_int_text_no_H [OF d(3)] by (simp add: body_def)
  obtain j' where j': "j = Suc j'" using j(1) by (cases j) auto
  have lt: "j' < length body" using j(2) unfolding j' by (subst (asm) s) simp
  have "drop j s = drop j' body @ rest" unfolding j' using lt by (subst s) simp
  moreover have ne: "drop j' body \<noteq> []" using lt by simp
  moreover have "hd (drop j' body) \<in> set body" using ne
    by (metis hd_in_set in_set_dropD)
  ultimately have "hd (drop j s) \<noteq> CHR ''H''" using noH by (metis hd_append2)
  then show ?thesis by (simp add: match_hw_not_H)
qed

lemma filter_upt_shift:
  "filter P [k..<k + m] = map (\<lambda>i. i + k) (filter (\<lambda>i. P (i + k)) [0..<m])"
proof -
  have "[k..<k + m] = map (\<lambda>i. i + k) [0..<m]" by (simp add: map_add_upt add.commute)
  then show ?thesis by (simp add: filter_map o_def)
qed

lemma findall_hw_positions:
  "findall_hw s = map (\<lambda>i. fst (the (match_hw (drop i s))))
                    (filter (\<lambda>i. match_hw (drop i s) \<noteq> None) [0..<length s])"
proof (induction s rule: findall_hw.induct)
  case (1 s)
  show ?case
  proof (cases "s = []")
    case True
    then show ?thesis by (simp add: findall_hw.simps)
  next
    case ne: False
    show ?thesis
    proof (cases "match_hw s")
      case None
      from ne obtain c cs where s: "s = c # cs" by (cases s) auto
      have fa: "findall_hw s = findall_hw cs" using None ne s by (subst findall_hw.simps) simp
      have up: "[0..<length s] = 0 # map Suc [0..<length cs]"
        by (simp add: s upt_conv_Cons map_Suc_upt del: upt_Suc)
      have ih: "findall_hw cs = map (\<lambda>i. fst (the (match_hw (drop i cs))))
                    (filter (\<lambda>i. match_hw (drop i cs) \<noteq> None) [0..<length cs])"
        using "1.IH"(1) [OF ne None] s by simp
      show ?thesis unfolding fa ih up using None
        by (simp add: filter_map o_def s)
    next
      case (Some a)
      then obtain g1 g2 rest where m: "match_hw s = Some ((g1, g2), rest)"
        by (cases a) auto
      note d = match_hw_SomeD [OF m]
      let ?k = "length s - length rest"
      have len: "length s = ?k + length rest" using match_hw_length [OF m] by simp
      have k0: "0 < ?k" using match_hw_length [OF m] by simp
      have dr: "drop (i + ?k) s = drop i rest" for i
      proof -
        define pre where "pre = ''H'' @ g1 @ ''_W'' @ g2"
        have sp: "s = pre @ rest" using d(1) by (simp add: pre_def)
        have "?k = length pre" by (simp add: sp)
        then have "drop ?k s = rest" by (simp add: sp)
        then show ?thesis by (metis drop_drop)
      qed
      have fa: "findall_hw s = (g1, g2) # findall_hw rest"
        using m ne by (subst findall_hw.simps) simp
      have ih: "findall_hw rest = map (\<lambda>i. fst (the (match_hw (drop i rest))))
                    (filter (\<lambda>i. match_hw (drop i rest) \<noteq> None) [0..<length rest])"
        using "1.IH"(2) [OF ne m refl] by simp
      have up: "[0..<length s] = 0 # [Suc 0..<?k] @ [?k..<?k + length rest]"
      proof -
        have "[0..<length s] = [0..<?k] @ [?k..<?k + length rest]"
          by (subst len) (simp only: upt_add_eq_append [OF le0] add_0)
        also have "[0..<?k] = 0 # [Suc 0..<?k]" using k0 by (simp add: upt_conv_Cons)
        finally show ?thesis by simp
      qed
      have inner: "filter (\<lambda>i. match_hw (drop i s) \<noteq> None) [Suc 0..<?k] = []"
        using match_hw_inside_None [OF m] by (auto simp: filter_empty_conv)
      have tail: "filter (\<lambda>i. match_hw (drop i s) \<noteq> None) [?k..<?k + length rest]
                 = map (\<lambda>i. i + ?k) (filter (\<lambda>i. match_hw (drop i rest) \<noteq> None) [0..<length rest])"
        by (simp only: filter_upt_shift dr)
      show ?thesis unfolding fa ih up
        by (simp only: filter.simps filter_append inner tail drop_0 m append_Nil list.map
              option.sel fst_conv map_map o_def dr option.distinct not_False_eq_True if_True)
    qed
  qed
qed

lemma findall_hw_tag_positions:
  "findall_hw s = map (\<lambda>i. fst (the (match_hw (drop i s)))) (tag_positions s)"
  by (simp only: findall_hw_positions [of s] tag_positions_eq)

lemma py_int_signed: "signed_int_text g \<Longrightarrow> \<exists>n. py_int g = Inr n"
  by (simp add: py_int_def)


text \<open>
  \<^bold>\<open>C10\<close>. When exactly one offset tag begins in the path, \<^verbatim>\<open>extract_h_w\<close> returns the pair
  of integers read from that tag, taken with its longest run of digits; when none or
  more than one begins, it raises \<^verbatim>\<open>AssertionError\<close>. A returned pair and the raised
  error exclude each other, so it returns if and only if there is exactly one match.
\<close>

theorem extract_h_w_exactly_one:
  "(length (tag_positions s) = 1 \<longrightarrow>
      (\<exists>i g1 g2 rest h w.
         tag_positions s = [i] \<and>
         drop i s = ''H'' @ g1 @ ''_W'' @ g2 @ rest \<and>
         signed_int_text g1 \<and> signed_int_text g2 \<and> (rest = [] \<or> \<not> is_digit (hd rest)) \<and>
         py_int g1 = Inr h \<and> py_int g2 = Inr w \<and>
         extract_h_w s = Inr (h, w))) \<and>
   (length (tag_positions s) \<noteq> 1 \<longrightarrow> extract_h_w s = Inl AssertionError)"
proof (intro conjI impI)
  assume one: "length (tag_positions s) = 1"
  then obtain i where i: "tag_positions s = [i]"
    by (cases "tag_positions s") auto
  then have "i \<in> set (tag_positions s)" by simp
  then have "match_hw (drop i s) \<noteq> None" unfolding tag_positions_eq by simp
  then obtain g1 g2 rest where m: "match_hw (drop i s) = Some ((g1, g2), rest)" by auto
  note d = match_hw_SomeD [OF m]
  from py_int_signed [OF d(2)] py_int_signed [OF d(3)] obtain h w where
    hw: "py_int g1 = Inr h" "py_int g2 = Inr w" by blast
  have fa: "findall_hw s = [(g1, g2)]" by (simp add: findall_hw_tag_positions i m)
  have "extract_h_w s = Inr (h, w)" by (simp add: extract_h_w_def fa hw)
  with i d hw show "\<exists>i g1 g2 rest h w.
         tag_positions s = [i] \<and>
         drop i s = ''H'' @ g1 @ ''_W'' @ g2 @ rest \<and>
         signed_int_text g1 \<and> signed_int_text g2 \<and> (rest = [] \<or> \<not> is_digit (hd rest)) \<and>
         py_int g1 = Inr h \<and> py_int g2 = Inr w \<and>
         extract_h_w s = Inr (h, w)" by blast
next
  assume "length (tag_positions s) \<noteq> 1"
  then have "length (findall_hw s) \<noteq> 1" by (simp add: findall_hw_tag_positions)
  then show "extract_h_w s = Inl AssertionError" by (simp add: extract_h_w_def)
qed


theorem extract_h_w_exactly_one_witness:
  "length (tag_positions ''/r/pred_patches/a_H-5_W12.png'') = 1 \<and>
   extract_h_w ''/r/pred_patches/a_H-5_W12.png'' = Inr (- 5, 12) \<and>
   length (tag_positions ''a_H1_W2_H3_W4.png'') = 2 \<and>
   extract_h_w ''a_H1_W2_H3_W4.png'' = Inl AssertionError \<and>
   length (tag_positions ''a_H_W2.png'') = 0 \<and>
   extract_h_w ''a_H_W2.png'' = Inl AssertionError"
proof -
  have one: "length (tag_positions ''/r/pred_patches/a_H-5_W12.png'') = 1" by code_simp
  have two: "length (tag_positions ''a_H1_W2_H3_W4.png'') = 2" by code_simp
  have zero: "length (tag_positions ''a_H_W2.png'') = 0" by code_simp
  from extract_h_w_exactly_one [of "''/r/pred_patches/a_H-5_W12.png''"] one
  obtain h w where r: "extract_h_w ''/r/pred_patches/a_H-5_W12.png'' = Inr (h, w)" by blast
  have v: "extract_h_w ''/r/pred_patches/a_H-5_W12.png'' = Inr (- 5, 12)" by code_simp
  from extract_h_w_exactly_one [of "''a_H1_W2_H3_W4.png''"] two
  have e2: "extract_h_w ''a_H1_W2_H3_W4.png'' = Inl AssertionError" by simp
  from extract_h_w_exactly_one [of "''a_H_W2.png''"] zero
  have e0: "extract_h_w ''a_H_W2.png'' = Inl AssertionError" by simp
  from one two zero r v e2 e0 show ?thesis by simp
qed

section \<open>Properties of the orientation candidates\<close>

text \<open>
  \<^bold>\<open>C1\<close>. The reverse transform built beside a forward transform has the same flip and the
  opposite rotation, and \<^verbatim>\<open>flip_rot\<close> flips before it rotates in both. Undoing
  flip-then-rotate needs the rotation undone first, so the pair is no inverse pair once
  the flip is on and the rotation is a quarter turn. The sixth candidate,
  \<open>fliplr = True\<close> and \<open>rot_angle = 90\<close> with the reverse \<open>rot_angle = 270\<close>, on the sample
  with rows \<open>[1, 2]\<close> and \<open>[3, 4]\<close>: the forward transform gives rows \<open>[4, 2]\<close> and \<open>[3, 1]\<close>, the
  reverse transform of that gives rows \<open>[4, 3]\<close> and \<open>[2, 1]\<close>, the half turn of the sample
  and not the sample. \<^verbatim>\<open>predict_flipping_rotation\<close> returns this pair when the fixed
  image is the forward transform of the moving one and the score prefers equal images.
\<close>

theorem flip_rot_reverse_not_inverse:
  "transform_candidates ! 5 = ((True, 90), (True, 270)) \<and>
   apply_transform (True, 90) [[[[1, 2], [3, 4 :: int]]]] = Inr [[[[4, 2], [3, 1]]]] \<and>
   apply_transform (True, 270) [[[[4, 2], [3, 1 :: int]]]] = Inr [[[[4, 3], [2, 1]]]] \<and>
   predict_flipping_rotation
       (\<lambda>fixed t. map (\<lambda>(a, b). if a = b then 1 else 0 :: int) (zip fixed t))
       [[[[4, 2], [3, 1]]]] [[[[1, 2], [3, 4 :: int]]]]
     = Inr ([(True, 90)], [(True, 270)])"
  by code_simp

section \<open>Properties of the epoch loop\<close>

subsection \<open>What an epoch does to the state\<close>

lemma bind_result_Inr:
  "bind_result r f = Inr y \<longleftrightarrow> (\<exists>v. r = Inr v \<and> f v = Inr y)"
  by (cases r) (auto simp: bind_result_def)

lemma val_history_append:
  "x = [] \<or> hd x \<noteq> WeightsSaved \<Longrightarrow> val_history (l @ x) = val_history l @ val_history x"
proof (induction l)
  case Nil
  then show ?case by simp
next
  case (Cons entry l)
  then show ?case
    by (cases entry; cases l; cases x) auto
qed

lemma train_phase_state:
  assumes "train_phase env data cfg epoch_idx st = Inr st1"
  shows "best_val_loss st1 = best_val_loss st" "checkpoint st1 = checkpoint st"
        "early_stopper st1 = early_stopper st"
        "\<exists>l f c. log st1 = log st @ [TrainLog (epoch_idx + 1) l f c]"
  using assms
  by (auto simp: train_phase_def bind_result_Inr split: option.splits prod.splits)

lemma validation_phase_state:
  assumes "validation_phase env data cfg epoch_idx st1 = Inr (st2, val_loss)"
  shows "best_val_loss st2 = best_val_loss st1" "checkpoint st2 = checkpoint st1"
        "early_stopper st2 = early_stopper st1" "weights st2 = weights st1"
        "\<exists>f c. log st2 = log st1 @ [ValidationLog (epoch_idx + 1) val_loss f c]"
  using assms
  by (auto simp: validation_phase_def bind_result_Inr split: option.splits prod.splits)

lemma epoch_end_state:
  assumes "epoch_end env st2 val_loss = (st', stop)"
  shows "checkpoint st' = (if float_less val_loss (best_val_loss st2) then Some (weights st2)
                           else checkpoint st2)"
        "best_val_loss st' = (if float_less val_loss (best_val_loss st2) then val_loss
                              else best_val_loss st2)"
        "weights st' = weights st2"
        "stop = fst (early_stopper_step env (early_stopper st2) val_loss)"
        "early_stopper st' = snd (early_stopper_step env (early_stopper st2) val_loss)"
        "log st' = log st2 @ (if float_less val_loss (best_val_loss st2) then [WeightsSaved] else [])
                     @ (if stop then [EarlyStopLog] else [])"
  using assms
  by (auto simp: epoch_end_def Let_def split: prod.splits if_splits)

lemma epoch_step_InrD:
  assumes "epoch_step env data cfg epoch_idx st = (st', Inr stop)"
  shows "\<exists>st1 st2 val_loss.
           train_phase env data cfg epoch_idx st = Inr st1 \<and>
           validation_phase env data cfg epoch_idx st1 = Inr (st2, val_loss) \<and>
           epoch_end env st2 val_loss = (st', stop)"
  using assms
  by (auto simp: epoch_step_def split: sum.splits prod.splits)

lemma epoch_step_InlD:
  assumes "epoch_step env data cfg epoch_idx st = (st', Inl e)"
  shows "checkpoint st' = checkpoint st \<and> best_val_loss st' = best_val_loss st \<and>
         (log st' = log st \<or> (\<exists>l f c. log st' = log st @ [TrainLog (epoch_idx + 1) l f c]))"
  using assms
  by (auto simp: epoch_step_def split: sum.splits prod.splits dest: train_phase_state)

lemma epoch_step_summary:
  assumes "epoch_step env data cfg epoch_idx st = (st', Inr stop)"
  shows "\<exists>val_loss l f c vf vc.
           log st' = log st @ [TrainLog (epoch_idx + 1) l f c,
                               ValidationLog (epoch_idx + 1) val_loss vf vc]
                       @ (if float_less val_loss (best_val_loss st) then [WeightsSaved] else [])
                       @ (if stop then [EarlyStopLog] else []) \<and>
           checkpoint st' = (if float_less val_loss (best_val_loss st) then Some (weights st')
                             else checkpoint st) \<and>
           best_val_loss st' = (if float_less val_loss (best_val_loss st) then val_loss
                                else best_val_loss st) \<and>
           stop = fst (early_stopper_step env (early_stopper st) val_loss) \<and>
           early_stopper st' = snd (early_stopper_step env (early_stopper st) val_loss)"
proof -
  from epoch_step_InrD [OF assms] obtain st1 st2 val_loss where
    t: "train_phase env data cfg epoch_idx st = Inr st1" and
    v: "validation_phase env data cfg epoch_idx st1 = Inr (st2, val_loss)" and
    e: "epoch_end env st2 val_loss = (st', stop)" by blast
  note ts = train_phase_state [OF t] and vs = validation_phase_state [OF v]
    and es = epoch_end_state [OF e]
  from ts(4) obtain l f c where l1: "log st1 = log st @ [TrainLog (epoch_idx + 1) l f c]"
    by blast
  from vs(5) obtain vf vc where
    l2: "log st2 = log st1 @ [ValidationLog (epoch_idx + 1) val_loss vf vc]" by blast
  have b: "best_val_loss st2 = best_val_loss st" using ts(1) vs(1) by simp
  have "log st' = log st @ [TrainLog (epoch_idx + 1) l f c,
                            ValidationLog (epoch_idx + 1) val_loss vf vc]
                       @ (if float_less val_loss (best_val_loss st) then [WeightsSaved] else [])
                       @ (if stop then [EarlyStopLog] else [])"
    using es(6) l1 l2 b by simp
  moreover have "checkpoint st' = (if float_less val_loss (best_val_loss st) then Some (weights st')
                             else checkpoint st)"
    using es(1,3) b ts(2) vs(2) by simp
  moreover have "best_val_loss st' = (if float_less val_loss (best_val_loss st) then val_loss
                                else best_val_loss st)"
    using es(2) b by simp
  moreover have "stop = fst (early_stopper_step env (early_stopper st) val_loss)"
      "early_stopper st' = snd (early_stopper_step env (early_stopper st) val_loss)"
    using es(4,5) ts(3) vs(3) by simp_all
  ultimately show ?thesis by blast
qed


subsection \<open>Comparing floats\<close>

lemma float_less_trans:
  "float_less a b \<Longrightarrow> float_less b c \<Longrightarrow> float_less a c"
  by (cases a; cases b; cases c) simp_all

lemma float_less_not_NaN:
  "float_less a b \<Longrightarrow> a \<noteq> NaN \<and> b \<noteq> NaN"
  by (cases a; cases b) simp_all

lemma float_less_PosInf:
  "float_less a b \<Longrightarrow> float_less a PosInf"
  by (cases a; cases b) simp_all

lemma float_less_below_other:
  "float_less v b \<Longrightarrow> \<not> float_less u b \<Longrightarrow> u \<noteq> NaN \<Longrightarrow> float_less v u"
  by (cases v; cases b; cases u) simp_all


subsection \<open>The invariant of the loop\<close>

text \<open>
  \<open>improves v h\<close>: the loss \<open>v\<close> is strictly lower than infinity and than every loss of the
  history \<open>h\<close> that is not NaN. Between two epochs \<^verbatim>\<open>best_val_loss\<close> is above exactly the
  values that improve on the validation losses logged so far, and the log has the saved
  line behind exactly the validation lines that improve on all earlier ones.
\<close>

lemma saved_on_float_improvement_snoc:
  "saved_on_float_improvement (h @ [(v, s)]) \<longleftrightarrow>
     saved_on_float_improvement h \<and>
     (s \<longleftrightarrow> float_less v PosInf \<and> (\<forall>p \<in> set h. fst p \<noteq> NaN \<longrightarrow> float_less v (fst p)))"
proof -
  have last: "(\<forall>j < length h. fst (h ! j) \<noteq> NaN \<longrightarrow> float_less v (fst (h ! j))) \<longleftrightarrow>
              (\<forall>p \<in> set h. fst p \<noteq> NaN \<longrightarrow> float_less v (fst p))"
    by (metis in_set_conv_nth)
  let ?g = "h @ [(v, s)]"
  have "saved_on_float_improvement ?g \<longleftrightarrow>
          (\<forall>i < length h. snd (?g ! i) \<longleftrightarrow>
             float_less (fst (?g ! i)) PosInf \<and>
             (\<forall>j < i. fst (?g ! j) \<noteq> NaN \<longrightarrow> float_less (fst (?g ! i)) (fst (?g ! j))))
          \<and> (snd (?g ! length h) \<longleftrightarrow>
                float_less (fst (?g ! length h)) PosInf \<and>
                (\<forall>j < length h. fst (?g ! j) \<noteq> NaN \<longrightarrow>
                   float_less (fst (?g ! length h)) (fst (?g ! j))))"
    unfolding saved_on_float_improvement_def by (auto simp: less_Suc_eq)
  also have "\<dots> \<longleftrightarrow> saved_on_float_improvement h \<and>
      (s \<longleftrightarrow> float_less v PosInf \<and>
             (\<forall>j < length h. fst (h ! j) \<noteq> NaN \<longrightarrow> float_less v (fst (h ! j))))"
    unfolding saved_on_float_improvement_def by (simp add: nth_append)
  finally show ?thesis unfolding last .
qed

lemma epoch_step_invariant:
  assumes step: "epoch_step env data cfg epoch_idx st = (st', r)"
      and best: "\<forall>v. float_less v (best_val_loss st) \<longleftrightarrow>
                   float_less v PosInf \<and>
                   (\<forall>p \<in> set (val_history (log st)). fst p \<noteq> NaN \<longrightarrow> float_less v (fst p))"
      and hist: "saved_on_float_improvement (val_history (log st))"
  shows "(\<forall>v. float_less v (best_val_loss st') \<longleftrightarrow>
              float_less v PosInf \<and>
              (\<forall>p \<in> set (val_history (log st')). fst p \<noteq> NaN \<longrightarrow> float_less v (fst p))) \<and>
         saved_on_float_improvement (val_history (log st'))"
proof (cases r)
  case (Inl e)
  from epoch_step_InlD [OF step [unfolded Inl]] have
    b: "best_val_loss st' = best_val_loss st" and
    l: "log st' = log st \<or> (\<exists>l f c. log st' = log st @ [TrainLog (epoch_idx + 1) l f c])"
    by simp_all
  from l have "val_history (log st') = val_history (log st)"
    by (auto simp: val_history_append)
  with b best hist show ?thesis by simp
next
  case (Inr stop)
  from epoch_step_summary [OF step [unfolded Inr]] obtain val_loss l f c vf vc where
    lg: "log st' = log st @ [TrainLog (epoch_idx + 1) l f c,
                               ValidationLog (epoch_idx + 1) val_loss vf vc]
                       @ (if float_less val_loss (best_val_loss st) then [WeightsSaved] else [])
                       @ (if stop then [EarlyStopLog] else [])" and
    b: "best_val_loss st' = (if float_less val_loss (best_val_loss st) then val_loss
                                else best_val_loss st)" by blast
  let ?s = "float_less val_loss (best_val_loss st)"
  let ?old = "val_history (log st)"
  have vh: "val_history (log st') = ?old @ [(val_loss, ?s)]"
    unfolding lg by (subst val_history_append) simp_all
  have h': "saved_on_float_improvement (val_history (log st'))"
    unfolding vh saved_on_float_improvement_snoc using hist best by simp
  have b': "float_less v (best_val_loss st') \<longleftrightarrow>
              float_less v PosInf \<and>
              (\<forall>p \<in> set (val_history (log st')). fst p \<noteq> NaN \<longrightarrow> float_less v (fst p))" for v
  proof (cases ?s)
    case True
    then have all: "\<forall>p \<in> set ?old. fst p \<noteq> NaN \<longrightarrow> float_less val_loss (fst p)"
      using best by simp
    from True have number: "val_loss \<noteq> NaN" by (simp add: float_less_not_NaN)
    have "float_less v (best_val_loss st') \<longleftrightarrow> float_less v val_loss" using True b by simp
    also have "\<dots> \<longleftrightarrow> float_less v PosInf \<and>
        (\<forall>p \<in> set ?old. fst p \<noteq> NaN \<longrightarrow> float_less v (fst p)) \<and> float_less v val_loss"
      using all by (blast intro: float_less_trans float_less_PosInf)
    also have "\<dots> \<longleftrightarrow> float_less v PosInf \<and>
        (\<forall>p \<in> set (val_history (log st')). fst p \<noteq> NaN \<longrightarrow> float_less v (fst p))"
      unfolding vh using number by auto
    finally show ?thesis .
  next
    case False
    have "float_less v (best_val_loss st') \<longleftrightarrow> float_less v (best_val_loss st)"
      using False b by simp
    also have "\<dots> \<longleftrightarrow> float_less v (best_val_loss st) \<and>
        (val_loss \<noteq> NaN \<longrightarrow> float_less v val_loss)"
      using False by (blast intro: float_less_below_other)
    also have "\<dots> \<longleftrightarrow> float_less v PosInf \<and>
        (\<forall>p \<in> set ?old. fst p \<noteq> NaN \<longrightarrow> float_less v (fst p)) \<and>
        (val_loss \<noteq> NaN \<longrightarrow> float_less v val_loss)"
      using best by blast
    also have "\<dots> \<longleftrightarrow> float_less v PosInf \<and>
        (\<forall>p \<in> set (val_history (log st')). fst p \<noteq> NaN \<longrightarrow> float_less v (fst p))"
      unfolding vh by auto
    finally show ?thesis .
  qed
  from b' h' show ?thesis by blast
qed

lemma train_loop_invariant:
  "train_loop env data cfg epochs st = (final, outcome) \<Longrightarrow>
   \<forall>v. float_less v (best_val_loss st) \<longleftrightarrow>
       float_less v PosInf \<and>
       (\<forall>p \<in> set (val_history (log st)). fst p \<noteq> NaN \<longrightarrow> float_less v (fst p)) \<Longrightarrow>
   saved_on_float_improvement (val_history (log st)) \<Longrightarrow>
   saved_on_float_improvement (val_history (log final))"
proof (induction epochs arbitrary: st)
  case Nil
  then show ?case by simp
next
  case (Cons epoch_idx rest)
  obtain st' r where step: "epoch_step env data cfg epoch_idx st = (st', r)"
    by (cases "epoch_step env data cfg epoch_idx st")
  note inv = epoch_step_invariant [OF step Cons.prems(2,3)]
  show ?case
  proof (cases r)
    case (Inl e)
    with Cons.prems(1) step have "final = st'" by simp
    with inv show ?thesis by simp
  next
    case (Inr stop)
    show ?thesis
    proof (cases stop)
      case True
      with Cons.prems(1) step Inr have "final = st'" by simp
      with inv show ?thesis by simp
    next
      case False
      with Cons.prems(1) step Inr have "train_loop env data cfg rest st' = (final, outcome)"
        by simp
      from Cons.IH [OF this] inv show ?thesis by blast
    qed
  qed
qed

text \<open>
  When no validation loss is NaN or infinite, the two readings of the rule agree.
\<close>

lemma saved_on_improvement_of_numbers:
  assumes "\<forall>p \<in> set h. \<exists>x. fst p = Finite x"
  shows "saved_on_float_improvement h \<longleftrightarrow> saved_on_improvement h"
proof -
  have fin: "\<exists>x. fst (h ! i) = Finite x" if "i < length h" for i
    using assms that by (simp add: nth_mem)
  have "(float_less (fst (h ! i)) PosInf \<and>
         (\<forall>j < i. fst (h ! j) \<noteq> NaN \<longrightarrow> float_less (fst (h ! i)) (fst (h ! j))))
        \<longleftrightarrow> (\<forall>j < i. float_less (fst (h ! i)) (fst (h ! j)))"
    if i: "i < length h" for i
  proof -
    from fin [OF i] obtain x where x: "fst (h ! i) = Finite x" by blast
    have "fst (h ! j) \<noteq> NaN" if "j < i" for j
      using fin [of j] that i by auto
    with x show ?thesis by simp
  qed
  then show ?thesis
    unfolding saved_on_float_improvement_def saved_on_improvement_def by blast
qed

text \<open>
  \<^bold>\<open>C9\<close>, as the code has it. A validation loss is a Python float, and the test
  \<^verbatim>\<open>val_loss < best_val_loss\<close> is false whenever a side is NaN. In the log of \<^verbatim>\<open>train\<close>, however
  it ends, the line of the saved weights follows exactly the validation lines whose loss
  is strictly lower than infinity and than the loss of every earlier epoch that is not
  NaN. An epoch that finishes writes the weights to the checkpoint file exactly when its
  validation loss is lower than \<^verbatim>\<open>best_val_loss\<close>, which starts at infinity and becomes the
  loss of each epoch that saves, and leaves the file as it was otherwise; an epoch that
  raises leaves it as it was. The early stopper is built with mode \<^verbatim>\<open>'min'\<close>, is fed the
  validation loss of each epoch, and the loop ends with the epoch in which it signals
  stop.
\<close>

theorem checkpoint_saved_on_float_improvement:
  "(train env data cfg w0 o0 ckpt0 = (final, outcome) \<longrightarrow>
      saved_on_float_improvement (val_history (log final))) \<and>
   (epoch_step env data cfg epoch_idx st = (st', Inr stop) \<longrightarrow>
      (\<exists>val_loss l f c vf vc.
         log st' = log st @ [TrainLog (epoch_idx + 1) l f c,
                             ValidationLog (epoch_idx + 1) val_loss vf vc]
                     @ (if float_less val_loss (best_val_loss st) then [WeightsSaved] else [])
                     @ (if stop then [EarlyStopLog] else []) \<and>
         checkpoint st' = (if float_less val_loss (best_val_loss st) then Some (weights st')
                           else checkpoint st) \<and>
         best_val_loss st' = (if float_less val_loss (best_val_loss st) then val_loss
                              else best_val_loss st) \<and>
         stop = fst (early_stopper_step env (early_stopper st) val_loss) \<and>
         early_stopper st' = snd (early_stopper_step env (early_stopper st) val_loss) \<and>
         train_loop env data cfg (epoch_idx # rest) st
           = (if stop then (st', None) else train_loop env data cfg rest st'))) \<and>
   (epoch_step env data cfg epoch_idx st = (st', Inl e) \<longrightarrow>
      checkpoint st' = checkpoint st \<and> best_val_loss st' = best_val_loss st \<and>
      train_loop env data cfg (epoch_idx # rest) st = (st', Some e)) \<and>
   (\<exists>st0. train env data cfg w0 o0 ckpt0
             = train_loop env data cfg [0..<nat (max_epochs cfg)] st0 \<and>
          early_stopper st0 = early_stopping env ''min'' (patience cfg) False \<and>
          best_val_loss st0 = PosInf \<and> checkpoint st0 = ckpt0 \<and> log st0 = [])"
proof -
  have a: "saved_on_float_improvement (val_history (log final))"
    if run: "train env data cfg w0 o0 ckpt0 = (final, outcome)"
    by (rule train_loop_invariant [OF run [unfolded train_def]])
       (simp_all add: saved_on_float_improvement_def)
  have b: "\<exists>val_loss l f c vf vc.
         log st' = log st @ [TrainLog (epoch_idx + 1) l f c,
                             ValidationLog (epoch_idx + 1) val_loss vf vc]
                     @ (if float_less val_loss (best_val_loss st) then [WeightsSaved] else [])
                     @ (if stop then [EarlyStopLog] else []) \<and>
         checkpoint st' = (if float_less val_loss (best_val_loss st) then Some (weights st')
                           else checkpoint st) \<and>
         best_val_loss st' = (if float_less val_loss (best_val_loss st) then val_loss
                              else best_val_loss st) \<and>
         stop = fst (early_stopper_step env (early_stopper st) val_loss) \<and>
         early_stopper st' = snd (early_stopper_step env (early_stopper st) val_loss) \<and>
         train_loop env data cfg (epoch_idx # rest) st
           = (if stop then (st', None) else train_loop env data cfg rest st')"
    if step: "epoch_step env data cfg epoch_idx st = (st', Inr stop)"
  proof -
    have "train_loop env data cfg (epoch_idx # rest) st
           = (if stop then (st', None) else train_loop env data cfg rest st')"
      using step by simp
    with epoch_step_summary [OF step] show ?thesis by blast
  qed
  have c: "checkpoint st' = checkpoint st \<and> best_val_loss st' = best_val_loss st \<and>
      train_loop env data cfg (epoch_idx # rest) st = (st', Some e)"
    if step: "epoch_step env data cfg epoch_idx st = (st', Inl e)"
    using epoch_step_InlD [OF step] step by simp
  have d: "\<exists>st0. train env data cfg w0 o0 ckpt0
             = train_loop env data cfg [0..<nat (max_epochs cfg)] st0 \<and>
          early_stopper st0 = early_stopping env ''min'' (patience cfg) False \<and>
          best_val_loss st0 = PosInf \<and> checkpoint st0 = ckpt0 \<and> log st0 = []"
    unfolding train_def
    by (rule exI [of _ "\<lparr> weights = w0, optimizer = o0,
         early_stopper = early_stopping env ''min'' (patience cfg) False,
         best_val_loss = PosInf, checkpoint = ckpt0, log = [], metric_name_var = None \<rparr>"]) simp
  from a b c d show ?thesis by blast
qed

theorem checkpoint_saved_on_float_improvement_witness:
  "train (sample_env Continue) nan_loaders sample_config 0 () None
     = (\<lparr> weights = 3, optimizer = (), early_stopper = 3, best_val_loss = Finite 2,
          checkpoint = Some 2,
          log = [TrainLog 1 (Finite 0) (Finite 0) (Finite 0),
                 ValidationLog 1 NaN NaN (Finite 0),
                 TrainLog 2 (Finite 0) (Finite 0) (Finite 0),
                 ValidationLog 2 (Finite 2) (Finite 2) (Finite 0), WeightsSaved,
                 TrainLog 3 (Finite 0) (Finite 0) (Finite 0),
                 ValidationLog 3 (Finite 3) (Finite 3) (Finite 0), EarlyStopLog],
          metric_name_var = Some ''L1'' \<rparr>, None) \<and>
   saved_on_float_improvement [(NaN, False), (Finite 2, True), (Finite 3, False)] \<and>
   train_loop (sample_env Continue) (sample_loaders 1) sample_config [1]
       \<lparr> weights = 1, optimizer = (), early_stopper = 1, best_val_loss = Finite 3,
         checkpoint = Some 1, log = [], metric_name_var = Some ''L1'' \<rparr>
     = (\<lparr> weights = 2, optimizer = (), early_stopper = 2, best_val_loss = Finite 3,
          checkpoint = Some 1,
          log = [TrainLog 2 (Finite 0) (Finite 0) (Finite 0),
                 ValidationLog 2 (Finite 5) (Finite 5) (Finite 0)],
          metric_name_var = Some ''L1'' \<rparr>, None) \<and>
   train_loop (sample_env Continue) (sample_loaders 0) sample_config [0, 1]
       \<lparr> weights = 0, optimizer = (), early_stopper = 0, best_val_loss = PosInf,
         checkpoint = None, log = [], metric_name_var = None \<rparr>
     = (\<lparr> weights = 1, optimizer = (), early_stopper = 0, best_val_loss = PosInf,
          checkpoint = None, log = [TrainLog 1 (Finite 0) (Finite 0) (Finite 0)],
          metric_name_var = Some ''L1'' \<rparr>, Some ZeroDivisionError)"
proof -
  let ?env = "sample_env Continue"
  let ?final = "\<lparr> weights = 3, optimizer = (), early_stopper = 3, best_val_loss = Finite 2,
          checkpoint = Some (2 :: nat),
          log = [TrainLog 1 (Finite 0) (Finite 0) (Finite 0),
                 ValidationLog 1 NaN NaN (Finite 0),
                 TrainLog 2 (Finite 0) (Finite 0) (Finite 0),
                 ValidationLog 2 (Finite 2) (Finite 2) (Finite 0), WeightsSaved,
                 TrainLog 3 (Finite 0) (Finite 0) (Finite 0),
                 ValidationLog 3 (Finite 3) (Finite 3) (Finite 0), EarlyStopLog],
          metric_name_var = Some ''L1'' \<rparr>"
  let ?before = "\<lparr> weights = 1 :: nat, optimizer = (), early_stopper = 1 :: nat,
         best_val_loss = Finite 3, checkpoint = Some (1 :: nat), log = [],
         metric_name_var = Some ''L1'' \<rparr>"
  let ?after = "\<lparr> weights = 2 :: nat, optimizer = (), early_stopper = 2 :: nat,
          best_val_loss = Finite 3, checkpoint = Some (1 :: nat),
          log = [TrainLog 2 (Finite 0) (Finite 0) (Finite 0),
                 ValidationLog 2 (Finite 5) (Finite 5) (Finite 0)],
          metric_name_var = Some ''L1'' \<rparr>"
  let ?init = "\<lparr> weights = 0 :: nat, optimizer = (), early_stopper = 0 :: nat,
         best_val_loss = PosInf, checkpoint = None :: nat option, log = [],
         metric_name_var = None \<rparr>"
  let ?err = "\<lparr> weights = 1 :: nat, optimizer = (), early_stopper = 0 :: nat,
         best_val_loss = PosInf, checkpoint = None :: nat option,
         log = [TrainLog 1 (Finite 0) (Finite 0) (Finite 0)],
         metric_name_var = Some ''L1'' \<rparr>"
  have run: "train ?env nan_loaders sample_config 0 () None = (?final, None)"
    by code_simp
  have hist: "val_history (log ?final) = [(NaN, False), (Finite 2, True), (Finite 3, False)]"
    by simp
  have step: "epoch_step ?env (sample_loaders 1) sample_config 1 ?before = (?after, Inr False)"
    by code_simp
  have bad: "epoch_step ?env (sample_loaders 0) sample_config 0 ?init
               = (?err, Inl ZeroDivisionError)"
    by code_simp
  note main = checkpoint_saved_on_float_improvement
  from main [where env = ?env and data = nan_loaders and cfg = sample_config
      and ?w0.0 = 0 and ?o0.0 = "()" and ?ckpt0.0 = None and final = ?final and outcome = None]
    run hist
  have a: "saved_on_float_improvement [(NaN, False), (Finite 2, True), (Finite 3, False)]"
    by simp
  from main [where env = ?env and data = "sample_loaders 0" and cfg = sample_config
      and epoch_idx = 0 and st = ?init and st' = ?err and e = ZeroDivisionError and rest = "[1]"]
    bad
  have c: "train_loop ?env (sample_loaders 0) sample_config [0, 1] ?init
             = (?err, Some ZeroDivisionError)" by blast
  from main [where env = ?env and data = "sample_loaders 1" and cfg = sample_config
      and epoch_idx = 1 and st = ?before and st' = ?after and stop = False and rest = "[]"]
    step
  have b: "train_loop ?env (sample_loaders 1) sample_config [1] ?before = (?after, None)"
    by auto
  from run a b c show ?thesis by blast
qed

text \<open>
  The rule as the claim words it fails on a run whose first validation loss is NaN: the
  first epoch does not save, and the second saves although its loss 2 is not lower than
  the NaN before it.
\<close>

theorem checkpoint_rule_nan_counterexample:
  "val_history (log (fst (train (sample_env Continue) nan_loaders sample_config 0 () None)))
     = [(NaN, False), (Finite 2, True), (Finite 3, False)] \<and>
   \<not> saved_on_improvement
       (val_history (log (fst (train (sample_env Continue) nan_loaders sample_config 0 ()
          None))))"
proof -
  have h: "val_history (log (fst (train (sample_env Continue) nan_loaders sample_config 0 ()
             None)))
           = [(NaN, False), (Finite 2, True), (Finite 3, False)]"
    by code_simp
  have "\<not> saved_on_improvement [(NaN, False), (Finite 2, True), (Finite 3, False)]"
    unfolding saved_on_improvement_def
    by (auto intro!: exI [of _ 0])
  with h show ?thesis by simp
qed

section \<open>Properties of an iteration\<close>

subsection \<open>The loss\<close>

lemma bind_result_Inl:
  "bind_result r f = Inl e \<longleftrightarrow> r = Inl e \<or> (\<exists>v. r = Inr v \<and> f v = Inl e)"
  by (cases r) (auto simp: bind_result_def)

lemma bind_result_simps [simp]:
  "bind_result (Inl e) f = Inl e" "bind_result (Inr v) f = f v"
  by (simp_all add: bind_result_def)

lemma cat_channels_Inr: "cat_channels a u = Inr pair \<Longrightarrow> pair = map (\<lambda>(x, y). x @ y) (zip a u)"
  by (auto simp: cat_channels_def split: if_splits)

lemma batch_forward_InrD:
  assumes "batch_forward env sm w plot_freq iter_idx b = Inr wd"
  shows "\<exists>pair wp.
           tensor_shape1 (image_n_view b) = 2 \<and> plot_freq \<noteq> 0 \<and>
           split_views sm (permuted_idx b) (image_n_view b)
             = Inr (unannotated_images wd, annotated_images wd) \<and>
           prepare_labels sm (permuted_idx b) (label_n_view b)
             = Inr (label_is_binary wd, unannotated_labels wd, annotated_labels wd) \<and>
           cat_channels (annotated_images wd) (unannotated_images wd) = Inr pair \<and>
           warp_predictor env w pair = Inr wp \<and>
           warper env (unannotated_images wd) (map (take 2) wp) = Inr (images_U2A wd) \<and>
           warper env (images_U2A wd) (map (drop 2) wp) = Inr (images_U2A_A2U wd) \<and>
           warper env (annotated_labels wd) (map (drop 2) wp) = Inr (labels_A2U wd)"
  using assms
  by (auto simp: batch_forward_def bind_result_Inr shall_plot_of_def Let_def
           split: if_splits prod.splits)

lemma batch_finish_InrD:
  assumes "batch_finish env ph path epoch_idx iter_idx wd = Inr r"
  shows "\<exists>lf lc. mse_loss env (annotated_images wd) (images_U2A wd) = Inr lf \<and>
                 mse_loss env (unannotated_images wd) (images_U2A_A2U wd) = Inr lc \<and>
                 loss r = float_add lf lc \<and> loss_forward r = lf \<and> loss_cyclic r = lc"
  using assms
  by (auto simp: batch_finish_def bind_result_Inr Let_def split: if_splits prod.splits)

lemma four_channels:
  assumes "length s = 4"
  shows "take 2 s = [s ! 0, s ! 1] \<and> drop 2 s = [s ! 2, s ! 3]"
proof -
  from assms obtain a b c d where "s = [a, b, c, d]"
    by (cases s; cases "tl s"; cases "tl (tl s)"; cases "tl (tl (tl s))") auto
  then show ?thesis by simp
qed

lemma batch_loss_structure:
  assumes "train_batch env cfg epoch_idx plot_freq iter_idx (w, opt) b = Inr (r, wo')
           \<or> val_batch env cfg epoch_idx plot_freq iter_idx w b = Inr r"
  shows "\<exists>U A pair wp U2A U2A2U lf lc.
           split_views (strong cfg) (permuted_idx b) (image_n_view b) = Inr (U, A) \<and>
           cat_channels A U = Inr pair \<and>
           pair = map (\<lambda>(x, y). x @ y) (zip A U) \<and>
           warp_predictor env w pair = Inr wp \<and>
           warper env U (map (take 2) wp) = Inr U2A \<and>
           warper env U2A (map (drop 2) wp) = Inr U2A2U \<and>
           mse_loss env A U2A = Inr lf \<and>
           mse_loss env U U2A2U = Inr lc \<and>
           loss r = float_add lf lc"
proof -
  have "\<exists>wd ph. batch_forward env (strong cfg) w plot_freq iter_idx b = Inr wd \<and>
           batch_finish env ph (output_save_path cfg) epoch_idx iter_idx wd = Inr r"
    using assms
  proof
    assume "train_batch env cfg epoch_idx plot_freq iter_idx (w, opt) b = Inr (r, wo')"
    then show ?thesis
      by (cases "pdb_set_trace env epoch_idx iter_idx")
         (auto simp: train_batch_def bind_result_Inr)
  next
    assume "val_batch env cfg epoch_idx plot_freq iter_idx w b = Inr r"
    then show ?thesis by (auto simp: val_batch_def bind_result_Inr)
  qed
  then obtain wd ph where
    f: "batch_forward env (strong cfg) w plot_freq iter_idx b = Inr wd" and
    g: "batch_finish env ph (output_save_path cfg) epoch_idx iter_idx wd = Inr r"
    by blast
  from batch_forward_InrD [OF f] obtain pair wp where
    p: "split_views (strong cfg) (permuted_idx b) (image_n_view b)
             = Inr (unannotated_images wd, annotated_images wd)"
       "cat_channels (annotated_images wd) (unannotated_images wd) = Inr pair"
       "warp_predictor env w pair = Inr wp"
       "warper env (unannotated_images wd) (map (take 2) wp) = Inr (images_U2A wd)"
       "warper env (images_U2A wd) (map (drop 2) wp) = Inr (images_U2A_A2U wd)"
    by blast
  from batch_finish_InrD [OF g] obtain lf lc where
    l: "mse_loss env (annotated_images wd) (images_U2A wd) = Inr lf"
       "mse_loss env (unannotated_images wd) (images_U2A_A2U wd) = Inr lc"
       "loss r = float_add lf lc" by blast
  from p l cat_channels_Inr [OF p(2)] show ?thesis by blast
qed


text \<open>
  \<^bold>\<open>C4\<close>. Whenever an iteration of the training loop or of the validation loop returns, the
  network was applied to the annotated images with the unannotated images behind them on
  the channel axis; the forward field is the first two channels of its output and the
  reverse field the channels from the third on, which are the channels 2 and 3 of an
  output with four channels; and the loss is the sum of \<^verbatim>\<open>mse_loss\<close> of the annotated images
  and the unannotated images warped forward, and \<^verbatim>\<open>mse_loss\<close> of the unannotated images and
  the same warped forward and then back. The labels have no part in it: with any other
  labels on which the iteration returns, the loss is the same.
\<close>

theorem loss_is_forward_plus_cyclic:
  assumes "train_batch env cfg epoch_idx plot_freq iter_idx (w, opt) b = Inr (r, wo')
           \<or> val_batch env cfg epoch_idx plot_freq iter_idx w b = Inr r"
  shows "\<exists>U A pair wp U2A U2A2U lf lc.
           split_views (strong cfg) (permuted_idx b) (image_n_view b) = Inr (U, A) \<and>
           cat_channels A U = Inr pair \<and>
           pair = map (\<lambda>(x, y). x @ y) (zip A U) \<and>
           warp_predictor env w pair = Inr wp \<and>
           (\<forall>s \<in> set wp. length s = 4 \<longrightarrow> take 2 s = [s ! 0, s ! 1] \<and> drop 2 s = [s ! 2, s ! 3]) \<and>
           warper env U (map (take 2) wp) = Inr U2A \<and>
           warper env U2A (map (drop 2) wp) = Inr U2A2U \<and>
           mse_loss env A U2A = Inr lf \<and>
           mse_loss env U U2A2U = Inr lc \<and>
           loss r = float_add lf lc \<and>
           (\<forall>labels r' wo''.
              train_batch env cfg epoch_idx plot_freq iter_idx (w, opt)
                  (b \<lparr> label_n_view := labels \<rparr>) = Inr (r', wo'')
              \<or> val_batch env cfg epoch_idx plot_freq iter_idx w
                  (b \<lparr> label_n_view := labels \<rparr>) = Inr r'
              \<longrightarrow> loss r' = float_add lf lc)"
proof -
  from batch_loss_structure [OF assms] obtain U A pair wp U2A U2A2U lf lc where
    s: "split_views (strong cfg) (permuted_idx b) (image_n_view b) = Inr (U, A)"
       "cat_channels A U = Inr pair"
       "pair = map (\<lambda>(x, y). x @ y) (zip A U)"
       "warp_predictor env w pair = Inr wp"
       "warper env U (map (take 2) wp) = Inr U2A"
       "warper env U2A (map (drop 2) wp) = Inr U2A2U"
       "mse_loss env A U2A = Inr lf"
       "mse_loss env U U2A2U = Inr lc"
       "loss r = float_add lf lc" by blast
  note ch = four_channels
  have ind: "loss r' = float_add lf lc"
    if other: "train_batch env cfg epoch_idx plot_freq iter_idx (w, opt)
                  (b \<lparr> label_n_view := labels \<rparr>) = Inr (r', wo'')
              \<or> val_batch env cfg epoch_idx plot_freq iter_idx w
                  (b \<lparr> label_n_view := labels \<rparr>) = Inr r'" for labels r' wo''
  proof -
    from batch_loss_structure [OF other] obtain U' A' pair' wp' U2A' U2A2U' lf' lc' where
      s': "split_views (strong cfg) (permuted_idx b) (image_n_view b) = Inr (U', A')"
       "pair' = map (\<lambda>(x, y). x @ y) (zip A' U')"
       "warp_predictor env w pair' = Inr wp'"
       "warper env U' (map (take 2) wp') = Inr U2A'"
       "warper env U2A' (map (drop 2) wp') = Inr U2A2U'"
       "mse_loss env A' U2A' = Inr lf'"
       "mse_loss env U' U2A2U' = Inr lc'"
       "loss r' = float_add lf' lc'" by auto
    from s(1) s'(1) have e: "U' = U" "A' = A" by simp_all
    with s(3) s'(2) have "pair' = pair" by simp
    with s(4) s'(3) have "wp' = wp" by simp
    with s(5) s'(4) e have "U2A' = U2A" by simp
    with s(6) s'(5) \<open>wp' = wp\<close> have "U2A2U' = U2A2U" by simp
    with s(7,8) s'(6,7) e \<open>U2A' = U2A\<close> have "lf' = lf" "lc' = lc" by simp_all
    with s'(8) show ?thesis by simp
  qed
  have t: "\<forall>s \<in> set wp. length s = 4 \<longrightarrow> take 2 s = [s ! 0, s ! 1] \<and> drop 2 s = [s ! 2, s ! 3]"
    using ch by blast
  have i: "\<forall>labels r' wo''.
              train_batch env cfg epoch_idx plot_freq iter_idx (w, opt)
                  (b \<lparr> label_n_view := labels \<rparr>) = Inr (r', wo'')
              \<or> val_batch env cfg epoch_idx plot_freq iter_idx w
                  (b \<lparr> label_n_view := labels \<rparr>) = Inr r'
              \<longrightarrow> loss r' = float_add lf lc"
    using ind by blast
  show ?thesis by (intro exI conjI) (rule s t i)+
qed

theorem loss_is_forward_plus_cyclic_witness:
  "train_batch (sample_env Continue) sample_config 0 1 0 (0, ())
       (sample_batch 4 (FloatLabels (Views3 [[[[7]], [[9]]]])))
     = Inr (\<lparr> metric_name = ''L1'', metric_ref = [2], metric_seg = [2], loss = Finite 4,
               loss_forward = Finite 4, loss_cyclic = Finite 0 \<rparr>, (1, ())) \<and>
   val_batch (sample_env Continue) sample_config 0 1 0 0
       (sample_batch 4 (IntLabels (Views3 [[[[0]], [[1]]]])))
     = Inr \<lparr> metric_name = ''DSC'', metric_ref = [0], metric_seg = [0], loss = Finite 4,
              loss_forward = Finite 4, loss_cyclic = Finite 0 \<rparr> \<and>
   (\<exists>lf lc. mse_loss (sample_env Continue) [[[[4]]]] [[[[0]]]] = Inr lf \<and>
            mse_loss (sample_env Continue) [[[[0]]]] [[[[0]]]] = Inr lc \<and>
            Finite 4 = float_add lf lc)"
proof -
  let ?env = "sample_env Continue"
  let ?b = "sample_batch 4 (FloatLabels (Views3 [[[[7]], [[9]]]]))"
  let ?r = "\<lparr> metric_name = ''L1'', metric_ref = [2], metric_seg = [2], loss = Finite 4,
               loss_forward = Finite 4, loss_cyclic = Finite 0 \<rparr>"
  let ?rv = "\<lparr> metric_name = ''DSC'', metric_ref = [0], metric_seg = [0], loss = Finite 4,
              loss_forward = Finite 4, loss_cyclic = Finite 0 \<rparr>"
  have t: "train_batch ?env sample_config 0 1 0 (0, ()) ?b = Inr (?r, (1, ()))"
    by code_simp
  have v: "val_batch ?env sample_config 0 1 0 0
             (sample_batch 4 (IntLabels (Views3 [[[[0]], [[1]]]]))) = Inr ?rv"
    by code_simp
  have sv: "split_views (strong sample_config) (permuted_idx ?b) (image_n_view ?b)
              = Inr ([[[[0]]]], [[[[4]]]])"
    by code_simp
  have wp: "warp_predictor ?env 0 p = Inr p" "warper ?env x f = Inr x"
    for p x f :: "real tensor4"
    by (simp_all add: sample_env_def)
  from loss_is_forward_plus_cyclic [where env = ?env and cfg = sample_config and epoch_idx = 0
      and plot_freq = 1 and iter_idx = 0 and w = 0 and opt = "()" and b = ?b and r = ?r
      and wo' = "(1, ())"] t
  obtain U A pair wpred U2A U2A2U lf lc where
    s: "split_views (strong sample_config) (permuted_idx ?b) (image_n_view ?b) = Inr (U, A)"
       "warp_predictor ?env 0 pair = Inr wpred"
       "warper ?env U (map (take 2) wpred) = Inr U2A"
       "warper ?env U2A (map (drop 2) wpred) = Inr U2A2U"
       "mse_loss ?env A U2A = Inr lf" "mse_loss ?env U U2A2U = Inr lc"
       "loss ?r = float_add lf lc"
    by blast
  from s(1) sv have e: "U = [[[[0]]]]" "A = [[[[4]]]]" by simp_all
  from s(3,4) have "U2A = U" "U2A2U = U" by (simp_all add: wp)
  with s(5,6,7) e have "mse_loss ?env [[[[4]]]] [[[[0]]]] = Inr lf"
      "mse_loss ?env [[[[0]]]] [[[[0]]]] = Inr lc" "Finite 4 = float_add lf lc"
    by simp_all
  with t v show ?thesis by blast
qed

subsection \<open>The breakpoint\<close>








subsection \<open>The assertion on binary labels\<close>

lemma fold_max_bounds:
  fixes x :: real
  shows "fold max xs x \<in> set (x # xs) \<and> (\<forall>y \<in> set (x # xs). y \<le> fold max xs x)"
proof (induction xs arbitrary: x)
  case Nil
  then show ?case by simp
next
  case (Cons a xs)
  from Cons.IH [of "max a x"] show ?case by (auto simp: max_def split: if_splits)
qed

lemma tensor_max_is_max:
  assumes "tensor_max t = Inr m"
  shows "m \<in> set (flat4 t) \<and> (\<forall>y \<in> set (flat4 t). y \<le> m)"
proof -
  from assms obtain x xs where f: "flat4 t = x # xs" and m: "m = fold max xs x"
    by (auto simp: tensor_max_def split: list.splits)
  from fold_max_bounds [of xs x] show ?thesis unfolding f m .
qed


text \<open>
  \<^bold>\<open>C8\<close> (as amended). The claim takes every label value outside 0 and 1 to abort the
  batch; the source asserts \<^verbatim>\<open>annotated_labels.max() in [0, 1]\<close>, that is, it looks at the
  greatest annotated label only. For integer labels with the greatest annotated label
  \<open>m\<close>: if \<open>m\<close> is neither 0 nor 1, the preparation of the labels raises \<^verbatim>\<open>AssertionError\<close>,
  and so does the iteration of either loop once it has passed the assertion on the views
  and the plot interval is not 0, before any thresholding and any loss; if \<open>m\<close> is 0 or 1,
  both label tensors are thresholded at 0.5, whatever else they hold.
\<close>

theorem binary_assert_checks_annotated_max:
  assumes int: "label_n_view b = IntLabels v"
      and pair: "label_view_pair (strong cfg) (permuted_idx b) v = Inr (ul, al)"
      and mx: "tensor_max (map4 real_of_int al) = Inr m"
  shows "m \<in> set (flat4 (map4 real_of_int al)) \<and>
         (\<forall>y \<in> set (flat4 (map4 real_of_int al)). y \<le> m) \<and>
         (m \<noteq> 0 \<and> m \<noteq> 1 \<longrightarrow>
            prepare_labels (strong cfg) (permuted_idx b) (label_n_view b) = Inl AssertionError \<and>
            (tensor_shape1 (image_n_view b) = 2 \<and> plot_freq \<noteq> 0 \<and>
             split_views (strong cfg) (permuted_idx b) (image_n_view b) = Inr (ui, ai) \<longrightarrow>
               train_batch env cfg epoch_idx plot_freq iter_idx (w, opt) b = Inl AssertionError \<and>
               val_batch env cfg epoch_idx plot_freq iter_idx w b = Inl AssertionError)) \<and>
         (m = 0 \<or> m = 1 \<longrightarrow>
            prepare_labels (strong cfg) (permuted_idx b) (label_n_view b)
              = Inr (True, threshold (map4 real_of_int ul), threshold (map4 real_of_int al)))"
proof -
  note bounds = tensor_max_is_max [OF mx]
  have bad: "prepare_labels (strong cfg) (permuted_idx b) (label_n_view b) = Inl AssertionError"
    if "m \<noteq> 0 \<and> m \<noteq> 1"
    using that by (simp add: prepare_labels_def int pair mx Let_def)
  have fwd: "batch_forward env (strong cfg) w plot_freq iter_idx b = Inl AssertionError"
    if "m \<noteq> 0 \<and> m \<noteq> 1" "tensor_shape1 (image_n_view b) = 2" "plot_freq \<noteq> 0"
       "split_views (strong cfg) (permuted_idx b) (image_n_view b) = Inr (ui, ai)"
    using that bad by (simp add: batch_forward_def shall_plot_of_def)
  have abort: "train_batch env cfg epoch_idx plot_freq iter_idx (w, opt) b = Inl AssertionError \<and>
               val_batch env cfg epoch_idx plot_freq iter_idx w b = Inl AssertionError"
    if "m \<noteq> 0 \<and> m \<noteq> 1" "tensor_shape1 (image_n_view b) = 2" "plot_freq \<noteq> 0"
       "split_views (strong cfg) (permuted_idx b) (image_n_view b) = Inr (ui, ai)"
    using fwd [OF that] by (simp add: train_batch_def val_batch_def)
  have good: "prepare_labels (strong cfg) (permuted_idx b) (label_n_view b)
              = Inr (True, threshold (map4 real_of_int ul), threshold (map4 real_of_int al))"
    if "m = 0 \<or> m = 1"
    using that by (auto simp: prepare_labels_def int pair mx Let_def)
  from bounds bad abort good show ?thesis by blast
qed

theorem binary_assert_checks_annotated_max_witness:
  "train_batch (sample_env Continue) sample_config 0 1 0 (0, ())
       (sample_batch 4 (IntLabels (Views3 [[[[0, 1]], [[0, 2]]]]))) = Inl AssertionError \<and>
   val_batch (sample_env Continue) sample_config 0 1 0 0
       (sample_batch 4 (IntLabels (Views3 [[[[0, 1]], [[0, 2]]]]))) = Inl AssertionError \<and>
   prepare_labels False [0] (IntLabels (Views3 [[[[0, 3]], [[0, 1]]]]))
     = Inr (True, threshold [[[[0, 3]]]], threshold [[[[0, 1]]]])"
proof -
  let ?bad = "sample_batch 4 (IntLabels (Views3 [[[[0, 1]], [[0, 2]]]]))"
  let ?ok = "sample_batch 4 (IntLabels (Views3 [[[[0, 3]], [[0, 1]]]]))"
  note main = binary_assert_checks_annotated_max
  have s: "strong sample_config = False" "permuted_idx ?bad = [0]" "permuted_idx ?ok = [0]"
    "label_n_view ?bad = IntLabels (Views3 [[[[0, 1]], [[0, 2]]]])"
    "label_n_view ?ok = IntLabels (Views3 [[[[0, 3]], [[0, 1]]]])"
    by (simp_all add: sample_config_def sample_batch_def)
  have p1: "label_view_pair (strong sample_config) (permuted_idx ?bad) (Views3 [[[[0, 1]], [[0, 2]]]])
              = Inr ([[[[0, 1]]]], [[[[0, 2 :: int]]]])"
    by code_simp
  have m1: "tensor_max (map4 real_of_int [[[[0, 2]]]]) = Inr 2" by code_simp
  have sh: "tensor_shape1 (image_n_view ?bad) = 2" by code_simp
  have sv: "split_views (strong sample_config) (permuted_idx ?bad) (image_n_view ?bad)
              = Inr ([[[[0]]]], [[[[4]]]])" by code_simp
  from main [where b = ?bad and cfg = sample_config and v = "Views3 [[[[0, 1]], [[0, 2]]]]"
      and ul = "[[[[0, 1]]]]" and al = "[[[[0, 2]]]]" and m = 2 and plot_freq = 1
      and env = "sample_env Continue" and epoch_idx = 0 and iter_idx = 0 and w = 0 and opt = "()"
      and ui = "[[[[0]]]]" and ai = "[[[[4]]]]", OF s(4) p1 m1] sh sv
  have a: "train_batch (sample_env Continue) sample_config 0 1 0 (0, ()) ?bad = Inl AssertionError"
          "val_batch (sample_env Continue) sample_config 0 1 0 0 ?bad = Inl AssertionError"
    by simp_all
  have p2: "label_view_pair (strong sample_config) (permuted_idx ?ok) (Views3 [[[[0, 3]], [[0, 1]]]])
              = Inr ([[[[0, 3]]]], [[[[0, 1 :: int]]]])"
    by code_simp
  have m2: "tensor_max (map4 real_of_int [[[[0, 1]]]]) = Inr 1" by code_simp
  from main [where b = ?ok and cfg = sample_config and v = "Views3 [[[[0, 3]], [[0, 1]]]]"
      and ul = "[[[[0, 3]]]]" and al = "[[[[0, 1]]]]" and m = 1, OF s(5) p2 m2]
  have b: "prepare_labels False [0] (IntLabels (Views3 [[[[0, 3]], [[0, 1]]]]))
     = Inr (True, threshold [[[[0, 3]]]], threshold [[[[0, 1]]]])"
    by (simp add: s map4_def)
  from a b show ?thesis by blast
qed


text \<open>
  The claim as stated fails on a batch whose unannotated label is 2 and whose annotated
  label is 1, and on a batch whose annotated labels are \<open>- 1\<close> and 1: the assertion holds,
  the labels 2 and \<open>- 1\<close> become 1 and 0, and the iteration returns its loss.
\<close>

theorem binary_labels_coerced_counterexample:
  "prepare_labels False [0] (IntLabels (Views3 [[[[2]], [[1]]]]))
     = Inr (True, [[[[1]]]], [[[[1]]]]) \<and>
   prepare_labels False [0] (IntLabels (Views3 [[[[0, 1]], [[- 1, 1]]]]))
     = Inr (True, [[[[0, 1]]]], [[[[0, 1]]]]) \<and>
   val_batch (sample_env Continue) sample_config 0 1 0 0
       (sample_batch 4 (IntLabels (Views3 [[[[2]], [[1]]]])))
     = Inr \<lparr> metric_name = ''DSC'', metric_ref = [0], metric_seg = [0], loss = Finite 4,
              loss_forward = Finite 4, loss_cyclic = Finite 0 \<rparr>"
  by code_simp

section \<open>Properties of the inference\<close>

subsection \<open>Names of the module\<close>

lemma dataset_name_unbound_in_module:
  "module_namespace model_name ''dataset_name'' = None"
  by (simp add: module_namespace_def module_names_def)

lemma load_match_pairs_unbound_in_module:
  "module_namespace model_name ''load_match_pairs'' = None"
  by (simp add: module_namespace_def module_names_def)

lemma infer_setup_InrD:
  assumes "infer_setup world g cfg = Inr (pred_label_folder, pairs)"
  shows "g ''load_match_pairs'' \<noteq> None"
    and "match_pairs_loaded world = Inr pairs"
    and "\<exists>root name. cfg ''output_save_root'' = Some (StrVal root) \<and>
                     g ''model_name'' = Some (StrVal name) \<and>
                     pred_label_folder = path_join2 (path_join2 root name) ''pred_patches''"
  using assms
  by (auto simp: infer_setup_def bind_result_Inr lookup_global_def get_attr_def as_str_def
      split: option.splits pyval.splits if_splits)

text \<open>
  With the names of the file alone, \<^verbatim>\<open>load_match_pairs\<close> is not bound, and no call gets as
  far as the loop over the batches.
\<close>

lemma infer_stops_before_the_batches:
  "\<exists>e. infer env w world (module_namespace model_name) cfg evaluate label_metrics
         = (\<lparr> files_written = [], lines_logged = [] \<rparr>, Inl e)"
proof (cases "infer_setup world (module_namespace model_name) cfg")
  case (Inl e)
  then show ?thesis by (simp add: infer_def infer_stitched_def bind_result_def)
next
  case (Inr res)
  obtain folder pairs where "res = (folder, pairs)" by (cases res)
  with Inr infer_setup_InrD(1) [of world "module_namespace model_name" cfg folder pairs]
  show ?thesis by (simp add: load_match_pairs_unbound_in_module)
qed

subsection \<open>The files written before the evaluation\<close>







text \<open>With \<^verbatim>\<open>dataset_name\<close> bound, the same call logs the stitched metrics and returns.\<close>

lemma infer_logs_when_bound:
  "infer (sample_env Continue) 0 sample_world
      (sample_namespace (''dataset_name'' \<mapsto> StrVal ''MoNuSeg''))
      sample_infer_config sample_evaluate sample_label_metrics
     = (fst (infer (sample_env Continue) 0 sample_world
               (sample_namespace (''dataset_name'' \<mapsto> StrVal ''MoNuSeg''))
               sample_infer_config sample_evaluate sample_label_metrics), Inr ()) \<and>
   lines_logged (fst (infer (sample_env Continue) 0 sample_world
       (sample_namespace (''dataset_name'' \<mapsto> StrVal ''MoNuSeg''))
       sample_infer_config sample_evaluate sample_label_metrics))
     = [StitchedMetric ''dice'' 1]"
proof -
  have "snd (infer (sample_env Continue) 0 sample_world
      (sample_namespace (''dataset_name'' \<mapsto> StrVal ''MoNuSeg''))
      sample_infer_config sample_evaluate sample_label_metrics) = Inr ()"
    by code_simp
  moreover have "lines_logged (fst (infer (sample_env Continue) 0 sample_world
       (sample_namespace (''dataset_name'' \<mapsto> StrVal ''MoNuSeg''))
       sample_infer_config sample_evaluate sample_label_metrics))
     = [StitchedMetric ''dice'' 1]"
    by code_simp
  ultimately show ?thesis by (metis prod.collapse)
qed

end
